theory Spec2Isabelle
  imports Complex_Main
begin

section \<open>Numbers\<close>

text \<open>
  The simulator computes with JavaScript numbers. They are modelled as real numbers:
  \<open>Math.max\<close>, \<open>Math.min\<close>, \<open>Math.abs\<close>, \<open>Math.sqrt\<close> and \<open>Math.pow(x, n)\<close> for a
  literal exponent are \<open>max\<close>, \<open>min\<close>, \<open>abs\<close>, \<open>sqrt\<close> and \<open>x ^ n\<close>. Rounding is
  not modelled, and the model agrees with the code where no division by zero and no
  square root of a negative number occurs; the theorems below that depend on such a
  term say so in a hypothesis.
\<close>

text \<open>
  The phase timer of the fixed cycle is the exception: \<open>phaseTimer += deltaTime\<close> is a
  sum of doubles, and whether the timer has reached a duration depends on its rounding.
  That sum is \<open>fadd\<close>, the exact sum rounded to the nearest double, a tie going to the
  double with the even significand (IEEE 754 binary64, the default rounding). A double
  other than 0 is a whole multiple of \<open>2 ^ k\<close>, where \<open>k\<close> is 52 below the binary exponent
  of the number and at least \<open>-1074\<close>; \<open>round_even\<close> picks the multiple. The overflow of a
  sum of \<open>2 ^ 1024\<close> or more to \<open>Infinity\<close> is not modelled.
\<close>

definition round_even :: "real \<Rightarrow> int" where
  "round_even y =
     (let f = \<lfloor>y\<rfloor>
      in if y - real_of_int f < 1/2 then f
         else if y - real_of_int f > 1/2 then f + 1
         else if even f then f else f + 1)"

definition ulp_exponent :: "real \<Rightarrow> int" where
  "ulp_exponent x = max (\<lfloor>log 2 \<bar>x\<bar>\<rfloor> - 52) (- 1074)"

definition double :: "real \<Rightarrow> real" where
  "double x =
     (if x = 0 then 0
      else real_of_int (round_even (x / power_int 2 (ulp_exponent x)))
           * power_int 2 (ulp_exponent x))"

definition fadd :: "real \<Rightarrow> real \<Rightarrow> real" where
  "fadd x y = double (x + y)"

section \<open>The car-following model (class IDMModel)\<close>

text \<open>
  The fields of an \<open>IDMModel\<close> object. The parameters \<open>v0\<close>, \<open>T\<close>, \<open>s0\<close>, \<open>a\<close>, \<open>b\<close> and
  \<open>bmax\<close> carry the prefix \<open>idm_\<close>.
\<close>

record IDMModel =
  idm_v0 :: real
  idm_T :: real
  idm_s0 :: real
  idm_a :: real
  idm_b :: real
  idm_bmax :: real
  driverfactor :: real
  speedlimit :: real
  speedmax :: real
  alpha_v0 :: real
  alpha_a :: real
  alpha_T :: real

text \<open>
  The constructor. \<open>rnd\<close> is the value that \<open>Math.random()\<close> returns, a number in
  \<open>[0, 1)\<close>.
\<close>

definition IDMModel_new :: "real \<Rightarrow> real \<Rightarrow> real \<Rightarrow> real \<Rightarrow> real \<Rightarrow> real \<Rightarrow> real \<Rightarrow> IDMModel" where
  "IDMModel_new v0 T s0 a b driverVariance rnd =
     \<lparr> idm_v0 = v0, idm_T = T, idm_s0 = s0, idm_a = a, idm_b = b,
       idm_bmax = 4,
       driverfactor = 1 + driverVariance * (rnd - 1/2),
       speedlimit = 50, speedmax = 60,
       alpha_v0 = 1, alpha_a = 1, alpha_T = 1 \<rparr>"

text \<open>The constructor with its default arguments, \<open>new IDMModel()\<close>.\<close>

definition IDMModel_default :: "real \<Rightarrow> IDMModel" where
  "IDMModel_default rnd = IDMModel_new 15 1 2 2 2 (2/10) rnd"

text \<open>The local variables of \<open>calcAccDet\<close>, in the order the method computes them.\<close>

definition v0eff :: "IDMModel \<Rightarrow> real" where
  "v0eff m = min (min (idm_v0 m * driverfactor m * alpha_v0 m) (speedlimit m)) (speedmax m)"

definition aeff :: "IDMModel \<Rightarrow> real" where
  "aeff m = idm_a m * driverfactor m"

definition accFree :: "IDMModel \<Rightarrow> real \<Rightarrow> real" where
  "accFree m v =
     (if v < v0eff m then aeff m * (1 - (v / v0eff m) ^ 4)
      else aeff m * (1 - v / v0eff m))"

definition sstar :: "IDMModel \<Rightarrow> real \<Rightarrow> real \<Rightarrow> real" where
  "sstar m v vl =
     idm_s0 m + max 0 (v * idm_T m + (1/2) * v * (v - vl) / sqrt (aeff m * idm_b m))"

definition accInt :: "IDMModel \<Rightarrow> real \<Rightarrow> real \<Rightarrow> real \<Rightarrow> real" where
  "accInt m s v vl =
     (if s > 0 \<and> v \<ge> 0 then - aeff m * (sstar m v vl / max s (idm_s0 m)) ^ 2 else 0)"

text \<open>\<open>calcAccDet(s, v, vl, al)\<close>; the method never reads \<open>al\<close>.\<close>

definition calcAccDet :: "IDMModel \<Rightarrow> real \<Rightarrow> real \<Rightarrow> real \<Rightarrow> real \<Rightarrow> real" where
  "calcAccDet m s v vl al = max (- idm_bmax m) (accFree m v + accInt m s v vl)"

text \<open>
  A gap that is not a number: \<open>u - u' - undefined\<close> is \<open>NaN\<close> when an operand is a
  property the object does not have. \<open>NaN > 0\<close> is false, so \<open>calcAccDet\<close> leaves
  the interaction term at 0. A gap is \<open>None\<close> for \<open>NaN\<close>.
\<close>

definition calcAccDet_gap :: "IDMModel \<Rightarrow> real option \<Rightarrow> real \<Rightarrow> real \<Rightarrow> real \<Rightarrow> real" where
  "calcAccDet_gap m gap v vl al =
     (case gap of
        Some s \<Rightarrow> calcAccDet m s v vl al
      | None \<Rightarrow> max (- idm_bmax m) (accFree m v + 0))"

section \<open>Vehicles\<close>

text \<open>
  A vehicle object of a road's \<open>veh\<close> array. The properties \<open>id\<close>, \<open>u\<close>, \<open>v\<close>,
  \<open>length\<close>, \<open>type\<close> and \<open>roadID\<close> carry the suffix \<open>_veh\<close>. A property that an object may lack is
  an option, \<open>None\<close> for \<open>undefined\<close>: \<open>Road.createVehicle\<close> and \<open>Car.update\<close> give a
  vehicle \<open>len\<close> and no \<open>length\<close>, and \<open>roadID\<close> is first written by
  \<open>Road.transferVehicle\<close> for a vehicle of \<open>Road.createVehicle\<close>.
\<close>

datatype isRegularVeh_method =
  ByType      \<comment> \<open>\<open>function() { return this.type === 'car' || this.type === 'truck'; }\<close>\<close>
| AlwaysTrue  \<comment> \<open>\<open>function() { return true; }\<close>\<close>

record vehicle =
  id_veh :: int
  roadID_veh :: "nat option"
  route :: "nat list option"
  u_veh :: real
  lane :: int
  v_veh :: real
  speed :: real
  acc :: real
  len :: real
  length_veh :: "real option"
  width :: real
  type_veh :: string
  dt_LC :: real
  dt_afterLC :: real
  fracLaneOptical :: real
  laneOld :: int
  dvdt :: real
  idmModel :: IDMModel
  mandatoryLaneChange :: bool
  tacticalLaneChange :: bool
  isRegularVeh :: "isRegularVeh_method option"

section \<open>The lane-change model (class MOBILModel)\<close>

record MOBILModel =
  mobil_p :: real
  aThr :: real
  biasRight :: real
  bSafe :: real
  gapMin :: real
  factorOther :: real

definition MOBILModel_new :: "real \<Rightarrow> real \<Rightarrow> real \<Rightarrow> real \<Rightarrow> MOBILModel" where
  "MOBILModel_new politeness threshold biasR safeDecel =
     \<lparr> mobil_p = politeness, aThr = threshold, biasRight = biasR, bSafe = safeDecel,
       gapMin = 2, factorOther = 1 \<rparr>"

text \<open>
  The four models a \<open>Road\<close> constructs; each leaves \<open>safeDecel\<close> at its default 4.0.
\<close>

definition LCModelMandatoryRight :: MOBILModel where
  "LCModelMandatoryRight = MOBILModel_new (1/10) (2/10) (5/10) 4"

definition LCModelMandatoryLeft :: MOBILModel where
  "LCModelMandatoryLeft = MOBILModel_new (1/10) (2/10) (- (5/10)) 4"

definition LCModelTactical :: MOBILModel where
  "LCModelTactical = MOBILModel_new (3/10) (3/10) (2/10) 4"

definition LCModelNormal :: MOBILModel where
  "LCModelNormal = MOBILModel_new (5/10) (5/10) (1/10) 4"

text \<open>
  \<open>findLeadingVehicle\<close> and \<open>findFollowingVehicle\<close>: the loop over the lane, with its
  two variables. \<open>minDistance\<close> starts at \<open>Infinity\<close>, which is \<open>None\<close> here.
\<close>

fun findLeading_loop :: "vehicle \<Rightarrow> vehicle list \<Rightarrow> vehicle option \<Rightarrow> real option \<Rightarrow> vehicle option" where
  "findLeading_loop vehicle [] leader minDistance = leader"
| "findLeading_loop vehicle (other # rest) leader minDistance =
     (if id_veh other \<noteq> id_veh vehicle \<and> u_veh other > u_veh vehicle then
        (let distance = u_veh other - u_veh vehicle in
         if (case minDistance of None \<Rightarrow> True | Some d \<Rightarrow> distance < d)
         then findLeading_loop vehicle rest (Some other) (Some distance)
         else findLeading_loop vehicle rest leader minDistance)
      else findLeading_loop vehicle rest leader minDistance)"

definition findLeadingVehicle :: "vehicle \<Rightarrow> vehicle list \<Rightarrow> vehicle option" where
  "findLeadingVehicle vehicle laneVehicles = findLeading_loop vehicle laneVehicles None None"

fun findFollowing_loop :: "vehicle \<Rightarrow> vehicle list \<Rightarrow> vehicle option \<Rightarrow> real option \<Rightarrow> vehicle option" where
  "findFollowing_loop vehicle [] follower minDistance = follower"
| "findFollowing_loop vehicle (other # rest) follower minDistance =
     (if id_veh other \<noteq> id_veh vehicle \<and> u_veh other < u_veh vehicle then
        (let distance = u_veh vehicle - u_veh other in
         if (case minDistance of None \<Rightarrow> True | Some d \<Rightarrow> distance < d)
         then findFollowing_loop vehicle rest (Some other) (Some distance)
         else findFollowing_loop vehicle rest follower minDistance)
      else findFollowing_loop vehicle rest follower minDistance)"

definition findFollowingVehicle :: "vehicle \<Rightarrow> vehicle list \<Rightarrow> vehicle option" where
  "findFollowingVehicle vehicle laneVehicles = findFollowing_loop vehicle laneVehicles None None"

text \<open>
  \<open>x - y - z.length\<close>: the gap behind a vehicle \<open>z\<close>, not a number when \<open>z\<close> has no
  \<open>length\<close>.
\<close>

definition gap_behind :: "real \<Rightarrow> real \<Rightarrow> vehicle \<Rightarrow> real option" where
  "gap_behind x y z = (case length_veh z of None \<Rightarrow> None | Some l \<Rightarrow> Some (x - y - l))"

definition calculateLaneAcceleration :: "vehicle \<Rightarrow> vehicle list \<Rightarrow> real" where
  "calculateLaneAcceleration vehicle laneVehicles =
     (case findLeadingVehicle vehicle laneVehicles of
        None \<Rightarrow> calcAccDet (idmModel vehicle) 1000 (speed vehicle) (speed vehicle) 0
      | Some leader \<Rightarrow>
          calcAccDet_gap (idmModel vehicle) (gap_behind (u_veh leader) (u_veh vehicle) leader)
            (speed vehicle) (speed leader) (acc leader))"

definition calculateFollowerImpact :: "vehicle \<Rightarrow> vehicle list \<Rightarrow> real" where
  "calculateFollowerImpact vehicle targetLaneVehicles =
     (case findFollowingVehicle vehicle targetLaneVehicles of
        None \<Rightarrow> 0
      | Some follower \<Rightarrow>
          calcAccDet_gap (idmModel follower) (gap_behind (u_veh vehicle) (u_veh follower) vehicle)
            (speed follower) (speed vehicle) (acc vehicle))"

definition calculateOthersGain :: "MOBILModel \<Rightarrow> vehicle \<Rightarrow> vehicle list \<Rightarrow> vehicle list \<Rightarrow> real" where
  "calculateOthersGain m vehicle currentLane targetLane =
     (let gain0 = 0;
          gain1 =
            (case findFollowingVehicle vehicle currentLane of
               None \<Rightarrow> gain0
             | Some currentFollower \<Rightarrow>
                 (case findLeadingVehicle vehicle currentLane of
                    None \<Rightarrow>
                      gain0 + (calcAccDet (idmModel currentFollower) 1000
                                 (speed currentFollower) (speed currentFollower) 0
                               - acc currentFollower)
                  | Some currentLeader \<Rightarrow>
                      gain0 + (calcAccDet_gap (idmModel currentFollower)
                                 (gap_behind (u_veh currentLeader) (u_veh currentFollower) currentLeader)
                                 (speed currentFollower) (speed currentLeader) (acc currentLeader)
                               - acc currentFollower)));
          gain2 =
            (case findFollowingVehicle vehicle targetLane of
               None \<Rightarrow> gain1
             | Some targetFollower \<Rightarrow>
                 gain1 - (calcAccDet_gap (idmModel targetFollower)
                            (gap_behind (u_veh vehicle) (u_veh targetFollower) vehicle)
                            (speed targetFollower) (speed vehicle) (acc vehicle)
                          - acc targetFollower))
      in gain2 * factorOther m)"

text \<open>
  The object \<open>shouldChangeLanes\<close> returns. The early return of the safety criterion has
  no \<open>incentive\<close> and no \<open>safety\<close> property.
\<close>

record decision =
  shouldChange :: bool
  urgency :: real
  reason :: string
  incentive :: "real option"
  safety :: "real option"

definition shouldChangeLanes :: "MOBILModel \<Rightarrow> vehicle \<Rightarrow> vehicle list \<Rightarrow> vehicle list \<Rightarrow> int \<Rightarrow> decision" where
  "shouldChangeLanes m vehicle currentLane targetLane direction =
     (let accCurrent = calculateLaneAcceleration vehicle currentLane;
          accTarget = calculateLaneAcceleration vehicle targetLane;
          followerDecel = calculateFollowerImpact vehicle targetLane
      in if followerDecel < - bSafe m then
           \<lparr> shouldChange = False, urgency = 0, reason = ''unsafe_follower'',
             incentive = None, safety = None \<rparr>
         else
           (let incentive0 = accTarget - accCurrent;
                politenessGain = mobil_p m * calculateOthersGain m vehicle currentLane targetLane;
                incentive1 = incentive0 + politenessGain;
                incentive2 = (if direction > 0 then incentive1 + biasRight m else incentive1);
                urgencyMultiplier = (if mandatoryLaneChange vehicle then 2 else 1);
                incentive3 = (if mandatoryLaneChange vehicle then incentive2 + aThr m else incentive2);
                change = (incentive3 > aThr m * urgencyMultiplier)
            in \<lparr> shouldChange = change, urgency = max 0 incentive3,
                 reason = (if change then ''beneficial'' else ''insufficient_gain''),
                 incentive = Some incentive3, safety = Some followerDecel \<rparr>))"

section \<open>Road segments (class Road)\<close>

text \<open>
  A connection object of \<open>Road.connect\<close>. \<open>targetRoad\<close> is a reference to a road of
  the network: here the position of that road in \<open>Intersection.network\<close>. The
  properties \<open>conflictingFlows\<close> and \<open>speedLimit\<close> are never read and are left out.
\<close>

record connection =
  targetRoad :: nat
  uSource :: real
  uTarget :: real
  offsetLane :: int

text \<open>
  The state of a road that the simulation passes read and write. The trajectories and
  the drawing arrays are geometry for rendering and are left out; the four lane-change
  models are the constants above.
\<close>

record road =
  roadID :: nat
  roadLen :: real
  laneWidth :: real
  nLanes :: int
  veh :: "vehicle list"
  inVehBuffer :: real
  nVehBuffer :: real
  speedInit :: real
  connects :: "connection list"

text \<open>The constructor \<open>new Road(roadID, roadLen, laneWidth, nLanes, traj)\<close>.\<close>

definition Road_new :: "nat \<Rightarrow> real \<Rightarrow> real \<Rightarrow> int \<Rightarrow> road" where
  "Road_new rid rlen lw nl =
     \<lparr> roadID = rid, roadLen = rlen, laneWidth = lw, nLanes = nl, veh = [],
       inVehBuffer = 0, nVehBuffer = 0, speedInit = 15, connects = [] \<rparr>"

text \<open>
  \<open>createVehicle(route, vehType)\<close>. The four calls of \<open>Math.random()\<close>, in the order
  the object literal makes them, return \<open>r_id\<close>, \<open>r_lane\<close>, \<open>r_speed\<close> and (inside
  \<open>new IDMModel()\<close>) \<open>r_idm\<close>.
\<close>

definition createVehicle :: "road \<Rightarrow> nat list option \<Rightarrow> string \<Rightarrow> real \<Rightarrow> real \<Rightarrow> real \<Rightarrow> real \<Rightarrow> vehicle" where
  "createVehicle r rt vehType r_id r_lane r_speed r_idm =
     (let l = \<lfloor>r_lane * real_of_int (nLanes r)\<rfloor> in
      \<lparr> id_veh = \<lfloor>r_id * 1000000\<rfloor>,
        roadID_veh = None,
        route = rt,
        u_veh = 5,
        lane = l,
        v_veh = real_of_int l,
        speed = max 0 (speedInit r + (r_speed - 1/2) * 5),
        acc = 0,
        len = (if vehType = ''truck'' then 10 else 5),
        length_veh = None,
        width = (if vehType = ''truck'' then 3 else 5/2),
        type_veh = vehType,
        dt_LC = 4,
        dt_afterLC = 10,
        fracLaneOptical = 1,
        laneOld = l,
        dvdt = 0,
        idmModel = IDMModel_default r_idm,
        mandatoryLaneChange = False,
        tacticalLaneChange = False,
        isRegularVeh = Some ByType \<rparr>)"

section \<open>Example vehicles\<close>

text \<open>
  For the examples below: the car that \<open>createVehicle\<close> makes on a 200 m road with two
  lanes when every \<open>Math.random()\<close> but the speed's returns 0 and the speed's and the
  driver factor's return 0.5 (driver factor 1), given the id \<open>i\<close>, the position \<open>pos\<close>
  and the speed \<open>spd\<close>.
\<close>

definition car_at :: "int \<Rightarrow> real \<Rightarrow> real \<Rightarrow> vehicle" where
  "car_at i pos spd =
     (createVehicle (Road_new 0 200 3 2) (Some [0]) ''car'' 0 0 (1/2) (1/2))
       \<lparr> id_veh := i, u_veh := pos, speed := spd \<rparr>"

section \<open>Integration and inflow on a road\<close>

text \<open>\<open>CONFIG.PHYSICS.DT\<close>, the time step \<open>3.5 / 30\<close> seconds.\<close>

definition DT :: real where
  "DT = 35/10 / 30"

text \<open>
  \<open>veh.isRegularVeh && veh.isRegularVeh()\<close>: false for an object without the method.
\<close>

definition isRegular :: "vehicle \<Rightarrow> bool" where
  "isRegular vehicle =
     (case isRegularVeh vehicle of
        None \<Rightarrow> False
      | Some ByType \<Rightarrow> type_veh vehicle = ''car'' \<or> type_veh vehicle = ''truck''
      | Some AlwaysTrue \<Rightarrow> True)"

text \<open>
  \<open>update_v_dvdt_optical(vehicle)\<close>. In its first test, \<open>!vehicle.laneOld === undefined\<close>
  compares a boolean with \<open>undefined\<close> and is false; \<open>!vehicle.dt_LC\<close> holds for the
  number 0.
\<close>

definition update_v_dvdt_optical :: "vehicle \<Rightarrow> vehicle" where
  "update_v_dvdt_optical vehicle =
     (if dt_LC vehicle = 0 then
        vehicle\<lparr> v_veh := real_of_int (lane vehicle), dvdt := 0 \<rparr>
      else
        (let dtLC = dt_LC vehicle;
             dtAfterLC = dt_afterLC vehicle;
             laneStart = real_of_int (laneOld vehicle);
             laneEnd = real_of_int (lane vehicle)
         in if dtAfterLC > dtLC then
              vehicle\<lparr> v_veh := laneEnd, dvdt := 0 \<rparr>
            else
              (let acc_v = fracLaneOptical vehicle * 4 / (dtLC * dtLC);
                   dt = (if dtAfterLC < (1/2) * dtLC then dtAfterLC else dtLC - dtAfterLC);
                   dv = (if dtAfterLC < (1/2) * dtLC
                         then (1 - fracLaneOptical vehicle) + (1/2) * acc_v * dt * dt
                         else 1 - (1/2) * acc_v * dt * dt)
               in vehicle\<lparr> v_veh := laneStart + dv * (laneEnd - laneStart),
                            dvdt := (if dtAfterLC > dtLC then 0
                                     else acc_v * dt * (laneEnd - laneStart)) \<rparr>)))"

text \<open>The body of the loop of \<open>updateSpeedPositions\<close>, for one vehicle.\<close>

definition updateSpeedPositions_body :: "vehicle \<Rightarrow> vehicle" where
  "updateSpeedPositions_body vehicle =
     (if isRegular vehicle then
        (let v1 = vehicle\<lparr> u_veh := u_veh vehicle
                      + max 0 (speed vehicle * DT + (1/2) * acc vehicle * DT * DT) \<rparr>;
             v2 = v1\<lparr> speed := max 0 (speed v1 + acc v1 * DT) \<rparr>
         in update_v_dvdt_optical v2)
      else vehicle)"

definition updateSpeedPositions :: "road \<Rightarrow> road" where
  "updateSpeedPositions r =
     r\<lparr> veh := filter (\<lambda>w. u_veh w \<le> roadLen r + 10) (map updateSpeedPositions_body (veh r)) \<rparr>"

text \<open>\<open>canSpawnVehicle(newVeh)\<close>: the loop returns at the first vehicle in the way.\<close>

fun canSpawn_loop :: "vehicle list \<Rightarrow> vehicle \<Rightarrow> bool" where
  "canSpawn_loop [] newVeh = True"
| "canSpawn_loop (existingVeh # rest) newVeh =
     (if lane existingVeh = lane newVeh \<and> \<bar>u_veh existingVeh - u_veh newVeh\<bar> < 15
      then False else canSpawn_loop rest newVeh)"

definition canSpawnVehicle :: "road \<Rightarrow> vehicle \<Rightarrow> bool" where
  "canSpawnVehicle r newVeh = canSpawn_loop (veh r) newVeh"

text \<open>
  \<open>possibleRoutes[Math.floor(Math.random() * possibleRoutes.length)]\<close>: an array read,
  \<open>undefined\<close> outside the array (when the array is empty).
\<close>

definition selectRoute :: "nat list list \<Rightarrow> real \<Rightarrow> nat list option" where
  "selectRoute possibleRoutes r_route =
     (let i = \<lfloor>r_route * real (length possibleRoutes)\<rfloor>
      in if 0 \<le> i \<and> nat i < length possibleRoutes then Some (possibleRoutes ! nat i) else None)"

text \<open>
  \<open>updateBCup(flow, dt, possibleRoutes)\<close>. \<open>r_route\<close> is the random number of the route
  choice, the other four are those of \<open>createVehicle\<close>. The new vehicle is an object, so
  \<open>newVeh && ...\<close> tests \<open>canSpawnVehicle\<close> alone.
\<close>

definition updateBCup :: "real \<Rightarrow> real \<Rightarrow> nat list list \<Rightarrow> real \<Rightarrow> real \<Rightarrow> real \<Rightarrow> real \<Rightarrow> real \<Rightarrow> road \<Rightarrow> road" where
  "updateBCup flow dt possibleRoutes r_route r_id r_lane r_speed r_idm r =
     (let r1 = r\<lparr> inVehBuffer := inVehBuffer r + flow * dt / 3600 \<rparr>
      in if inVehBuffer r1 \<ge> 1 then
           (let selectedRoute = selectRoute possibleRoutes r_route;
                newVeh = createVehicle r1 selectedRoute ''car'' r_id r_lane r_speed r_idm
            in if canSpawnVehicle r1 newVeh
               then r1\<lparr> veh := veh r1 @ [newVeh], inVehBuffer := inVehBuffer r1 - 1 \<rparr>
               else r1)
         else r1)"

section \<open>Approaches and signal colours (CONFIG)\<close>

text \<open>
  \<open>CONFIG.DIRECTIONS\<close> and \<open>CONFIG.LIGHT_STATES\<close>. \<open>DIRECTIONS\<close> is
  \<open>Object.values(CONFIG.DIRECTIONS)\<close>, in the order of the object's keys.
\<close>

datatype direction = North | South | East | West

datatype light = Red | Yellow | Green

definition DIRECTIONS :: "direction list" where
  "DIRECTIONS = [North, South, East, West]"

section \<open>The detection layer (class SensorSystem)\<close>

text \<open>
  What the sensors read of a \<open>Car\<close>: \<open>getDirection()\<close> is \<open>fromDirection\<close>,
  \<open>isWaiting()\<close> is \<open>state === 'waiting'\<close>, \<open>getWaitTime()\<close> is \<open>totalWaitTime\<close>. The
  sensors write the flag \<open>_countedInDetector\<close>, which a new car does not have
  (\<open>undefined\<close>, read as false). The properties \<open>id\<close>, \<open>x\<close>, \<open>y\<close> and \<open>state\<close> carry the
  suffix \<open>_car\<close>.
\<close>

datatype car_state = Approaching | Waiting | Crossing | Turning | Exiting | Completed

record car =
  id_car :: int
  fromDirection :: direction
  x_car :: real
  y_car :: real
  state_car :: car_state
  totalWaitTime :: real
  countedInDetector :: bool

text \<open>A stop line or a detection zone: the four numbers \<open>x1\<close>, \<open>y1\<close>, \<open>x2\<close>, \<open>y2\<close>.\<close>

record rect =
  rect_x1 :: real
  rect_y1 :: real
  rect_x2 :: real
  rect_y2 :: real

text \<open>
  The part of the \<open>Intersection\<close> the sensors read: its centre, and the stop lines that
  \<open>calculatePositions\<close> derives from it (\<open>CONFIG.INTERSECTION_SIZE = 120\<close>,
  \<open>CONFIG.ROAD_WIDTH = 60\<close>, so \<open>stopLineOffset = 65\<close> and half a road width is 30).
\<close>

record intersection =
  centerX :: real
  centerY :: real

definition ROAD_WIDTH :: real where
  "ROAD_WIDTH = 60"

definition getStopLinePosition :: "intersection \<Rightarrow> direction \<Rightarrow> rect" where
  "getStopLinePosition i d =
     (let roadWidth = ROAD_WIDTH / 2; stopLineOffset = 120 / 2 + 5 in
      case d of
        North \<Rightarrow> \<lparr> rect_x1 = centerX i - roadWidth, rect_y1 = centerY i - stopLineOffset,
                   rect_x2 = centerX i + roadWidth, rect_y2 = centerY i - stopLineOffset \<rparr>
      | East \<Rightarrow> \<lparr> rect_x1 = centerX i + stopLineOffset, rect_y1 = centerY i - roadWidth,
                  rect_x2 = centerX i + stopLineOffset, rect_y2 = centerY i + roadWidth \<rparr>
      | South \<Rightarrow> \<lparr> rect_x1 = centerX i - roadWidth, rect_y1 = centerY i + stopLineOffset,
                   rect_x2 = centerX i + roadWidth, rect_y2 = centerY i + stopLineOffset \<rparr>
      | West \<Rightarrow> \<lparr> rect_x1 = centerX i - stopLineOffset, rect_y1 = centerY i - roadWidth,
                  rect_x2 = centerX i - stopLineOffset, rect_y2 = centerY i + roadWidth \<rparr>)"

text \<open>
  An entry of \<open>sensorData\<close>. Its property \<open>totalCarsDetected\<close> is a copy of the counter
  \<open>this.totalCarsDetected[direction]\<close>, written when a car is counted; it carries the
  prefix \<open>sd_\<close>.
\<close>

record sensorDatum =
  carsWaiting :: nat
  waitTime :: real
  detectedCars :: "car list"
  firstCarWaitStart :: "real option"
  sd_totalCarsDetected :: nat

record sensorSystem =
  intersection_of :: intersection
  detectorDistance :: real
  sensorData :: "direction \<Rightarrow> sensorDatum"
  carCounts :: "direction \<Rightarrow> nat"
  waitingCars :: "direction \<Rightarrow> car option"
  totalCarsDetected :: "direction \<Rightarrow> nat"
  shouldResetCounts :: bool

text \<open>\<open>initializeSensors()\<close>; \<open>shouldResetCounts\<close> is not written, and so keeps its value.\<close>

definition initializeSensors :: "sensorSystem \<Rightarrow> sensorSystem" where
  "initializeSensors s =
     s\<lparr> sensorData := (\<lambda>d. \<lparr> carsWaiting = 0, waitTime = 0, detectedCars = [],
                               firstCarWaitStart = None, sd_totalCarsDetected = 0 \<rparr>),
        carCounts := (\<lambda>d. 0),
        waitingCars := (\<lambda>d. None),
        totalCarsDetected := (\<lambda>d. 0) \<rparr>"

text \<open>The constructor \<open>new SensorSystem(intersection)\<close>; the detector distance is 500.\<close>

definition SensorSystem_new :: "intersection \<Rightarrow> sensorSystem" where
  "SensorSystem_new i =
     initializeSensors
       \<lparr> intersection_of = i, detectorDistance = 500,
         sensorData = (\<lambda>d. \<lparr> carsWaiting = 0, waitTime = 0, detectedCars = [],
                              firstCarWaitStart = None, sd_totalCarsDetected = 0 \<rparr>),
         carCounts = (\<lambda>d. 0), waitingCars = (\<lambda>d. None), totalCarsDetected = (\<lambda>d. 0),
         shouldResetCounts = False \<rparr>"

definition resetCarCount :: "direction \<Rightarrow> sensorSystem \<Rightarrow> sensorSystem" where
  "resetCarCount d s = s\<lparr> totalCarsDetected := (totalCarsDetected s)(d := 0) \<rparr>"

definition resetAllCarCounts :: "sensorSystem \<Rightarrow> sensorSystem" where
  "resetAllCarCounts s =
     foldl (\<lambda>s d. s\<lparr> totalCarsDetected := (totalCarsDetected s)(d := 0) \<rparr>) s DIRECTIONS"

definition triggerCountReset :: "sensorSystem \<Rightarrow> sensorSystem" where
  "triggerCountReset s = s\<lparr> shouldResetCounts := True \<rparr>"

definition getDetectionZone :: "sensorSystem \<Rightarrow> direction \<Rightarrow> rect" where
  "getDetectionZone s d =
     (let stopLine = getStopLinePosition (intersection_of s) d;
          roadWidth = ROAD_WIDTH;
          i = intersection_of s
      in case d of
        North \<Rightarrow> \<lparr> rect_x1 = centerX i - roadWidth / 2,
                   rect_y1 = rect_y1 stopLine - detectorDistance s,
                   rect_x2 = centerX i + roadWidth / 2,
                   rect_y2 = rect_y1 stopLine \<rparr>
      | East \<Rightarrow> \<lparr> rect_x1 = rect_x1 stopLine,
                  rect_y1 = centerY i - roadWidth / 2,
                  rect_x2 = rect_x1 stopLine + detectorDistance s,
                  rect_y2 = centerY i + roadWidth / 2 \<rparr>
      | South \<Rightarrow> \<lparr> rect_x1 = centerX i - roadWidth / 2,
                   rect_y1 = rect_y1 stopLine,
                   rect_x2 = centerX i + roadWidth / 2,
                   rect_y2 = rect_y1 stopLine + detectorDistance s \<rparr>
      | West \<Rightarrow> \<lparr> rect_x1 = rect_x1 stopLine - detectorDistance s,
                  rect_y1 = centerY i - roadWidth / 2,
                  rect_x2 = rect_x1 stopLine,
                  rect_y2 = centerY i + roadWidth / 2 \<rparr>)"

definition isCarInDetectionZone :: "car \<Rightarrow> rect \<Rightarrow> bool" where
  "isCarInDetectionZone c zone =
     (x_car c \<ge> rect_x1 zone \<and> x_car c \<le> rect_x2 zone \<and>
      y_car c \<ge> rect_y1 zone \<and> y_car c \<le> rect_y2 zone)"

definition isCarCloserToStopLine :: "sensorSystem \<Rightarrow> car \<Rightarrow> car \<Rightarrow> direction \<Rightarrow> bool" where
  "isCarCloserToStopLine s car1 car2 d =
     (let stopLine = getStopLinePosition (intersection_of s) d in
      case d of
        North \<Rightarrow> \<bar>y_car car1 - rect_y1 stopLine\<bar> < \<bar>y_car car2 - rect_y1 stopLine\<bar>
      | East \<Rightarrow> \<bar>x_car car1 - rect_x1 stopLine\<bar> < \<bar>x_car car2 - rect_x1 stopLine\<bar>
      | South \<Rightarrow> \<bar>y_car car1 - rect_y1 stopLine\<bar> < \<bar>y_car car2 - rect_y1 stopLine\<bar>
      | West \<Rightarrow> \<bar>x_car car1 - rect_x1 stopLine\<bar> < \<bar>x_car car2 - rect_x1 stopLine\<bar>)"

text \<open>
  \<open>update(cars, lightStates, prevLightStates)\<close> in its five parts. The light states are
  objects, or \<open>undefined\<close> (\<open>None\<close>) when the caller leaves them out.

  First part: every direction's detection data is cleared; the comment in the source
  reads "Reset detection data but keep total counts".
\<close>

definition update_clear :: "sensorSystem \<Rightarrow> sensorSystem" where
  "update_clear s =
     foldl (\<lambda>s d. s\<lparr> sensorData := (sensorData s)
                         (d := (sensorData s d)\<lparr> carsWaiting := 0, waitTime := 0,
                                 detectedCars := [], firstCarWaitStart := None \<rparr>),
                      waitingCars := (waitingCars s)(d := None) \<rparr>)
       s DIRECTIONS"

text \<open>
  Second part, under the comment "Adaptive mode: reset car counts and wait times on
  light cycle change".
\<close>

definition update_lightChange :: "(direction \<Rightarrow> light) option \<Rightarrow> (direction \<Rightarrow> light) option \<Rightarrow> sensorSystem \<Rightarrow> sensorSystem" where
  "update_lightChange lightStates prevLightStates s =
     (case lightStates of
        None \<Rightarrow> s
      | Some ls \<Rightarrow>
          (case prevLightStates of
             None \<Rightarrow> s
           | Some pls \<Rightarrow>
               foldl (\<lambda>s d.
                   if ls d \<noteq> pls d then
                     (let s1 = resetCarCount d s;
                          s2 = s1\<lparr> sensorData := (sensorData s1)
                                  (d := (sensorData s1 d)\<lparr> waitTime := 0 \<rparr>) \<rparr>;
                          s3 = s2\<lparr> sensorData := (sensorData s2)
                                  (d := (sensorData s2 d)\<lparr> carsWaiting := 0 \<rparr>) \<rparr>
                      in s3)
                   else s)
                 s DIRECTIONS))"

text \<open>Third part: the manual trigger.\<close>

definition update_manualReset :: "sensorSystem \<Rightarrow> sensorSystem" where
  "update_manualReset s =
     (if shouldResetCounts s then (resetAllCarCounts s)\<lparr> shouldResetCounts := False \<rparr> else s)"

text \<open>
  Fourth part: the body of \<open>cars.forEach\<close>, for one car. It works on the sensors and on
  the car, since it writes the car's flag. Its four \<open>if\<close> statements, in their order:
  count a car that enters the zone; clear the flag of a car that has left it; record a
  car inside the zone; and account for a waiting car inside the zone. \<open>now\<close> is what
  \<open>Date.now()\<close> returns. The test \<open>!firstCarWaitStart\<close> holds for \<open>null\<close> and for the
  number 0.
\<close>

definition update_car_count :: "direction \<Rightarrow> bool \<Rightarrow> sensorSystem \<times> car \<Rightarrow> sensorSystem \<times> car" where
  "update_car_count d inZ sc =
     (let s = fst sc; c = snd sc in
      if \<not> countedInDetector c \<and> inZ then
        (let t = s\<lparr> totalCarsDetected := (totalCarsDetected s)(d := totalCarsDetected s d + 1) \<rparr>
         in (t\<lparr> sensorData := (sensorData t)
                  (d := (sensorData t d)\<lparr> sd_totalCarsDetected := totalCarsDetected t d \<rparr>) \<rparr>,
             c\<lparr> countedInDetector := True \<rparr>))
      else sc)"

definition update_car_leave :: "bool \<Rightarrow> sensorSystem \<times> car \<Rightarrow> sensorSystem \<times> car" where
  "update_car_leave inZ sc =
     (let s = fst sc; c = snd sc in
      if \<not> inZ \<and> countedInDetector c then (s, c\<lparr> countedInDetector := False \<rparr>) else sc)"

definition update_car_detect :: "direction \<Rightarrow> bool \<Rightarrow> sensorSystem \<times> car \<Rightarrow> sensorSystem \<times> car" where
  "update_car_detect d inZ sc =
     (let s = fst sc; c = snd sc in
      if inZ then
        (s\<lparr> sensorData := (sensorData s)
              (d := (sensorData s d)\<lparr> detectedCars := detectedCars (sensorData s d) @ [c] \<rparr>) \<rparr>, c)
      else sc)"

definition update_car_waiting :: "direction \<Rightarrow> bool \<Rightarrow> real \<Rightarrow> sensorSystem \<times> car \<Rightarrow> sensorSystem \<times> car" where
  "update_car_waiting d inZ now sc =
     (let s = fst sc; c = snd sc in
      if state_car c = Waiting \<and> inZ then
        (let a = s\<lparr> sensorData := (sensorData s)
                     (d := (sensorData s d)\<lparr> carsWaiting := carsWaiting (sensorData s d) + 1 \<rparr>) \<rparr>;
             b = (if (case waitingCars a d of
                        None \<Rightarrow> True
                      | Some w \<Rightarrow> isCarCloserToStopLine a c w d)
                  then a\<lparr> waitingCars := (waitingCars a)(d := Some c) \<rparr> else a)
         in if firstCarWaitStart (sensorData b d) = None
               \<or> firstCarWaitStart (sensorData b d) = Some 0
            then (b\<lparr> sensorData := (sensorData b)
                      (d := (sensorData b d)\<lparr> firstCarWaitStart := Some (now - totalWaitTime c) \<rparr>) \<rparr>, c)
            else (b, c))
      else sc)"

text \<open>\<open>lightStates && lightStates[direction] === CONFIG.LIGHT_STATES.RED\<close>.\<close>

definition isRed :: "(direction \<Rightarrow> light) option \<Rightarrow> direction \<Rightarrow> bool" where
  "isRed lightStates d = (case lightStates of None \<Rightarrow> False | Some ls \<Rightarrow> ls d = Red)"

definition update_car :: "(direction \<Rightarrow> light) option \<Rightarrow> real \<Rightarrow> sensorSystem \<Rightarrow> car \<Rightarrow> sensorSystem \<times> car" where
  "update_car lightStates now s c =
     (let d = fromDirection c;
          detectionZone = getDetectionZone s d
      in if isRed lightStates d then
           (let inZ = isCarInDetectionZone c detectionZone
            in update_car_waiting d inZ now
                 (update_car_detect d inZ
                   (update_car_leave inZ
                     (update_car_count d inZ (s, c)))))
         else (s, c))"

text \<open>
  The loop \<open>cars.forEach\<close>. \<open>clock k\<close> is what \<open>Date.now()\<close> returns while the car at
  position \<open>k\<close> of the array is processed.
\<close>

fun update_cars :: "(direction \<Rightarrow> light) option \<Rightarrow> (nat \<Rightarrow> real) \<Rightarrow> nat \<Rightarrow> sensorSystem \<Rightarrow> car list \<Rightarrow> sensorSystem \<times> car list" where
  "update_cars lightStates clock k s [] = (s, [])"
| "update_cars lightStates clock k s (c # cs) =
     (let (s1, c1) = update_car lightStates (clock k) s c;
          (s2, cs1) = update_cars lightStates clock (Suc k) s1 cs
      in (s2, c1 # cs1))"

text \<open>Fifth part: the wait time of the waiting car closest to the stop line.\<close>

definition update_waitTimes :: "sensorSystem \<Rightarrow> sensorSystem" where
  "update_waitTimes s =
     foldl (\<lambda>s d.
         case waitingCars s d of
           None \<Rightarrow> s
         | Some w \<Rightarrow> s\<lparr> sensorData := (sensorData s)
                          (d := (sensorData s d)\<lparr> waitTime := totalWaitTime w \<rparr>) \<rparr>)
       s DIRECTIONS"

text \<open>
  \<open>SensorSystem.update(cars, lightStates, prevLightStates)\<close>, here \<open>update_sensors\<close>.
  The method returns \<open>this.sensorData\<close>, which is \<open>sensorData\<close> of the system returned
  here; the cars are returned with their flags.
\<close>

definition update_sensors :: "car list \<Rightarrow> (direction \<Rightarrow> light) option \<Rightarrow> (direction \<Rightarrow> light) option \<Rightarrow> (nat \<Rightarrow> real) \<Rightarrow> sensorSystem \<Rightarrow> sensorSystem \<times> car list" where
  "update_sensors cars lightStates prevLightStates clock s =
     (let s1 = update_clear s;
          s2 = update_lightChange lightStates prevLightStates s1;
          s3 = update_manualReset s2;
          (s4, cars') = update_cars lightStates clock 0 s3 cars
      in (update_waitTimes s4, cars'))"

text \<open>
  The value of the local variable \<open>inZone\<close> of the loop body for a car: whether the car
  is inside the detection zone of its own approach.
\<close>

definition inZone :: "sensorSystem \<Rightarrow> car \<Rightarrow> bool" where
  "inZone s c = isCarInDetectionZone c (getDetectionZone s (fromDirection c))"

text \<open>
  The cars of the array that the loop counts for the approach \<open>d\<close>: as newly detected
  (the approach is red, the car is inside the zone and its flag is not set), and as
  waiting (the approach is red, the car is inside the zone and waits).
\<close>

definition counts_new :: "(direction \<Rightarrow> light) option \<Rightarrow> sensorSystem \<Rightarrow> direction \<Rightarrow> car \<Rightarrow> bool" where
  "counts_new lightStates s d c =
     (isRed lightStates d \<and> fromDirection c = d \<and> \<not> countedInDetector c \<and> inZone s c)"

definition counts_waiting :: "(direction \<Rightarrow> light) option \<Rightarrow> sensorSystem \<Rightarrow> direction \<Rightarrow> car \<Rightarrow> bool" where
  "counts_waiting lightStates s d c =
     (isRed lightStates d \<and> fromDirection c = d \<and> state_car c = Waiting \<and> inZone s c)"

section \<open>Example sensor states\<close>

text \<open>
  For the examples below: the sensors of the intersection centred at (600, 600), after
  one update under all-red lights with one waiting car of the north approach inside its
  detection zone (\<open>x\<close> from 570 to 630, \<open>y\<close> from 35 to 535), and that car.
\<close>

definition example_car :: car where
  "example_car =
     \<lparr> id_car = 1, fromDirection = North, x_car = 600, y_car = 500, state_car = Waiting,
       totalWaitTime = 0, countedInDetector = False \<rparr>"

definition detected_once :: "sensorSystem \<times> car list" where
  "detected_once =
     update_sensors [example_car] (Some (\<lambda>d. Red)) (Some (\<lambda>d. Red)) (\<lambda>k. 0)
       (SensorSystem_new \<lparr> centerX = 600, centerY = 600 \<rparr>)"

section \<open>The signal controller (class TrafficLightController)\<close>

datatype mode = Fixed | Adaptive

text \<open>The settings object, with the values of \<open>CONFIG.DEFAULT_SETTINGS\<close>; times in ms.\<close>

record settings =
  GREEN_DURATION :: real
  YELLOW_DURATION :: real
  RED_DURATION :: real
  CAR_SPAWN_RATE :: real
  CAR_SPEED :: real
  TURN_RATE :: real
  DETECTOR_DISTANCE :: real
  MIN_GREEN_TIME :: real

definition DEFAULT_SETTINGS :: settings where
  "DEFAULT_SETTINGS =
     \<lparr> GREEN_DURATION = 100000, YELLOW_DURATION = 5000, RED_DURATION = 100000,
       CAR_SPAWN_RATE = 4, CAR_SPEED = 25, TURN_RATE = 4/10, DETECTOR_DISTANCE = 500,
       MIN_GREEN_TIME = 5000 \<rparr>"

text \<open>
  \<open>fixedState\<close> and \<open>adaptiveState\<close>. The properties of the adaptive state that share a
  name with one of the fixed state carry the suffix \<open>_a\<close>. The adaptive phase is one of
  the strings \<open>'green'\<close>, \<open>'yellow'\<close>, \<open>'red'\<close>, the pair \<open>'WE'\<close>, \<open>'NS'\<close> or \<open>null\<close>.
\<close>

record fixedState =
  currentPhase :: nat
  phaseTimer :: real
  isActive :: bool

datatype pair = WE | NS

record adaptiveState =
  currentPair :: "pair option"
  currentPhase_a :: light
  phaseTimer_a :: real
  isActive_a :: bool
  priorityScores :: "pair \<Rightarrow> real"
  lastSwitchTime :: real
  firstCarTriggered :: bool

text \<open>
  The controller. A light is \<open>{state, timer}\<close>; the timer is 0 throughout and is left
  out. \<open>lastPhase\<close> is \<open>undefined\<close> until \<open>updateAdaptiveLogic\<close> writes it.
\<close>

record controller =
  lights :: "direction \<Rightarrow> light"
  mode_of :: mode
  settings_of :: settings
  fixedState_of :: fixedState
  adaptiveState_of :: adaptiveState
  lastPhase :: "light option"

definition setAllLightsRed :: "controller \<Rightarrow> controller" where
  "setAllLightsRed c = foldl (\<lambda>c d. c\<lparr> lights := (lights c)(d := Red) \<rparr>) c DIRECTIONS"

definition setFixedLightState :: "controller \<Rightarrow> controller" where
  "setFixedLightState c =
     (let c1 = setAllLightsRed c;
          p = currentPhase (fixedState_of c1)
      in if p = 0 then c1\<lparr> lights := (lights c1)(North := Green, South := Green) \<rparr>
         else if p = 1 then c1\<lparr> lights := (lights c1)(North := Yellow, South := Yellow) \<rparr>
         else if p = 2 then c1
         else if p = 3 then c1\<lparr> lights := (lights c1)(West := Green, East := Green) \<rparr>
         else if p = 4 then c1\<lparr> lights := (lights c1)(West := Yellow, East := Yellow) \<rparr>
         else if p = 5 then c1
         else c1)"

definition initializeFixedMode :: "controller \<Rightarrow> controller" where
  "initializeFixedMode c =
     setFixedLightState
       (c\<lparr> fixedState_of := \<lparr> currentPhase = 0, phaseTimer = 0, isActive = True \<rparr> \<rparr>)"

definition initializeAdaptiveMode :: "controller \<Rightarrow> controller" where
  "initializeAdaptiveMode c =
     setAllLightsRed
       (c\<lparr> adaptiveState_of :=
             \<lparr> currentPair = None, currentPhase_a = Red, phaseTimer_a = 0, isActive_a = True,
               priorityScores = (\<lambda>p. 0), lastSwitchTime = 0, firstCarTriggered = False \<rparr> \<rparr>)"

text \<open>The constructor: all lights red, both state machines inactive.\<close>

definition TrafficLightController_new :: controller where
  "TrafficLightController_new =
     \<lparr> lights = (\<lambda>d. Red), mode_of = Fixed, settings_of = DEFAULT_SETTINGS,
       fixedState_of = \<lparr> currentPhase = 0, phaseTimer = 0, isActive = False \<rparr>,
       adaptiveState_of =
         \<lparr> currentPair = None, currentPhase_a = Red, phaseTimer_a = 0, isActive_a = False,
           priorityScores = (\<lambda>p. 0), lastSwitchTime = 0, firstCarTriggered = False \<rparr>,
       lastPhase = None \<rparr>"

definition advanceFixedPhase :: "controller \<Rightarrow> controller" where
  "advanceFixedPhase c =
     (let f1 = (fixedState_of c)\<lparr> currentPhase := (currentPhase (fixedState_of c) + 1) mod 6 \<rparr>;
          f2 = f1\<lparr> phaseTimer := 0 \<rparr>
      in setFixedLightState (c\<lparr> fixedState_of := f2 \<rparr>))"

text \<open>
  \<open>updateFixedMode(deltaTime)\<close>. The first statement, \<open>phaseTimer += deltaTime\<close>, adds two
  doubles: the timer becomes \<open>fadd\<close> of the timer and the frame time.
\<close>

definition updateFixedMode :: "real \<Rightarrow> controller \<Rightarrow> controller" where
  "updateFixedMode deltaTime c =
     (let c1 = c\<lparr> fixedState_of :=
                   (fixedState_of c)\<lparr> phaseTimer := fadd (phaseTimer (fixedState_of c)) deltaTime \<rparr> \<rparr>;
          p = currentPhase (fixedState_of c1);
          t = phaseTimer (fixedState_of c1)
      in if p = 0 then (if t \<ge> GREEN_DURATION (settings_of c1) then advanceFixedPhase c1 else c1)
         else if p = 1 then (if t \<ge> YELLOW_DURATION (settings_of c1) then advanceFixedPhase c1 else c1)
         else if p = 2 then (if t \<ge> 3000 then advanceFixedPhase c1 else c1)
         else if p = 3 then (if t \<ge> GREEN_DURATION (settings_of c1) then advanceFixedPhase c1 else c1)
         else if p = 4 then (if t \<ge> YELLOW_DURATION (settings_of c1) then advanceFixedPhase c1 else c1)
         else if p = 5 then (if t \<ge> 3000 then advanceFixedPhase c1 else c1)
         else c1)"

text \<open>The adaptive machine.\<close>

definition setAdaptiveLightState :: "controller \<Rightarrow> controller" where
  "setAdaptiveLightState c =
     (let c1 = setAllLightsRed c;
          state = (if currentPhase_a (adaptiveState_of c1) = Green then Green
                   else if currentPhase_a (adaptiveState_of c1) = Yellow then Yellow
                   else Red)
      in if currentPair (adaptiveState_of c1) = Some WE
         then c1\<lparr> lights := (lights c1)(West := state, East := state) \<rparr>
         else if currentPair (adaptiveState_of c1) = Some NS
         then c1\<lparr> lights := (lights c1)(North := state, South := state) \<rparr>
         else c1)"

definition startAdaptiveGreen :: "controller \<Rightarrow> controller" where
  "startAdaptiveGreen c =
     setAdaptiveLightState
       (c\<lparr> adaptiveState_of := (adaptiveState_of c)\<lparr> currentPhase_a := Green, phaseTimer_a := 0 \<rparr> \<rparr>)"

definition startAdaptiveYellow :: "controller \<Rightarrow> controller" where
  "startAdaptiveYellow c =
     setAdaptiveLightState
       (c\<lparr> adaptiveState_of := (adaptiveState_of c)\<lparr> currentPhase_a := Yellow, phaseTimer_a := 0 \<rparr> \<rparr>)"

text \<open>\<open>startAdaptiveRed()\<close>; \<open>now\<close> is what \<open>Date.now()\<close> returns.\<close>

definition startAdaptiveRed :: "real \<Rightarrow> controller \<Rightarrow> controller" where
  "startAdaptiveRed now c =
     setAllLightsRed
       (c\<lparr> adaptiveState_of := (adaptiveState_of c)
             \<lparr> currentPhase_a := Red, phaseTimer_a := 0, lastSwitchTime := now \<rparr> \<rparr>)"

definition switchToAdaptivePair :: "pair \<Rightarrow> controller \<Rightarrow> controller" where
  "switchToAdaptivePair p c =
     startAdaptiveGreen (c\<lparr> adaptiveState_of := (adaptiveState_of c)\<lparr> currentPair := Some p \<rparr> \<rparr>)"

text \<open>
  \<open>shouldSwitchInAdaptive()\<close>. \<open>score || 0\<close> is the score itself for a number; the score
  read under the key \<open>null\<close> is \<open>undefined\<close>, and then 0.
\<close>

definition shouldSwitchInAdaptive :: "controller \<Rightarrow> bool" where
  "shouldSwitchInAdaptive c =
     (let cur = currentPair (adaptiveState_of c);
          otherPair = (if cur = Some WE then NS else WE);
          currentScore = (case cur of None \<Rightarrow> 0 | Some p \<Rightarrow> priorityScores (adaptiveState_of c) p);
          otherScore = priorityScores (adaptiveState_of c) otherPair
      in otherScore > currentScore * (15/10) \<and> otherScore > 10)"

definition getHighestPriorityPair :: "controller \<Rightarrow> pair option" where
  "getHighestPriorityPair c =
     (let weScore = priorityScores (adaptiveState_of c) WE;
          nsScore = priorityScores (adaptiveState_of c) NS
      in if weScore > nsScore \<and> weScore > 0 then Some WE
         else if nsScore > weScore \<and> nsScore > 0 then Some NS
         else None)"

text \<open>
  \<open>updateAdaptiveMode(deltaTime)\<close>; \<open>now\<close> is the clock that \<open>startAdaptiveRed\<close> reads.
  In the red phase, \<open>nextPair && nextPair !== currentPair\<close> switches to the pair
  \<open>nextPair\<close>, which is then not \<open>null\<close>; otherwise \<open>nextPair === currentPair\<close> returns to
  green for the same pair.
\<close>

definition updateAdaptiveMode :: "real \<Rightarrow> real \<Rightarrow> controller \<Rightarrow> controller" where
  "updateAdaptiveMode deltaTime now c =
     (let c1 = c\<lparr> adaptiveState_of := (adaptiveState_of c)
                   \<lparr> phaseTimer_a := phaseTimer_a (adaptiveState_of c) + deltaTime \<rparr> \<rparr>
      in if currentPair (adaptiveState_of c1) = None then
           (case getHighestPriorityPair c1 of
              None \<Rightarrow> c1
            | Some highestPriorityPair \<Rightarrow>
                if priorityScores (adaptiveState_of c1) highestPriorityPair > 0
                then switchToAdaptivePair highestPriorityPair c1 else c1)
         else
           (case currentPhase_a (adaptiveState_of c1) of
              Green \<Rightarrow> (if shouldSwitchInAdaptive c1 then startAdaptiveYellow c1 else c1)
            | Yellow \<Rightarrow>
                (if phaseTimer_a (adaptiveState_of c1) \<ge> YELLOW_DURATION (settings_of c1)
                 then startAdaptiveRed now c1 else c1)
            | Red \<Rightarrow>
                (if phaseTimer_a (adaptiveState_of c1) \<ge> 2000 then
                   (let nextPair = getHighestPriorityPair c1 in
                    case nextPair of
                      Some np \<Rightarrow>
                        if nextPair \<noteq> currentPair (adaptiveState_of c1)
                        then switchToAdaptivePair np c1
                        else startAdaptiveGreen c1
                    | None \<Rightarrow>
                        if nextPair = currentPair (adaptiveState_of c1)
                        then startAdaptiveGreen c1
                        else c1)
                 else c1)))"

text \<open>
  \<open>calculatePairScore(pair, sensorData)\<close>. The sensor system has an entry for every
  direction, so the fallback \<open>|| {...}\<close> is never taken.
\<close>

definition calculatePairScore :: "pair \<Rightarrow> (direction \<Rightarrow> sensorDatum) \<Rightarrow> real" where
  "calculatePairScore p sd =
     (case p of
        WE \<Rightarrow> real (carsWaiting (sd West)) * (waitTime (sd West) / 1000)
              + real (carsWaiting (sd East)) * (waitTime (sd East) / 1000)
              + real (sd_totalCarsDetected (sd West)) + real (sd_totalCarsDetected (sd East))
      | NS \<Rightarrow> real (carsWaiting (sd North)) * (waitTime (sd North) / 1000)
              + real (carsWaiting (sd South)) * (waitTime (sd South) / 1000)
              + real (sd_totalCarsDetected (sd North)) + real (sd_totalCarsDetected (sd South)))"

definition updateAdaptiveLogic :: "(direction \<Rightarrow> sensorDatum) \<Rightarrow> real \<Rightarrow> controller \<Rightarrow> controller" where
  "updateAdaptiveLogic sd deltaTime c =
     (if mode_of c \<noteq> Adaptive \<or> \<not> isActive_a (adaptiveState_of c) then c
      else
        (let c1 = c\<lparr> lastPhase := Some (currentPhase_a (adaptiveState_of c)) \<rparr>;
             weScore = calculatePairScore WE sd;
             nsScore = calculatePairScore NS sd
         in c1\<lparr> adaptiveState_of := (adaptiveState_of c1)
                 \<lparr> priorityScores := (\<lambda>p. case p of WE \<Rightarrow> weScore | NS \<Rightarrow> nsScore) \<rparr> \<rparr>))"

text \<open>
  \<open>TrafficLightController.update(deltaTime, mode, settings)\<close>, the entry point of a
  frame, here \<open>update_controller\<close>; \<open>now\<close> is the clock that \<open>startAdaptiveRed\<close> reads.
\<close>

definition update_controller :: "real \<Rightarrow> mode \<Rightarrow> settings \<Rightarrow> real \<Rightarrow> controller \<Rightarrow> controller" where
  "update_controller deltaTime m st now c =
     (let c1 = c\<lparr> mode_of := m, settings_of := st \<rparr>
      in case m of
           Fixed \<Rightarrow>
             updateFixedMode deltaTime
               (if \<not> isActive (fixedState_of c1) then initializeFixedMode c1 else c1)
         | Adaptive \<Rightarrow>
             updateAdaptiveMode deltaTime now
               (if \<not> isActive_a (adaptiveState_of c1) then initializeAdaptiveMode c1 else c1))"

text \<open>
  The duration that the \<open>switch\<close> of \<open>updateFixedMode\<close> compares the phase timer with,
  for each of the six phases.
\<close>

definition phaseDuration :: "settings \<Rightarrow> nat \<Rightarrow> real" where
  "phaseDuration st p =
     (if p = 0 \<or> p = 3 then GREEN_DURATION st
      else if p = 1 \<or> p = 4 then YELLOW_DURATION st
      else 3000)"

text \<open>A run of calls of \<open>updateFixedMode\<close>, one for each frame time of the list.\<close>

fun updateFixedMode_run :: "real list \<Rightarrow> controller \<Rightarrow> controller" where
  "updateFixedMode_run [] c = c"
| "updateFixedMode_run (deltaTime # rest) c = updateFixedMode_run rest (updateFixedMode deltaTime c)"

text \<open>
  A run of frames in adaptive mode: in each, \<open>updateAdaptiveMode\<close> and then, with the
  frame's sensor data, \<open>updateAdaptiveLogic\<close>, as \<open>GameEngine.update\<close> calls them. A frame
  is its time, its clock reading and its sensor data.
\<close>

fun adaptive_run :: "(real \<times> real \<times> (direction \<Rightarrow> sensorDatum)) list \<Rightarrow> controller \<Rightarrow> controller" where
  "adaptive_run [] c = c"
| "adaptive_run ((deltaTime, now, sd) # rest) c =
     adaptive_run rest (updateAdaptiveLogic sd deltaTime (updateAdaptiveMode deltaTime now c))"


section \<open>Example controller states\<close>

text \<open>
  For the examples below: a new controller, initialised for adaptive mode and switched
  to the pair NS (green for north and south), with the priority scores \<open>we\<close> and \<open>ns\<close>.
\<close>

definition green_NS :: "real \<Rightarrow> real \<Rightarrow> controller" where
  "green_NS we ns =
     (let c = switchToAdaptivePair NS (initializeAdaptiveMode TrafficLightController_new)
      in c\<lparr> adaptiveState_of := (adaptiveState_of c)
              \<lparr> priorityScores := (\<lambda>p. case p of WE \<Rightarrow> we | NS \<Rightarrow> ns) \<rparr> \<rparr>)"


section \<open>The road network (class Intersection) and transfers between roads\<close>

text \<open>
  \<open>Intersection.network\<close>, the array of the roads. A road holds references to roads in
  its connections, and a connection may lead back to the road itself, so the roads are
  kept in one store, the array, and a reference is a position in it. A call of a
  \<open>Road\<close> method that reaches other roads takes the network and the position \<open>k\<close> of
  \<open>this\<close>, and returns the network.
\<close>

type_synonym network = "road list"

text \<open>
  \<open>createRoad(roadID, type)\<close>: 200 m, lane width \<open>CONFIG.LANE_WIDTH = 3\<close>, and 2 lanes
  for every type (\<open>N_LANES_MAIN\<close> and \<open>N_LANES_SEC\<close> are both 2).
\<close>

definition createRoad :: "nat \<Rightarrow> road" where
  "createRoad rid = Road_new rid 200 3 2"

text \<open>\<open>road.connect(targetRoad, uSource, uTarget)\<close> on the road at position \<open>k\<close>.\<close>

definition connect :: "nat \<Rightarrow> nat \<Rightarrow> real \<Rightarrow> real \<Rightarrow> network \<Rightarrow> network" where
  "connect k target us ut nw =
     nw[k := (nw ! k)\<lparr> connects := connects (nw ! k)
            @ [\<lparr> targetRoad = target, uSource = us, uTarget = ut, offsetLane = 0 \<rparr>] \<rparr>]"

text \<open>
  \<open>setupConnections()\<close>: the four straight connections. The source ends with the comment
  "Turn connections will be handled by alternative trajectories"; an alternative
  trajectory is geometry for drawing, and adds no connection.
\<close>

definition setupConnections :: "network \<Rightarrow> network" where
  "setupConnections nw =
     connect 4 5 190 10 (connect 2 3 190 10 (connect 1 1 190 10 (connect 0 0 190 10 nw)))"

text \<open>\<open>initializeRoads()\<close>, without the trajectories.\<close>

definition initializeRoads :: network where
  "initializeRoads =
     setupConnections
       [createRoad 0, createRoad 1, createRoad 2, createRoad 3, createRoad 4, createRoad 5]"

text \<open>
  \<open>shouldUseConnection(veh, connection)\<close> of the road at position \<open>k\<close>. \<open>!veh.route\<close>
  holds for a missing route; an empty array is an object, and has length 0.
\<close>

definition shouldUseConnection :: "network \<Rightarrow> nat \<Rightarrow> vehicle \<Rightarrow> connection \<Rightarrow> bool" where
  "shouldUseConnection nw k vehicle c =
     (case route vehicle of
        None \<Rightarrow> roadID (nw ! targetRoad c) = roadID (nw ! k)
      | Some rt \<Rightarrow>
          if length rt \<le> 1 then roadID (nw ! targetRoad c) = roadID (nw ! k)
          else roadID (nw ! targetRoad c) = rt ! 1)"

text \<open>
  \<open>transferVehicle(veh, connection, index)\<close>: first the vehicle as the method rewrites
  it, then the method. \<open>splice(index, 1)\<close> removes the element at \<open>index\<close>; \<open>slice(1)\<close>
  drops the first element; \<open>push\<close> reads the target road's array after the removal,
  which matters when the target is the road itself.
\<close>

definition transferred :: "network \<Rightarrow> connection \<Rightarrow> vehicle \<Rightarrow> vehicle" where
  "transferred nw c vehicle =
     vehicle\<lparr> u_veh := uTarget c,
              roadID_veh := Some (roadID (nw ! targetRoad c)),
              route := (case route vehicle of
                          None \<Rightarrow> None
                        | Some rt \<Rightarrow> if length rt > 1 then Some (drop 1 rt) else Some rt) \<rparr>"

definition transferVehicle :: "network \<Rightarrow> nat \<Rightarrow> vehicle \<Rightarrow> connection \<Rightarrow> nat \<Rightarrow> network" where
  "transferVehicle nw k vehicle c index =
     (let vs = veh (nw ! k);
          nw1 = nw[k := (nw ! k)\<lparr> veh := take index vs @ drop (Suc index) vs \<rparr>];
          t = targetRoad c
      in nw1[t := (nw1 ! t)\<lparr> veh := veh (nw1 ! t) @ [transferred nw1 c vehicle] \<rparr>])"

text \<open>
  \<open>processConnections()\<close> of the road at position \<open>k\<close>. The inner loop counts \<open>i\<close> down
  from \<open>this.veh.length - 1\<close> to 0; \<open>processConnection_loop k c n\<close> has the iterations
  \<open>i = n - 1, ..., 0\<close> still to run. Reading \<open>this.veh[i].u\<close> past the end of the array
  would raise a TypeError: the result \<open>None\<close>.
\<close>

fun processConnection_loop :: "nat \<Rightarrow> connection \<Rightarrow> nat \<Rightarrow> network \<Rightarrow> network option" where
  "processConnection_loop k c 0 nw = Some nw"
| "processConnection_loop k c (Suc i) nw =
     (if i < length (veh (nw ! k)) then
        (let vehicle = veh (nw ! k) ! i in
         if u_veh vehicle \<ge> uSource c \<and> shouldUseConnection nw k vehicle c
         then processConnection_loop k c i (transferVehicle nw k vehicle c i)
         else processConnection_loop k c i nw)
      else None)"

fun processConnections_loop :: "nat \<Rightarrow> connection list \<Rightarrow> network \<Rightarrow> network option" where
  "processConnections_loop k [] nw = Some nw"
| "processConnections_loop k (c # cs) nw =
     (case processConnection_loop k c (length (veh (nw ! k))) nw of
        None \<Rightarrow> None
      | Some nw1 \<Rightarrow> processConnections_loop k cs nw1)"

definition processConnections :: "nat \<Rightarrow> network \<Rightarrow> network option" where
  "processConnections k nw = processConnections_loop k (connects (nw ! k)) nw"


text \<open>
  The two tests that the inner loop of \<open>processConnections\<close> makes for a vehicle and a
  connection: the vehicle has reached the source offset, and it should use the
  connection.
\<close>

definition uses :: "network \<Rightarrow> nat \<Rightarrow> connection \<Rightarrow> vehicle \<Rightarrow> bool" where
  "uses nw k c v = (u_veh v \<ge> uSource c \<and> shouldUseConnection nw k v c)"

section \<open>Example networks\<close>

text \<open>
  For the examples below: a network with the vehicles \<open>vs\<close> put on its road \<open>k\<close>, and
  a car of route \<open>[0, 5]\<close> at \<open>u = 195\<close>, past the source offset 190 of the connections.
\<close>

definition put_vehicles :: "nat \<Rightarrow> vehicle list \<Rightarrow> network \<Rightarrow> network" where
  "put_vehicles k vs nw = nw[k := (nw ! k)\<lparr> veh := vs \<rparr>]"

definition car_05 :: vehicle where
  "car_05 = (car_at 1 195 15)\<lparr> route := Some [0, 5] \<rparr>"


section \<open>Theorems\<close>

subsection \<open>The acceleration law\<close>

lemma accFree_le_aeff:
  assumes "0 \<le> v" "0 < v0eff m" "0 \<le> aeff m"
  shows "accFree m v \<le> aeff m"
proof (cases "v < v0eff m")
  case True
  have "0 \<le> (v / v0eff m) ^ 4" by simp
  then have "1 - (v / v0eff m) ^ 4 \<le> 1" by simp
  then have "aeff m * (1 - (v / v0eff m) ^ 4) \<le> aeff m * 1"
    using assms(3) by (rule mult_left_mono)
  with True show ?thesis by (simp add: accFree_def)
next
  case False
  then have "1 \<le> v / v0eff m" using assms(2) by (simp add: le_divide_eq)
  then have "1 - v / v0eff m \<le> 0" by simp
  then have "aeff m * (1 - v / v0eff m) \<le> 0"
    using assms(3) by (simp add: mult_nonneg_nonpos)
  with False assms(3) show ?thesis by (simp add: accFree_def)
qed

lemma v0eff_default: "v0eff (IDMModel_default (1/2)) = 15"
  by (simp add: v0eff_def IDMModel_default_def IDMModel_new_def)

lemma aeff_default: "aeff (IDMModel_default (1/2)) = 2"
  by (simp add: aeff_def IDMModel_default_def IDMModel_new_def)

text \<open>
  Claim C1, amended. Let the model have a positive effective desired speed \<open>v0eff\<close>, a
  positive effective acceleration \<open>aeff = a * driverfactor\<close> and a positive \<open>b\<close>, as every
  model of the source has (then no division by zero and no square root of a negative
  number occurs). For a gap \<open>s > 0\<close> and a speed \<open>v \<ge> 0\<close>, \<open>calcAccDet\<close> returns
  \<open>max(-bmax, accFree + accInt)\<close> with the free-flow term, the interaction term and the
  desired gap \<open>sstar\<close> of the claim, and the result is at least \<open>-bmax\<close>. The free-flow
  term is bounded by \<open>aeff\<close>; it is not bounded by \<open>a\<close>, since the driver factor may
  exceed 1.
\<close>

theorem calcAccDet_formula:
  assumes "0 < s" "0 \<le> v" "0 < v0eff m" "0 < aeff m" "0 < idm_b m"
  shows "calcAccDet m s v vl al = max (- idm_bmax m) (accFree m v + accInt m s v vl)
       \<and> accFree m v = (if v < v0eff m then aeff m * (1 - (v / v0eff m) ^ 4)
                        else aeff m * (1 - v / v0eff m))
       \<and> accInt m s v vl = - aeff m * (sstar m v vl / max s (idm_s0 m)) ^ 2
       \<and> sstar m v vl = idm_s0 m + max 0 (v * idm_T m + (1/2) * v * (v - vl) / sqrt (aeff m * idm_b m))
       \<and> - idm_bmax m \<le> calcAccDet m s v vl al
       \<and> accFree m v \<le> aeff m"
proof -
  have "accInt m s v vl = - aeff m * (sstar m v vl / max s (idm_s0 m)) ^ 2"
    using assms(1,2) by (simp add: accInt_def)
  moreover have "accFree m v \<le> aeff m"
    using assms(2,3,4) by (simp add: accFree_le_aeff)
  moreover have "- idm_bmax m \<le> calcAccDet m s v vl al"
    by (simp add: calcAccDet_def)
  ultimately show ?thesis
    by (simp add: calcAccDet_def accFree_def sstar_def)
qed

text \<open>
  The theorem at the default model with driver factor 1, a standing vehicle and a gap of
  4 m behind a standing leader: the acceleration is \<open>2 - 2 * (2/4)\<^sup>2 = 1.5\<close>.
\<close>

theorem calcAccDet_formula_witness:
  "(0::real) < 4 \<and> 0 < v0eff (IDMModel_default (1/2)) \<and> 0 < aeff (IDMModel_default (1/2))
   \<and> 0 < idm_b (IDMModel_default (1/2))
   \<and> calcAccDet (IDMModel_default (1/2)) 4 0 0 0 = 3/2
   \<and> - idm_bmax (IDMModel_default (1/2)) \<le> calcAccDet (IDMModel_default (1/2)) 4 0 0 0
   \<and> accFree (IDMModel_default (1/2)) 0 \<le> aeff (IDMModel_default (1/2))"
proof -
  have h1: "(0::real) < 4" and h2: "(0::real) \<le> 0" by simp_all
  have h3: "0 < v0eff (IDMModel_default (1/2))" by (simp add: v0eff_default)
  have h4: "0 < aeff (IDMModel_default (1/2))" by (simp add: aeff_default)
  have h5: "0 < idm_b (IDMModel_default (1/2))"
    by (simp add: IDMModel_default_def IDMModel_new_def)
  have val: "calcAccDet (IDMModel_default (1/2)) 4 0 0 0 = 3/2"
    by (simp add: calcAccDet_def accFree_def accInt_def sstar_def v0eff_def aeff_def
        IDMModel_default_def IDMModel_new_def power2_eq_square)
  from calcAccDet_formula [OF h1 h2 h3 h4 h5, of 0 0] h1 h3 h4 h5 val show ?thesis by blast
qed

text \<open>
  The bound by \<open>a\<close> fails: \<open>new IDMModel()\<close> with \<open>Math.random()\<close> returning 0.75 has
  driver factor 1.05, and its free-flow term at speed 0 is \<open>2 * 1.05 = 2.1\<close>, above
  \<open>a = 2\<close>.
\<close>

theorem accFree_bound_counterexample:
  "\<not> accFree (IDMModel_default (3/4)) 0 \<le> idm_a (IDMModel_default (3/4))"
  by (simp add: accFree_def v0eff_def aeff_def IDMModel_default_def IDMModel_new_def)

subsection \<open>The lane-change decision\<close>

lemmas example_defs =
  car_at_def createVehicle_def Road_new_def IDMModel_default_def IDMModel_new_def
  MOBILModel_new_def LCModelMandatoryRight_def

lemmas mobil_defs =
  shouldChangeLanes_def calculateLaneAcceleration_def calculateFollowerImpact_def
  calculateOthersGain_def findLeadingVehicle_def findFollowingVehicle_def gap_behind_def
  calcAccDet_gap_def calcAccDet_def accFree_def accInt_def sstar_def v0eff_def aeff_def

lemma findFollowing_loop_none:
  "list_all (\<lambda>other. \<not> (id_veh other \<noteq> id_veh vehicle \<and> u_veh other < u_veh vehicle)) xs
   \<Longrightarrow> findFollowing_loop vehicle xs follower d = follower"
  by (induction xs arbitrary: follower d) auto

text \<open>
  Claim C2. When the acceleration computed for the new follower in the target lane is
  below \<open>-bSafe\<close>, \<open>shouldChangeLanes\<close> answers \<open>shouldChange = false\<close>; so an accepted
  change has a follower acceleration of at least \<open>-bSafe\<close>. When no vehicle of the target
  lane is behind the candidate, the impact term is 0 and, \<open>bSafe\<close> being a deceleration
  (not negative), the safety criterion does not reject: the decision carries
  \<open>safety = 0\<close> and a reason other than \<open>unsafe_follower\<close>.
\<close>

theorem shouldChangeLanes_safety:
  "(calculateFollowerImpact vehicle targetLane < - bSafe m \<longrightarrow>
      shouldChange (shouldChangeLanes m vehicle currentLane targetLane direction) = False)
   \<and> (shouldChange (shouldChangeLanes m vehicle currentLane targetLane direction) \<longrightarrow>
      - bSafe m \<le> calculateFollowerImpact vehicle targetLane)
   \<and> (list_all (\<lambda>other. \<not> (id_veh other \<noteq> id_veh vehicle \<and> u_veh other < u_veh vehicle)) targetLane
      \<and> 0 \<le> bSafe m \<longrightarrow>
      calculateFollowerImpact vehicle targetLane = 0
      \<and> reason (shouldChangeLanes m vehicle currentLane targetLane direction) \<noteq> ''unsafe_follower''
      \<and> safety (shouldChangeLanes m vehicle currentLane targetLane direction) = Some 0)"
proof (intro conjI impI)
  assume "calculateFollowerImpact vehicle targetLane < - bSafe m"
  then show "shouldChange (shouldChangeLanes m vehicle currentLane targetLane direction) = False"
    by (simp add: shouldChangeLanes_def)
next
  assume "shouldChange (shouldChangeLanes m vehicle currentLane targetLane direction)"
  then show "- bSafe m \<le> calculateFollowerImpact vehicle targetLane"
    by (simp add: shouldChangeLanes_def Let_def split: if_splits)
next
  assume a: "list_all (\<lambda>other. \<not> (id_veh other \<noteq> id_veh vehicle \<and> u_veh other < u_veh vehicle)) targetLane
      \<and> 0 \<le> bSafe m"
  then have none: "findFollowingVehicle vehicle targetLane = None"
    by (simp add: findFollowingVehicle_def findFollowing_loop_none)
  then show z: "calculateFollowerImpact vehicle targetLane = 0"
    by (simp add: calculateFollowerImpact_def)
  from a z show "reason (shouldChangeLanes m vehicle currentLane targetLane direction) \<noteq> ''unsafe_follower''"
    by (simp add: shouldChangeLanes_def Let_def)
  from a z show "safety (shouldChangeLanes m vehicle currentLane targetLane direction) = Some 0"
    by (simp add: shouldChangeLanes_def Let_def)
qed

text \<open>
  Two scenes. In the first a model with \<open>bSafe = 2\<close> judges a standing car of length 5 m
  at 20 m that would cut in 1 m ahead of a follower driving 15 m/s: the follower would
  brake with \<open>-bmax = -4\<close>, and the change is rejected. In the second the mandatory-right
  model judges a car at 20 m whose target lane holds only a vehicle ahead, at 100 m:
  the change is accepted, and the impact term is 0.
\<close>

theorem shouldChangeLanes_safety_witness:
  "calculateFollowerImpact ((car_at 1 20 0)\<lparr>length_veh := Some 5\<rparr>) [car_at 2 14 15]
     < - bSafe (MOBILModel_new (2/10) (1/10) (3/10) 2)
   \<and> shouldChange (shouldChangeLanes (MOBILModel_new (2/10) (1/10) (3/10) 2)
        ((car_at 1 20 0)\<lparr>length_veh := Some 5\<rparr>) [] [car_at 2 14 15] 1) = False
   \<and> shouldChange (shouldChangeLanes LCModelMandatoryRight (car_at 1 20 15)
        [car_at 1 20 15] [car_at 3 100 15] 1)
   \<and> - bSafe LCModelMandatoryRight \<le> calculateFollowerImpact (car_at 1 20 15) [car_at 3 100 15]
   \<and> list_all (\<lambda>other. \<not> (id_veh other \<noteq> id_veh (car_at 1 20 15)
                          \<and> u_veh other < u_veh (car_at 1 20 15))) [car_at 3 100 15]
   \<and> 0 \<le> bSafe LCModelMandatoryRight
   \<and> calculateFollowerImpact (car_at 1 20 15) [car_at 3 100 15] = 0
   \<and> reason (shouldChangeLanes LCModelMandatoryRight (car_at 1 20 15)
        [car_at 1 20 15] [car_at 3 100 15] 1) \<noteq> ''unsafe_follower''
   \<and> safety (shouldChangeLanes LCModelMandatoryRight (car_at 1 20 15)
        [car_at 1 20 15] [car_at 3 100 15] 1) = Some 0"
proof -
  let ?mA = "MOBILModel_new (2/10) (1/10) (3/10) 2"
  let ?vA = "(car_at 1 20 0)\<lparr>length_veh := Some 5\<rparr>"
  let ?v = "car_at 1 20 15"
  have a: "calculateFollowerImpact ?vA [car_at 2 14 15] < - bSafe ?mA"
    by (simp add: mobil_defs example_defs power2_eq_square Let_def)
  have b: "shouldChange (shouldChangeLanes LCModelMandatoryRight ?v [?v] [car_at 3 100 15] 1)"
    by (simp add: mobil_defs example_defs power2_eq_square Let_def)
  have c: "list_all (\<lambda>other. \<not> (id_veh other \<noteq> id_veh ?v \<and> u_veh other < u_veh ?v)) [car_at 3 100 15]
           \<and> 0 \<le> bSafe LCModelMandatoryRight"
    by (simp add: example_defs)
  from shouldChangeLanes_safety [of ?vA "[car_at 2 14 15]" ?mA "[]" 1] a
       shouldChangeLanes_safety [of ?v "[car_at 3 100 15]" LCModelMandatoryRight "[?v]" 1] b c
  show ?thesis by blast
qed

subsection \<open>Mandatory changes\<close>

lemma findFollowing_loop_flag:
  "findFollowing_loop (vehicle\<lparr>mandatoryLaneChange := f\<rparr>) xs follower d
   = findFollowing_loop vehicle xs follower d"
  by (induction xs arbitrary: follower d) (auto simp: Let_def)

lemma findLeading_loop_flag:
  "findLeading_loop (vehicle\<lparr>mandatoryLaneChange := f\<rparr>) xs leader d
   = findLeading_loop vehicle xs leader d"
  by (induction xs arbitrary: leader d) (auto simp: Let_def)

lemma calculateLaneAcceleration_flag:
  "calculateLaneAcceleration (vehicle\<lparr>mandatoryLaneChange := f\<rparr>) xs
   = calculateLaneAcceleration vehicle xs"
  by (simp add: calculateLaneAcceleration_def findLeadingVehicle_def findLeading_loop_flag
      split: option.split)

lemma calculateFollowerImpact_flag:
  "calculateFollowerImpact (vehicle\<lparr>mandatoryLaneChange := f\<rparr>) xs
   = calculateFollowerImpact vehicle xs"
  by (simp add: calculateFollowerImpact_def findFollowingVehicle_def findFollowing_loop_flag
      gap_behind_def split: option.split)

lemma calculateOthersGain_flag:
  "calculateOthersGain m (vehicle\<lparr>mandatoryLaneChange := f\<rparr>) xs ys
   = calculateOthersGain m vehicle xs ys"
  by (simp add: calculateOthersGain_def findFollowingVehicle_def findLeadingVehicle_def
      findFollowing_loop_flag findLeading_loop_flag gap_behind_def split: option.split)

text \<open>
  The bonus \<open>aThr\<close> on the incentive and the doubled multiplier cancel:
  \<open>incentive + aThr > aThr * 2\<close> says \<open>incentive > aThr\<close>. With one model, the flag
  \<open>mandatoryLaneChange\<close> never changes the decision.
\<close>

lemma shouldChange_flag_irrelevant:
  "shouldChange (shouldChangeLanes m (vehicle\<lparr>mandatoryLaneChange := True\<rparr>) cur tgt direction)
   = shouldChange (shouldChangeLanes m (vehicle\<lparr>mandatoryLaneChange := False\<rparr>) cur tgt direction)"
  by (simp add: shouldChangeLanes_def Let_def calculateLaneAcceleration_flag
      calculateFollowerImpact_flag calculateOthersGain_flag)

text \<open>
  Claim C8, on the code. A standing car at 10 m that must change to the right, with a
  standing vehicle of length 5 m at 20 m in the target lane, judged by the
  mandatory-right model (threshold 0.2, right bias 0.5): the base incentive is
  \<open>1.68 - 1.999992 + 0.5 = 0.180008\<close>, above 0 and below the threshold. The mandatory
  change is rejected (\<open>0.380008 > 0.4\<close> fails) exactly as the same change without the flag
  is (\<open>0.180008 > 0.2\<close> fails): the effective threshold has not been lowered.
\<close>

theorem mandatory_change_same_threshold:
  "shouldChange (shouldChangeLanes LCModelMandatoryRight
      ((car_at 1 10 0)\<lparr>mandatoryLaneChange := True\<rparr>)
      [(car_at 1 10 0)\<lparr>mandatoryLaneChange := True\<rparr>]
      [(car_at 2 20 0)\<lparr>length_veh := Some 5\<rparr>] 1) = False
   \<and> incentive (shouldChangeLanes LCModelMandatoryRight
      ((car_at 1 10 0)\<lparr>mandatoryLaneChange := True\<rparr>)
      [(car_at 1 10 0)\<lparr>mandatoryLaneChange := True\<rparr>]
      [(car_at 2 20 0)\<lparr>length_veh := Some 5\<rparr>] 1) = Some (47501/125000)
   \<and> shouldChange (shouldChangeLanes LCModelMandatoryRight
      (car_at 1 10 0) [car_at 1 10 0] [(car_at 2 20 0)\<lparr>length_veh := Some 5\<rparr>] 1) = False
   \<and> incentive (shouldChangeLanes LCModelMandatoryRight
      (car_at 1 10 0) [car_at 1 10 0] [(car_at 2 20 0)\<lparr>length_veh := Some 5\<rparr>] 1)
      = Some (22501/125000)
   \<and> aThr LCModelMandatoryRight = 2/10"
  by (simp add: mobil_defs example_defs power2_eq_square Let_def)

subsection \<open>Integration\<close>

lemma update_v_dvdt_optical_frame:
  "u_veh (update_v_dvdt_optical w) = u_veh w"
  "speed (update_v_dvdt_optical w) = speed w"
  "id_veh (update_v_dvdt_optical w) = id_veh w"
  by (simp_all add: update_v_dvdt_optical_def Let_def)

lemma body_regular:
  assumes "isRegular w"
  shows "u_veh (updateSpeedPositions_body w)
           = u_veh w + max 0 (speed w * DT + (1/2) * acc w * DT * DT)"
    and "speed (updateSpeedPositions_body w) = max 0 (speed w + acc w * DT)"
  using assms by (simp_all add: updateSpeedPositions_body_def Let_def update_v_dvdt_optical_frame)

lemma body_other: "\<not> isRegular w \<Longrightarrow> updateSpeedPositions_body w = w"
  by (simp add: updateSpeedPositions_body_def)

lemma body_u_mono: "u_veh w \<le> u_veh (updateSpeedPositions_body w)"
  by (cases "isRegular w") (simp_all add: body_regular body_other)

lemma body_id: "id_veh (updateSpeedPositions_body w) = id_veh w"
  by (simp add: updateSpeedPositions_body_def Let_def update_v_dvdt_optical_frame)

text \<open>
  Claim C3. \<open>updateSpeedPositions\<close> applies its loop body to every vehicle and keeps the
  vehicles with \<open>u \<le> roadLen + 10\<close>. For a regular vehicle the body adds
  \<open>max(0, speed*dt + 0.5*acc*dt\<^sup>2)\<close> to \<open>u\<close> and sets the speed to
  \<open>max(0, speed + acc*dt)\<close>, which is not negative. No vehicle's \<open>u\<close> decreases, and
  every vehicle left on the road is the image of a vehicle that was there, with
  \<open>u \<le> roadLen + 10\<close>.
\<close>

theorem updateSpeedPositions_pass:
  "veh (updateSpeedPositions r)
     = filter (\<lambda>w. u_veh w \<le> roadLen r + 10) (map updateSpeedPositions_body (veh r))
   \<and> (\<forall>w. isRegular w \<longrightarrow>
         u_veh (updateSpeedPositions_body w)
           = u_veh w + max 0 (speed w * DT + (1/2) * acc w * DT * DT)
         \<and> speed (updateSpeedPositions_body w) = max 0 (speed w + acc w * DT)
         \<and> 0 \<le> speed (updateSpeedPositions_body w))
   \<and> (\<forall>w. u_veh w \<le> u_veh (updateSpeedPositions_body w))
   \<and> (\<forall>w' \<in> set (veh (updateSpeedPositions r)).
         u_veh w' \<le> roadLen r + 10
         \<and> (\<exists>w \<in> set (veh r). w' = updateSpeedPositions_body w \<and> u_veh w \<le> u_veh w'
              \<and> (isRegular w \<longrightarrow> 0 \<le> speed w')))"
proof (intro conjI allI impI ballI)
  fix w' assume a: "w' \<in> set (veh (updateSpeedPositions r))"
  then show "u_veh w' \<le> roadLen r + 10" by (simp add: updateSpeedPositions_def)
  from a obtain w where w: "w \<in> set (veh r)" "w' = updateSpeedPositions_body w"
    by (auto simp: updateSpeedPositions_def)
  have "u_veh w \<le> u_veh w'" using w(2) body_u_mono by simp
  moreover have "isRegular w \<longrightarrow> 0 \<le> speed w'" using w(2) by (simp add: body_regular)
  ultimately show "\<exists>w \<in> set (veh r). w' = updateSpeedPositions_body w \<and> u_veh w \<le> u_veh w'
              \<and> (isRegular w \<longrightarrow> 0 \<le> speed w')" using w by blast
qed (simp_all add: updateSpeedPositions_def body_regular body_u_mono)

text \<open>
  A road of 200 m with three cars: one at 100 m braking with \<open>-4\<close> from 0.1 m/s (it
  stops, and \<open>u\<close> stays), one at 205 m driving 15 m/s (it reaches 206.75 m and stays on
  the road) and one at 209 m driving 15 m/s (it reaches 210.75 m and is dropped).
\<close>

theorem updateSpeedPositions_pass_witness:
  "isRegular ((car_at 1 100 (1/10))\<lparr>acc := - 4\<rparr>)
   \<and> u_veh (updateSpeedPositions_body ((car_at 1 100 (1/10))\<lparr>acc := - 4\<rparr>)) = 100
   \<and> speed (updateSpeedPositions_body ((car_at 1 100 (1/10))\<lparr>acc := - 4\<rparr>)) = 0
   \<and> 0 \<le> speed (updateSpeedPositions_body ((car_at 1 100 (1/10))\<lparr>acc := - 4\<rparr>))
   \<and> updateSpeedPositions_body (car_at 2 205 15)
        \<in> set (veh (updateSpeedPositions ((Road_new 0 200 3 2)
              \<lparr>veh := [(car_at 1 100 (1/10))\<lparr>acc := - 4\<rparr>, car_at 2 205 15, car_at 3 209 15]\<rparr>)))
   \<and> map u_veh (veh (updateSpeedPositions ((Road_new 0 200 3 2)
              \<lparr>veh := [(car_at 1 100 (1/10))\<lparr>acc := - 4\<rparr>, car_at 2 205 15, car_at 3 209 15]\<rparr>)))
        = [100, 827/4]
   \<and> u_veh (updateSpeedPositions_body (car_at 2 205 15))
        \<le> roadLen ((Road_new 0 200 3 2)
              \<lparr>veh := [(car_at 1 100 (1/10))\<lparr>acc := - 4\<rparr>, car_at 2 205 15, car_at 3 209 15]\<rparr>) + 10"
proof -
  let ?A = "(car_at 1 100 (1/10))\<lparr>acc := - 4\<rparr>"
  let ?R = "(Road_new 0 200 3 2)\<lparr>veh := [?A, car_at 2 205 15, car_at 3 209 15]\<rparr>"
  have reg: "isRegular ?A" "isRegular (car_at 2 205 15)" "isRegular (car_at 3 209 15)"
    by (simp_all add: isRegular_def example_defs)
  have uA: "u_veh (updateSpeedPositions_body ?A) = 100"
    and sA: "speed (updateSpeedPositions_body ?A) = 0"
    and uB: "u_veh (updateSpeedPositions_body (car_at 2 205 15)) = 827/4"
    and uC: "u_veh (updateSpeedPositions_body (car_at 3 209 15)) = 843/4"
    by (simp_all add: body_regular reg) (simp_all add: example_defs DT_def)
  have us: "map u_veh (veh (updateSpeedPositions ?R)) = [100, 827/4]"
    by (simp add: updateSpeedPositions_def uA uB uC) (simp add: Road_new_def)
  have mem: "updateSpeedPositions_body (car_at 2 205 15) \<in> set (veh (updateSpeedPositions ?R))"
    by (simp add: updateSpeedPositions_def uA uB uC) (simp add: Road_new_def)
  from updateSpeedPositions_pass [of ?R] reg(1) mem uA sA us show ?thesis by blast
qed

subsection \<open>Inflow\<close>

lemma canSpawn_loop_all:
  "canSpawn_loop es newVeh
   = list_all (\<lambda>e. \<not> (lane e = lane newVeh \<and> \<bar>u_veh e - u_veh newVeh\<bar> < 15)) es"
  by (induction es) auto

lemma createVehicle_buffer:
  "createVehicle (r\<lparr>inVehBuffer := x\<rparr>) rt ty r_id r_lane r_speed r_idm
   = createVehicle r rt ty r_id r_lane r_speed r_idm"
  by (simp add: createVehicle_def)

text \<open>
  Claim C9. \<open>updateBCup\<close> adds \<open>flow*dt/3600\<close> to the counter. The new vehicle would
  stand at \<open>u = 5\<close> in the lane drawn for it. It is appended, and the counter lowered by
  exactly 1, if and only if the counter has reached 1 and no vehicle of the road is in
  that lane less than 15 m from \<open>u = 5\<close>; otherwise the vehicles are unchanged and the
  counter keeps its incremented value. A call adds at most one vehicle.
\<close>

theorem updateBCup_spawn:
  assumes "buf = inVehBuffer r + flow * dt / 3600"
      and "newVeh = createVehicle r (selectRoute possibleRoutes r_route) ''car'' r_id r_lane r_speed r_idm"
      and "r' = updateBCup flow dt possibleRoutes r_route r_id r_lane r_speed r_idm r"
  shows "u_veh newVeh = 5 \<and> lane newVeh = \<lfloor>r_lane * real_of_int (nLanes r)\<rfloor>
    \<and> (if 1 \<le> buf \<and> list_all (\<lambda>e. \<not> (lane e = lane newVeh \<and> \<bar>u_veh e - 5\<bar> < 15)) (veh r)
        then veh r' = veh r @ [newVeh] \<and> inVehBuffer r' = buf - 1
        else veh r' = veh r \<and> inVehBuffer r' = buf)
    \<and> length (veh r') \<le> length (veh r) + 1"
proof -
  have u5: "u_veh newVeh = 5" and ln: "lane newVeh = \<lfloor>r_lane * real_of_int (nLanes r)\<rfloor>"
    using assms(2) by (simp_all add: createVehicle_def Let_def)
  have can: "canSpawnVehicle (r\<lparr>inVehBuffer := buf\<rparr>) newVeh
             = list_all (\<lambda>e. \<not> (lane e = lane newVeh \<and> \<bar>u_veh e - 5\<bar> < 15)) (veh r)"
    by (simp add: canSpawnVehicle_def canSpawn_loop_all u5)
  have r': "r' = (if 1 \<le> buf then
                    if canSpawnVehicle (r\<lparr>inVehBuffer := buf\<rparr>) newVeh
                    then r\<lparr>inVehBuffer := buf - 1, veh := veh r @ [newVeh]\<rparr>
                    else r\<lparr>inVehBuffer := buf\<rparr>
                  else r\<lparr>inVehBuffer := buf\<rparr>)"
    using assms by (simp add: updateBCup_def Let_def createVehicle_buffer)
  show ?thesis
    using u5 ln by (simp add: r' can)
qed

text \<open>
  A flow of 3600 vehicles per hour over one second fills the counter of an empty road
  from 0 to 1: the car is spawned and the counter returns to 0. With a car at 10 m in
  lane 0 the spawn in lane 0 is rejected and the counter stays at 1.
\<close>

theorem updateBCup_spawn_witness:
  "veh (updateBCup 3600 1 [[0, 5]] 0 0 0 (1/2) (1/2) (Road_new 0 200 3 2))
     = [createVehicle (Road_new 0 200 3 2) (Some [0, 5]) ''car'' 0 0 (1/2) (1/2)]
   \<and> inVehBuffer (updateBCup 3600 1 [[0, 5]] 0 0 0 (1/2) (1/2) (Road_new 0 200 3 2)) = 0
   \<and> veh (updateBCup 3600 1 [[0, 5]] 0 0 0 (1/2) (1/2) ((Road_new 0 200 3 2)\<lparr>veh := [car_at 7 10 15]\<rparr>))
     = [car_at 7 10 15]
   \<and> inVehBuffer (updateBCup 3600 1 [[0, 5]] 0 0 0 (1/2) (1/2)
        ((Road_new 0 200 3 2)\<lparr>veh := [car_at 7 10 15]\<rparr>)) = 1"
proof -
  let ?R = "Road_new 0 200 3 2"
  let ?Q = "(Road_new 0 200 3 2)\<lparr>veh := [car_at 7 10 15]\<rparr>"
  let ?n = "createVehicle ?R (Some [0, 5]) ''car'' 0 0 (1/2) (1/2)"
  have sel: "selectRoute [[0, 5]] 0 = Some [0, 5]" by (simp add: selectRoute_def)
  have b1: "(1::real) = inVehBuffer ?R + 3600 * 1 / 3600" by (simp add: Road_new_def)
  have b2: "(1::real) = inVehBuffer ?Q + 3600 * 1 / 3600" by (simp add: Road_new_def)
  have n1: "?n = createVehicle ?R (selectRoute [[0, 5]] 0) ''car'' 0 0 (1/2) (1/2)"
    by (simp add: sel)
  have n2: "?n = createVehicle ?Q (selectRoute [[0, 5]] 0) ''car'' 0 0 (1/2) (1/2)"
    by (simp add: sel createVehicle_def Road_new_def)
  have free: "list_all (\<lambda>e. \<not> (lane e = lane ?n \<and> \<bar>u_veh e - 5\<bar> < 15)) (veh ?R)"
    by (simp add: Road_new_def)
  have blocked: "\<not> list_all (\<lambda>e. \<not> (lane e = lane ?n \<and> \<bar>u_veh e - 5\<bar> < 15)) (veh ?Q)"
    by (simp add: example_defs)
  from updateBCup_spawn [OF b1 n1 refl] free
  have "veh (updateBCup 3600 1 [[0, 5]] 0 0 0 (1/2) (1/2) ?R) = veh ?R @ [?n]
        \<and> inVehBuffer (updateBCup 3600 1 [[0, 5]] 0 0 0 (1/2) (1/2) ?R) = 1 - 1"
    by simp
  moreover from updateBCup_spawn [OF b2 n2 refl] blocked
  have "veh (updateBCup 3600 1 [[0, 5]] 0 0 0 (1/2) (1/2) ?Q) = veh ?Q
        \<and> inVehBuffer (updateBCup 3600 1 [[0, 5]] 0 0 0 (1/2) (1/2) ?Q) = 1"
    by simp
  ultimately show ?thesis by (simp add: Road_new_def)
qed

subsection \<open>The fixed cycle\<close>

text \<open>
  A sum of whole numbers that is at most \<open>2 ^ 53\<close> is a double, so that \<open>fadd\<close> returns it
  unrounded. Above \<open>2 ^ 53\<close> the doubles are the even numbers, and \<open>2 ^ 53 + 1\<close> is rounded
  to \<open>2 ^ 53\<close>.
\<close>

lemma round_even_of_int: "round_even (real_of_int m) = m"
  by (simp add: round_even_def)

lemma double_of_int:
  assumes "\<bar>real_of_int n\<bar> \<le> 2 ^ 53"
  shows "double (real_of_int n) = real_of_int n"
proof (cases "n = 0")
  case True
  then show ?thesis by (simp add: double_def)
next
  case False
  define a where "a = \<bar>real_of_int n\<bar>"
  define e where "e = \<lfloor>log 2 a\<rfloor>"
  from False have a1: "1 \<le> a" by (simp add: a_def abs_if)
  then have "0 \<le> log 2 a" by simp
  then have e0: "0 \<le> e" by (simp add: e_def)
  have "a \<le> 2 powr 53" using assms by (simp only: a_def powr_numeral zero_le_numeral)
  then have l53: "log 2 a \<le> 53" using a1 by (simp only: log_le_iff)
  then have e53: "e \<le> 53" unfolding e_def by linarith
  have k: "ulp_exponent (real_of_int n) = e - 52"
    using e0 by (simp add: ulp_exponent_def e_def a_def)
  show ?thesis
  proof (cases "e \<le> 52")
    case True
    define j where "j = nat (52 - e)"
    have p: "power_int (2::real) (e - 52) = 1 / 2 ^ j"
    proof (cases "e = 52")
      case True
      then show ?thesis by (simp add: j_def)
    next
      case False
      with \<open>e \<le> 52\<close> have neg: "\<not> 0 \<le> e - 52" by simp
      have "nat (- (e - 52)) = j" by (simp add: j_def)
      then have "power_int (2::real) (e - 52) = inverse 2 ^ j"
        using neg unfolding power_int_def by simp
      also have "\<dots> = 1 / 2 ^ j" by (simp add: power_one_over)
      finally show ?thesis .
    qed
    have q: "real_of_int n / (1 / 2 ^ j) = real_of_int (n * 2 ^ j)" by simp
    show ?thesis
      using False unfolding double_def k p q round_even_of_int by simp
  next
    case False
    with e53 have e: "e = 53" by simp
    then have "53 \<le> log 2 a" unfolding e_def by linarith
    then have "2 powr 53 \<le> a" using a1 by (simp add: le_log_iff)
    then have "2 ^ 53 \<le> a" by (simp only: powr_numeral zero_le_numeral)
    with assms have a: "a = 2 ^ 53" by (simp add: a_def)
    then have "real_of_int \<bar>n\<bar> = real_of_int (2 ^ 53)" by (simp add: a_def)
    then have "\<bar>n\<bar> = 2 ^ 53" by (simp only: of_int_eq_iff)
    then have "n = 2 ^ 53 \<or> n = - (2 ^ 53)" by linarith
    then obtain m where m: "n = 2 * m" by auto
    have p: "power_int (2::real) (e - 52) = 2" by (simp add: e)
    have q: "real_of_int n / 2 = real_of_int m" by (simp add: m)
    show ?thesis
      using \<open>n \<noteq> 0\<close> unfolding double_def k p q round_even_of_int by (simp add: m)
  qed
qed

lemma fadd_Nats:
  assumes "x \<in> \<nat>" and "y \<in> \<nat>" and "x + y \<le> 2 ^ 53"
  shows "fadd x y = x + y"
proof -
  from assms(1) obtain a where a: "x = real a" by (rule Nats_cases)
  from assms(2) obtain b where b: "y = real b" by (rule Nats_cases)
  have eq: "x + y = real_of_int (int (a + b))" by (simp add: a b)
  have "\<bar>real_of_int (int (a + b))\<bar> \<le> 2 ^ 53" using assms(3) by (simp add: a b)
  then have "double (real_of_int (int (a + b))) = real_of_int (int (a + b))"
    by (rule double_of_int)
  then show ?thesis unfolding fadd_def eq .
qed

lemma fadd_rounds: "fadd (2 ^ 53) 1 = 2 ^ 53"
proof -
  have "(53::real) \<le> log 2 9007199254740993" by (simp add: le_log_iff powr_numeral)
  moreover have "log 2 9007199254740993 < (54::real)" by (simp add: log_less_iff powr_numeral)
  ultimately have "\<lfloor>log 2 (9007199254740993::real)\<rfloor> = 53" by linarith
  then have k: "ulp_exponent 9007199254740993 = 1" by (simp add: ulp_exponent_def)
  have r: "round_even (9007199254740993 / 2) = 4503599627370496"
    by (simp add: round_even_def Let_def)
  show ?thesis by (simp add: fadd_def double_def k r)
qed

lemma setAllLightsRed_eq: "setAllLightsRed c = c\<lparr> lights := (\<lambda>d. Red) \<rparr>"
proof -
  have "(lights c)(North := Red, South := Red, East := Red, West := Red) = (\<lambda>d. Red)"
  proof
    fix d show "((lights c)(North := Red, South := Red, East := Red, West := Red)) d = Red"
      by (cases d) simp_all
  qed
  then show ?thesis by (simp add: setAllLightsRed_def DIRECTIONS_def)
qed

lemma setFixedLightState_frame:
  "fixedState_of (setFixedLightState c) = fixedState_of c"
  "settings_of (setFixedLightState c) = settings_of c"
  by (simp_all add: setFixedLightState_def Let_def setAllLightsRed_eq)

lemma advanceFixedPhase_frame:
  "currentPhase (fixedState_of (advanceFixedPhase c)) = (currentPhase (fixedState_of c) + 1) mod 6"
  "phaseTimer (fixedState_of (advanceFixedPhase c)) = 0"
  "settings_of (advanceFixedPhase c) = settings_of c"
  by (simp_all add: advanceFixedPhase_def Let_def setFixedLightState_frame)

lemma advanceFixedPhase_timer:
  "advanceFixedPhase (c\<lparr> fixedState_of := (fixedState_of c)\<lparr> phaseTimer := t \<rparr> \<rparr>)
   = advanceFixedPhase c"
  by (simp add: advanceFixedPhase_def Let_def setFixedLightState_def setAllLightsRed_eq)

lemma updateFixedMode_step:
  assumes "currentPhase (fixedState_of c) < 6"
  shows "updateFixedMode deltaTime c
         = (if fadd (phaseTimer (fixedState_of c)) deltaTime
                 \<ge> phaseDuration (settings_of c) (currentPhase (fixedState_of c))
            then advanceFixedPhase c
            else c\<lparr> fixedState_of := (fixedState_of c)
                     \<lparr> phaseTimer := fadd (phaseTimer (fixedState_of c)) deltaTime \<rparr> \<rparr>)"
proof -
  from assms have "currentPhase (fixedState_of c) \<in> {0, 1, 2, 3, 4, 5}" by auto
  then show ?thesis
    by (auto simp: updateFixedMode_def Let_def phaseDuration_def advanceFixedPhase_timer)
qed

lemma updateFixedMode_run_append:
  "updateFixedMode_run (xs @ ys) c = updateFixedMode_run ys (updateFixedMode_run xs c)"
  by (induction xs arbitrary: c) simp_all

lemma phase_block:
  assumes "currentPhase (fixedState_of c) < 6"
      and "ds \<noteq> []"
      and "list_all (\<lambda>d. d \<in> \<nat> \<and> 0 < d) ds"
      and "phaseTimer (fixedState_of c) \<in> \<nat>"
      and "phaseTimer (fixedState_of c) + sum_list ds
           = phaseDuration (settings_of c) (currentPhase (fixedState_of c))"
      and "phaseDuration (settings_of c) (currentPhase (fixedState_of c)) \<le> 2 ^ 53"
  shows "updateFixedMode_run ds c = advanceFixedPhase c"
  using assms
proof (induction ds arbitrary: c)
  case Nil
  then show ?case by simp
next
  case (Cons d ds)
  let ?t = "phaseTimer (fixedState_of c)"
  let ?D = "phaseDuration (settings_of c) (currentPhase (fixedState_of c))"
  from Cons.prems(3) have d: "d \<in> \<nat>" "0 < d" and rest: "list_all (\<lambda>d. d \<in> \<nat> \<and> 0 < d) ds"
    by simp_all
  from rest have nn: "0 \<le> sum_list ds"
    by (intro sum_list_nonneg) (simp add: list_all_iff less_imp_le)
  from Cons.prems(5) have sum: "?t + d + sum_list ds = ?D" by simp
  with nn Cons.prems(6) have "?t + d \<le> 2 ^ 53" by linarith
  with Cons.prems(4) d(1) have exact: "fadd ?t d = ?t + d" by (intro fadd_Nats)
  show ?case
  proof (cases ds)
    case Nil
    with sum have "?D \<le> fadd ?t d" by (simp add: exact)
    with Cons.prems(1) Nil show ?thesis by (simp add: updateFixedMode_step)
  next
    case ne: (Cons e es)
    let ?c1 = "c\<lparr> fixedState_of := (fixedState_of c)\<lparr> phaseTimer := ?t + d \<rparr> \<rparr>"
    from rest ne have "0 < e" "0 \<le> sum_list es"
      by (simp_all add: list_all_iff less_imp_le sum_list_nonneg)
    with ne have pos: "0 < sum_list ds" by simp
    with sum have lt: "\<not> ?D \<le> fadd ?t d" by (simp add: exact)
    with Cons.prems(1) have step: "updateFixedMode d c = ?c1"
      by (simp add: updateFixedMode_step exact)
    have "updateFixedMode_run ds ?c1 = advanceFixedPhase ?c1"
    proof (rule Cons.IH)
      show "currentPhase (fixedState_of ?c1) < 6" using Cons.prems(1) by simp
      show "ds \<noteq> []" using ne by simp
      show "list_all (\<lambda>d. d \<in> \<nat> \<and> 0 < d) ds" by (rule rest)
      show "phaseTimer (fixedState_of ?c1) \<in> \<nat>" using Cons.prems(4) d(1) by simp
      show "phaseTimer (fixedState_of ?c1) + sum_list ds
            = phaseDuration (settings_of ?c1) (currentPhase (fixedState_of ?c1))"
        using sum by simp
      show "phaseDuration (settings_of ?c1) (currentPhase (fixedState_of ?c1)) \<le> 2 ^ 53"
        using Cons.prems(6) by simp
    qed
    then show ?thesis by (simp add: step advanceFixedPhase_timer)
  qed
qed

lemma advance_from_5:
  assumes "currentPhase (fixedState_of c) = 5"
  shows "lights (advanceFixedPhase c) = (\<lambda>d. Red)(North := Green, South := Green)"
  using assms by (simp add: advanceFixedPhase_def Let_def setFixedLightState_def setAllLightsRed_eq)

text \<open>
  Claim C4, amended. In a phase below 6 a call of \<open>updateFixedMode\<close> adds the frame time
  to the phase timer, as a sum of doubles; when the timer has reached the phase's duration
  (the green duration in phases 0 and 3, the yellow duration in phases 1 and 4, 3000 ms
  in phases 2 and 5) the phase advances by one modulo 6 and the timer returns to 0, and
  otherwise the phase stays. So the cycle closes after exactly
  \<open>GREEN + YELLOW + 3000 + GREEN + YELLOW + 3000\<close> ms when the frame times are positive
  whole numbers of milliseconds that meet every phase boundary exactly, that is, when
  they split into six runs \<open>b0\<close>, ..., \<open>b5\<close> that add up to the six durations, and the
  durations are at most \<open>2 ^ 53\<close> ms, so that the timer holds every sum unrounded: then
  the controller started in phase 0 with timer 0 is back in phase 0 with timer 0, north
  and south green and east and west red.
\<close>

theorem fixed_cycle_closure:
  assumes "currentPhase (fixedState_of c) = 0"
      and "phaseTimer (fixedState_of c) = 0"
      and "list_all (\<lambda>b. b \<noteq> [] \<and> list_all (\<lambda>d. d \<in> \<nat> \<and> 0 < d) b) [b0, b1, b2, b3, b4, b5]"
      and "sum_list b0 = GREEN_DURATION (settings_of c)"
      and "sum_list b1 = YELLOW_DURATION (settings_of c)"
      and "sum_list b2 = 3000"
      and "sum_list b3 = GREEN_DURATION (settings_of c)"
      and "sum_list b4 = YELLOW_DURATION (settings_of c)"
      and "sum_list b5 = 3000"
      and "GREEN_DURATION (settings_of c) \<le> 2 ^ 53"
      and "YELLOW_DURATION (settings_of c) \<le> 2 ^ 53"
  shows "(\<forall>deltaTime k. currentPhase (fixedState_of k) < 6 \<longrightarrow>
           (if fadd (phaseTimer (fixedState_of k)) deltaTime
                 \<ge> phaseDuration (settings_of k) (currentPhase (fixedState_of k))
            then currentPhase (fixedState_of (updateFixedMode deltaTime k))
                   = (currentPhase (fixedState_of k) + 1) mod 6
                 \<and> phaseTimer (fixedState_of (updateFixedMode deltaTime k)) = 0
            else currentPhase (fixedState_of (updateFixedMode deltaTime k))
                   = currentPhase (fixedState_of k)
                 \<and> phaseTimer (fixedState_of (updateFixedMode deltaTime k))
                   = fadd (phaseTimer (fixedState_of k)) deltaTime))
       \<and> sum_list (b0 @ b1 @ b2 @ b3 @ b4 @ b5)
           = GREEN_DURATION (settings_of c) + YELLOW_DURATION (settings_of c) + 3000
             + GREEN_DURATION (settings_of c) + YELLOW_DURATION (settings_of c) + 3000
       \<and> currentPhase (fixedState_of (updateFixedMode_run (b0 @ b1 @ b2 @ b3 @ b4 @ b5) c)) = 0
       \<and> phaseTimer (fixedState_of (updateFixedMode_run (b0 @ b1 @ b2 @ b3 @ b4 @ b5) c)) = 0
       \<and> lights (updateFixedMode_run (b0 @ b1 @ b2 @ b3 @ b4 @ b5) c)
           = (\<lambda>d. Red)(North := Green, South := Green)"
proof -
  define c1 where "c1 = advanceFixedPhase c"
  define c2 where "c2 = advanceFixedPhase c1"
  define c3 where "c3 = advanceFixedPhase c2"
  define c4 where "c4 = advanceFixedPhase c3"
  define c5 where "c5 = advanceFixedPhase c4"
  define c6 where "c6 = advanceFixedPhase c5"
  note defs = c1_def c2_def c3_def c4_def c5_def c6_def
  have ph: "currentPhase (fixedState_of c1) = 1" "currentPhase (fixedState_of c2) = 2"
    "currentPhase (fixedState_of c3) = 3" "currentPhase (fixedState_of c4) = 4"
    "currentPhase (fixedState_of c5) = 5" "currentPhase (fixedState_of c6) = 0"
    using assms(1) by (simp_all add: defs advanceFixedPhase_frame)
  have tm: "phaseTimer (fixedState_of c1) = 0" "phaseTimer (fixedState_of c2) = 0"
    "phaseTimer (fixedState_of c3) = 0" "phaseTimer (fixedState_of c4) = 0"
    "phaseTimer (fixedState_of c5) = 0" "phaseTimer (fixedState_of c6) = 0"
    by (simp_all add: defs advanceFixedPhase_frame)
  have st: "settings_of c1 = settings_of c" "settings_of c2 = settings_of c"
    "settings_of c3 = settings_of c" "settings_of c4 = settings_of c"
    "settings_of c5 = settings_of c"
    by (simp_all add: defs advanceFixedPhase_frame)
  have r0: "updateFixedMode_run b0 c = c1"
    unfolding c1_def using assms by (intro phase_block) (simp_all add: phaseDuration_def)
  have r1: "updateFixedMode_run b1 c1 = c2"
    unfolding c2_def using assms ph tm st by (intro phase_block) (simp_all add: phaseDuration_def)
  have r2: "updateFixedMode_run b2 c2 = c3"
    unfolding c3_def using assms ph tm st by (intro phase_block) (simp_all add: phaseDuration_def)
  have r3: "updateFixedMode_run b3 c3 = c4"
    unfolding c4_def using assms ph tm st by (intro phase_block) (simp_all add: phaseDuration_def)
  have r4: "updateFixedMode_run b4 c4 = c5"
    unfolding c5_def using assms ph tm st by (intro phase_block) (simp_all add: phaseDuration_def)
  have r5: "updateFixedMode_run b5 c5 = c6"
    unfolding c6_def using assms ph tm st by (intro phase_block) (simp_all add: phaseDuration_def)
  have run: "updateFixedMode_run (b0 @ b1 @ b2 @ b3 @ b4 @ b5) c = c6"
    by (simp add: updateFixedMode_run_append r0 r1 r2 r3 r4 r5)
  have li: "lights c6 = (\<lambda>d. Red)(North := Green, South := Green)"
    unfolding c6_def using ph(5) by (rule advance_from_5)
  have single: "\<forall>deltaTime k. currentPhase (fixedState_of k) < 6 \<longrightarrow>
           (if fadd (phaseTimer (fixedState_of k)) deltaTime
                 \<ge> phaseDuration (settings_of k) (currentPhase (fixedState_of k))
            then currentPhase (fixedState_of (updateFixedMode deltaTime k))
                   = (currentPhase (fixedState_of k) + 1) mod 6
                 \<and> phaseTimer (fixedState_of (updateFixedMode deltaTime k)) = 0
            else currentPhase (fixedState_of (updateFixedMode deltaTime k))
                   = currentPhase (fixedState_of k)
                 \<and> phaseTimer (fixedState_of (updateFixedMode deltaTime k))
                   = fadd (phaseTimer (fixedState_of k)) deltaTime)"
    by (simp add: updateFixedMode_step advanceFixedPhase_frame)
  have total: "sum_list (b0 @ b1 @ b2 @ b3 @ b4 @ b5)
           = GREEN_DURATION (settings_of c) + YELLOW_DURATION (settings_of c) + 3000
             + GREEN_DURATION (settings_of c) + YELLOW_DURATION (settings_of c) + 3000"
    using assms(4-9) by simp
  from single total run ph(6) tm(6) li show ?thesis by simp
qed

text \<open>
  The default settings (green 100 s, yellow 5 s), with frame times that meet the
  boundaries; and one frame of 16 ms, after which the controller is still in phase 0,
  with 16 ms on the timer.
\<close>

lemma c0_facts:
  "currentPhase (fixedState_of (initializeFixedMode TrafficLightController_new)) = 0"
  "phaseTimer (fixedState_of (initializeFixedMode TrafficLightController_new)) = 0"
  "GREEN_DURATION (settings_of (initializeFixedMode TrafficLightController_new)) = 100000"
  "YELLOW_DURATION (settings_of (initializeFixedMode TrafficLightController_new)) = 5000"
  by (simp_all add: initializeFixedMode_def TrafficLightController_new_def DEFAULT_SETTINGS_def
      setFixedLightState_frame)

theorem fixed_cycle_closure_witness:
  "currentPhase (fixedState_of (initializeFixedMode TrafficLightController_new)) = 0
   \<and> phaseTimer (fixedState_of (initializeFixedMode TrafficLightController_new)) = 0
   \<and> list_all (\<lambda>b. b \<noteq> [] \<and> list_all (\<lambda>d. d \<in> \<nat> \<and> 0 < d) b)
        [[50000, 50000], [2500, 2500], [1000, 2000], [100000], [5000], [3000::real]]
   \<and> GREEN_DURATION (settings_of (initializeFixedMode TrafficLightController_new)) \<le> 2 ^ 53
   \<and> YELLOW_DURATION (settings_of (initializeFixedMode TrafficLightController_new)) \<le> 2 ^ 53
   \<and> sum_list ([50000, 50000] @ [2500, 2500] @ [1000, 2000] @ [100000] @ [5000] @ [3000::real]) = 216000
   \<and> currentPhase (fixedState_of (updateFixedMode_run
        ([50000, 50000] @ [2500, 2500] @ [1000, 2000] @ [100000] @ [5000] @ [3000])
        (initializeFixedMode TrafficLightController_new))) = 0
   \<and> lights (updateFixedMode_run
        ([50000, 50000] @ [2500, 2500] @ [1000, 2000] @ [100000] @ [5000] @ [3000])
        (initializeFixedMode TrafficLightController_new))
      = (\<lambda>d. Red)(North := Green, South := Green)
   \<and> currentPhase (fixedState_of (updateFixedMode 16
        (initializeFixedMode TrafficLightController_new))) = 0
   \<and> phaseTimer (fixedState_of (updateFixedMode 16
        (initializeFixedMode TrafficLightController_new))) = 16"
proof -
  let ?c = "initializeFixedMode TrafficLightController_new"
  have bl: "list_all (\<lambda>b. b \<noteq> [] \<and> list_all (\<lambda>d. d \<in> \<nat> \<and> 0 < d) b)
              [[50000, 50000], [2500, 2500], [1000, 2000], [100000], [5000], [3000::real]]"
    by simp
  have s: "sum_list [50000, 50000] = GREEN_DURATION (settings_of ?c)"
    "sum_list [2500, 2500] = YELLOW_DURATION (settings_of ?c)"
    "sum_list [1000, 2000] = (3000::real)"
    "sum_list [100000] = GREEN_DURATION (settings_of ?c)"
    "sum_list [5000] = YELLOW_DURATION (settings_of ?c)"
    "sum_list [3000] = (3000::real)"
    by (simp_all add: c0_facts)
  have b: "GREEN_DURATION (settings_of ?c) \<le> 2 ^ 53" "YELLOW_DURATION (settings_of ?c) \<le> 2 ^ 53"
    by (simp_all add: c0_facts)
  have lt: "currentPhase (fixedState_of ?c) < 6" by (simp add: c0_facts)
  have f16: "fadd (phaseTimer (fixedState_of ?c)) 16 = 16"
    using fadd_Nats [of 0 16] by (simp add: c0_facts)
  from fixed_cycle_closure [OF c0_facts(1) c0_facts(2) bl s b] lt
  have "currentPhase (fixedState_of (updateFixedMode_run
          ([50000, 50000] @ [2500, 2500] @ [1000, 2000] @ [100000] @ [5000] @ [3000]) ?c)) = 0
      \<and> lights (updateFixedMode_run
          ([50000, 50000] @ [2500, 2500] @ [1000, 2000] @ [100000] @ [5000] @ [3000]) ?c)
        = (\<lambda>d. Red)(North := Green, South := Green)
      \<and> (if fadd (phaseTimer (fixedState_of ?c)) 16
                 \<ge> phaseDuration (settings_of ?c) (currentPhase (fixedState_of ?c))
            then currentPhase (fixedState_of (updateFixedMode 16 ?c))
                   = (currentPhase (fixedState_of ?c) + 1) mod 6
                 \<and> phaseTimer (fixedState_of (updateFixedMode 16 ?c)) = 0
            else currentPhase (fixedState_of (updateFixedMode 16 ?c))
                   = currentPhase (fixedState_of ?c)
                 \<and> phaseTimer (fixedState_of (updateFixedMode 16 ?c))
                   = fadd (phaseTimer (fixedState_of ?c)) 16)"
    by blast
  then have "currentPhase (fixedState_of (updateFixedMode_run
          ([50000, 50000] @ [2500, 2500] @ [1000, 2000] @ [100000] @ [5000] @ [3000]) ?c)) = 0
      \<and> lights (updateFixedMode_run
          ([50000, 50000] @ [2500, 2500] @ [1000, 2000] @ [100000] @ [5000] @ [3000]) ?c)
        = (\<lambda>d. Red)(North := Green, South := Green)
      \<and> currentPhase (fixedState_of (updateFixedMode 16 ?c)) = 0
      \<and> phaseTimer (fixedState_of (updateFixedMode 16 ?c)) = 16"
    unfolding f16 by (simp add: c0_facts phaseDuration_def)
  with bl b show ?thesis by (simp add: c0_facts)
qed

lemma run_replicate_stay:
  assumes "currentPhase (fixedState_of c) < 6"
      and "phaseTimer (fixedState_of c) \<in> \<nat>"
      and "d \<in> \<nat>"
      and "phaseTimer (fixedState_of c) + real n * d
           < phaseDuration (settings_of c) (currentPhase (fixedState_of c))"
      and "phaseDuration (settings_of c) (currentPhase (fixedState_of c)) \<le> 2 ^ 53"
  shows "updateFixedMode_run (replicate n d) c
         = c\<lparr> fixedState_of := (fixedState_of c)
               \<lparr> phaseTimer := phaseTimer (fixedState_of c) + real n * d \<rparr> \<rparr>"
  using assms
proof (induction n arbitrary: c)
  case 0
  then show ?case by simp
next
  case (Suc n)
  let ?t = "phaseTimer (fixedState_of c)"
  let ?D = "phaseDuration (settings_of c) (currentPhase (fixedState_of c))"
  from Suc.prems(3) have d0: "0 \<le> d" by (auto elim: Nats_cases)
  have "?t + d \<le> ?t + real (Suc n) * d"
    using d0 by (simp add: mult_nonneg_nonneg algebra_simps)
  then have lt: "?t + d < ?D" using Suc.prems(4) by linarith
  with Suc.prems(5) have "?t + d \<le> 2 ^ 53" by linarith
  with Suc.prems(2,3) have exact: "fadd ?t d = ?t + d" by (intro fadd_Nats)
  let ?c1 = "c\<lparr> fixedState_of := (fixedState_of c)\<lparr> phaseTimer := ?t + d \<rparr> \<rparr>"
  have step: "updateFixedMode d c = ?c1"
    using Suc.prems(1) lt by (simp add: updateFixedMode_step exact)
  have "updateFixedMode_run (replicate n d) ?c1
        = ?c1\<lparr> fixedState_of := (fixedState_of ?c1)
               \<lparr> phaseTimer := phaseTimer (fixedState_of ?c1) + real n * d \<rparr> \<rparr>"
  proof (rule Suc.IH)
    show "currentPhase (fixedState_of ?c1) < 6" using Suc.prems(1) by simp
    show "phaseTimer (fixedState_of ?c1) \<in> \<nat>" using Suc.prems(2,3) by simp
    show "d \<in> \<nat>" by (rule Suc.prems(3))
    show "phaseTimer (fixedState_of ?c1) + real n * d
          < phaseDuration (settings_of ?c1) (currentPhase (fixedState_of ?c1))"
      using Suc.prems(4) by (simp add: algebra_simps)
    show "phaseDuration (settings_of ?c1) (currentPhase (fixedState_of ?c1)) \<le> 2 ^ 53"
      using Suc.prems(5) by simp
  qed
  then show ?case by (simp add: step algebra_simps)
qed

lemma run_replicate_advance:
  assumes "currentPhase (fixedState_of c) < 6"
      and "phaseTimer (fixedState_of c) = 0"
      and "d \<in> \<nat>"
      and "real n * d < phaseDuration (settings_of c) (currentPhase (fixedState_of c))"
      and "phaseDuration (settings_of c) (currentPhase (fixedState_of c)) \<le> real (Suc n) * d"
      and "real (Suc n) * d \<le> 2 ^ 53"
  shows "updateFixedMode_run (replicate (Suc n) d) c = advanceFixedPhase c"
proof -
  let ?D = "phaseDuration (settings_of c) (currentPhase (fixedState_of c))"
  let ?c1 = "c\<lparr> fixedState_of := (fixedState_of c)\<lparr> phaseTimer := real n * d \<rparr> \<rparr>"
  have le: "?D \<le> 2 ^ 53" using assms(5,6) by linarith
  have "updateFixedMode_run (replicate n d) c
        = c\<lparr> fixedState_of := (fixedState_of c)
              \<lparr> phaseTimer := phaseTimer (fixedState_of c) + real n * d \<rparr> \<rparr>"
    using assms(1-4) le by (intro run_replicate_stay) simp_all
  then have stay: "updateFixedMode_run (replicate n d) c = ?c1" using assms(2) by simp
  have nd: "real n * d \<in> \<nat>" using assms(3) by (simp add: Nats_mult)
  have sum: "real n * d + d = real (Suc n) * d" by (simp add: algebra_simps)
  with assms(6) have "real n * d + d \<le> 2 ^ 53" by simp
  with nd assms(3) have exact: "fadd (real n * d) d = real n * d + d" by (intro fadd_Nats)
  from assms(5) sum have "?D \<le> fadd (real n * d) d" unfolding exact by simp
  with assms(1) have "updateFixedMode d ?c1 = advanceFixedPhase ?c1"
    by (simp add: updateFixedMode_step)
  then have "updateFixedMode_run [d] ?c1 = advanceFixedPhase c"
    by (simp add: advanceFixedPhase_timer)
  moreover have "replicate (Suc n) d = replicate n d @ [d]"
    by (simp add: replicate_append_same)
  ultimately show ?thesis by (simp add: updateFixedMode_run_append stay)
qed

text \<open>
  The bound on the durations is needed. With a green duration of \<open>2 ^ 53 + 2\<close> ms and the
  frame times \<open>2 ^ 53\<close>, 1 and 1, which add up to it, the timer stays at \<open>2 ^ 53\<close>, since
  \<open>2 ^ 53 + 1\<close> is rounded to \<open>2 ^ 53\<close>, and the controller is still in phase 0.
\<close>

lemma rounding_keeps_phase:
  "sum_list [2 ^ 53, 1, 1] = (2 ^ 53 + 2 :: real)
   \<and> currentPhase (fixedState_of (updateFixedMode_run [2 ^ 53, 1, 1]
        ((initializeFixedMode TrafficLightController_new)
           \<lparr> settings_of := DEFAULT_SETTINGS\<lparr> GREEN_DURATION := 2 ^ 53 + 2 \<rparr> \<rparr>))) = 0
   \<and> phaseTimer (fixedState_of (updateFixedMode_run [2 ^ 53, 1, 1]
        ((initializeFixedMode TrafficLightController_new)
           \<lparr> settings_of := DEFAULT_SETTINGS\<lparr> GREEN_DURATION := 2 ^ 53 + 2 \<rparr> \<rparr>))) = 2 ^ 53"
proof -
  have f1: "fadd 0 9007199254740992 = 9007199254740992"
    using fadd_Nats [of 0 9007199254740992] by simp
  have f2: "fadd 9007199254740992 1 = 9007199254740992"
    using fadd_rounds by simp
  show ?thesis
    by (simp add: updateFixedMode_step c0_facts phaseDuration_def f1 f2)
qed

text \<open>
  The claim as stated fails for frames of 16 ms: green lasts 6250 frames, but yellow
  lasts 313 frames (5008 ms) and the clearance 188 frames (3008 ms), since a transition
  waits for the first frame at or past the duration and then drops the excess. After
  13500 frames, which is 216000 ms, the controller started in phase 0 is in phase 5 (all
  red), not in phase 0. Every sum of the run is a whole number below \<open>2 ^ 53\<close>, so that no
  rounding takes part.
\<close>

theorem fixed_cycle_counterexample:
  "sum_list (replicate 13500 16) = (100000 + 5000 + 3000 + 100000 + 5000 + 3000 :: real)
   \<and> currentPhase (fixedState_of (updateFixedMode_run (replicate 13500 16)
        (initializeFixedMode TrafficLightController_new))) = 5
   \<and> lights (updateFixedMode_run (replicate 13500 16)
        (initializeFixedMode TrafficLightController_new)) North = Red"
proof -
  let ?c = "initializeFixedMode TrafficLightController_new"
  define c1 where "c1 = advanceFixedPhase ?c"
  define c2 where "c2 = advanceFixedPhase c1"
  define c3 where "c3 = advanceFixedPhase c2"
  define c4 where "c4 = advanceFixedPhase c3"
  define c5 where "c5 = advanceFixedPhase c4"
  note defs = c1_def c2_def c3_def c4_def c5_def
  have ph: "currentPhase (fixedState_of c1) = 1" "currentPhase (fixedState_of c2) = 2"
    "currentPhase (fixedState_of c3) = 3" "currentPhase (fixedState_of c4) = 4"
    "currentPhase (fixedState_of c5) = 5"
    by (simp_all add: defs advanceFixedPhase_frame c0_facts)
  have tm: "phaseTimer (fixedState_of c1) = 0" "phaseTimer (fixedState_of c2) = 0"
    "phaseTimer (fixedState_of c3) = 0" "phaseTimer (fixedState_of c4) = 0"
    "phaseTimer (fixedState_of c5) = 0"
    by (simp_all add: defs advanceFixedPhase_frame)
  have st: "settings_of c1 = settings_of ?c" "settings_of c2 = settings_of ?c"
    "settings_of c3 = settings_of ?c" "settings_of c4 = settings_of ?c"
    "settings_of c5 = settings_of ?c"
    by (simp_all add: defs advanceFixedPhase_frame)
  have r0: "updateFixedMode_run (replicate (Suc 6249) 16) ?c = c1"
    unfolding c1_def by (intro run_replicate_advance) (simp_all add: c0_facts phaseDuration_def)
  have r1: "updateFixedMode_run (replicate (Suc 312) 16) c1 = c2"
    unfolding c2_def by (intro run_replicate_advance) (simp_all add: ph tm st c0_facts phaseDuration_def)
  have r2: "updateFixedMode_run (replicate (Suc 187) 16) c2 = c3"
    unfolding c3_def by (intro run_replicate_advance) (simp_all add: ph tm st c0_facts phaseDuration_def)
  have r3: "updateFixedMode_run (replicate (Suc 6249) 16) c3 = c4"
    unfolding c4_def by (intro run_replicate_advance) (simp_all add: ph tm st c0_facts phaseDuration_def)
  have r4: "updateFixedMode_run (replicate (Suc 312) 16) c4 = c5"
    unfolding c5_def by (intro run_replicate_advance) (simp_all add: ph tm st c0_facts phaseDuration_def)
  have r5: "updateFixedMode_run (replicate 186 16) c5
            = c5\<lparr> fixedState_of := (fixedState_of c5)
                  \<lparr> phaseTimer := phaseTimer (fixedState_of c5) + real 186 * 16 \<rparr> \<rparr>"
    by (intro run_replicate_stay) (simp_all add: ph tm st c0_facts phaseDuration_def)
  have "(13500::nat) = Suc 6249 + (Suc 312 + (Suc 187 + (Suc 6249 + (Suc 312 + 186))))"
    by simp
  then have split: "replicate 13500 (16::real)
        = replicate (Suc 6249) 16 @ replicate (Suc 312) 16 @ replicate (Suc 187) 16
          @ replicate (Suc 6249) 16 @ replicate (Suc 312) 16 @ replicate 186 16"
    by (simp only: replicate_add)
  have run: "updateFixedMode_run (replicate 13500 16) ?c
            = c5\<lparr> fixedState_of := (fixedState_of c5)
                  \<lparr> phaseTimer := phaseTimer (fixedState_of c5) + real 186 * 16 \<rparr> \<rparr>"
    unfolding split updateFixedMode_run_append r0 r1 r2 r3 r4 r5 ..
  have li: "lights c5 North = Red"
    unfolding c5_def using ph(4)
    by (simp add: advanceFixedPhase_def Let_def setFixedLightState_def setAllLightsRed_eq)
  have "sum_list (replicate 13500 16) = (216000::real)"
    by (simp add: sum_list_replicate)
  then show ?thesis by (simp add: run ph li)
qed

subsection \<open>The adaptive machine\<close>

text \<open>
  Claim C5. With an active pair in the green phase, a call of \<open>updateAdaptiveMode\<close>
  moves to yellow if and only if the other pair's score is above 1.5 times the active
  pair's score and above 10; then the active pair's lights are yellow and the others red.
  Otherwise the phase stays green and no light changes. The active pair stays the same.
\<close>

theorem adaptive_green_switch:
  assumes "currentPair (adaptiveState_of c) = Some p"
      and "currentPhase_a (adaptiveState_of c) = Green"
  shows "currentPhase_a (adaptiveState_of (updateAdaptiveMode deltaTime now c))
           = (if priorityScores (adaptiveState_of c) (case p of WE \<Rightarrow> NS | NS \<Rightarrow> WE)
                   > priorityScores (adaptiveState_of c) p * (15/10)
                 \<and> priorityScores (adaptiveState_of c) (case p of WE \<Rightarrow> NS | NS \<Rightarrow> WE) > 10
              then Yellow else Green)
       \<and> currentPair (adaptiveState_of (updateAdaptiveMode deltaTime now c)) = Some p
       \<and> (if priorityScores (adaptiveState_of c) (case p of WE \<Rightarrow> NS | NS \<Rightarrow> WE)
                   > priorityScores (adaptiveState_of c) p * (15/10)
                 \<and> priorityScores (adaptiveState_of c) (case p of WE \<Rightarrow> NS | NS \<Rightarrow> WE) > 10
           then lights (updateAdaptiveMode deltaTime now c)
                  = (case p of WE \<Rightarrow> (\<lambda>d. Red)(West := Yellow, East := Yellow)
                             | NS \<Rightarrow> (\<lambda>d. Red)(North := Yellow, South := Yellow))
           else lights (updateAdaptiveMode deltaTime now c) = lights c)"
  using assms
  by (cases p)
     (simp_all add: updateAdaptiveMode_def Let_def shouldSwitchInAdaptive_def
        startAdaptiveYellow_def setAdaptiveLightState_def setAllLightsRed_eq)

text \<open>
  North-south green with scores WE 20 against NS 5: the call moves to yellow. With 12
  against 9 (above 10, not above 13.5) and with 9 against 2 (above 3, not above 10) the
  phase stays green.
\<close>

lemmas controller_defs =
  switchToAdaptivePair_def initializeAdaptiveMode_def TrafficLightController_new_def
  startAdaptiveGreen_def setAdaptiveLightState_def setAllLightsRed_eq

theorem adaptive_green_switch_witness:
  "currentPair (adaptiveState_of (green_NS 20 5)) = Some NS
   \<and> currentPhase_a (adaptiveState_of (green_NS 20 5)) = Green
   \<and> currentPhase_a (adaptiveState_of (updateAdaptiveMode 16 0 (green_NS 20 5))) = Yellow
   \<and> lights (updateAdaptiveMode 16 0 (green_NS 20 5)) North = Yellow
   \<and> currentPhase_a (adaptiveState_of (updateAdaptiveMode 16 0 (green_NS 12 9))) = Green
   \<and> lights (updateAdaptiveMode 16 0 (green_NS 12 9)) North = Green
   \<and> currentPhase_a (adaptiveState_of (updateAdaptiveMode 16 0 (green_NS 9 2))) = Green"
proof -
  have a: "currentPair (adaptiveState_of (green_NS we ns)) = Some NS"
    and b: "currentPhase_a (adaptiveState_of (green_NS we ns)) = Green"
    and s: "priorityScores (adaptiveState_of (green_NS we ns)) WE = we"
           "priorityScores (adaptiveState_of (green_NS we ns)) NS = ns"
    and l: "lights (green_NS we ns) North = Green" for we ns
    by (simp_all add: green_NS_def Let_def controller_defs)
  from adaptive_green_switch [OF a [of 20 5] b [of 20 5], of 16 0]
       adaptive_green_switch [OF a [of 12 9] b [of 12 9], of 16 0]
       adaptive_green_switch [OF a [of 9 2] b [of 9 2], of 16 0]
  show ?thesis by (simp add: a b s l)
qed

lemma tie_no_pair:
  "priorityScores (adaptiveState_of c) WE = priorityScores (adaptiveState_of c) NS
   \<Longrightarrow> getHighestPriorityPair c = None"
  by (simp add: getHighestPriorityPair_def)

lemma red_tie_step:
  assumes "currentPair (adaptiveState_of c) = Some p"
      and "currentPhase_a (adaptiveState_of c) = Red"
      and "priorityScores (adaptiveState_of c) WE = priorityScores (adaptiveState_of c) NS"
  shows "updateAdaptiveMode deltaTime now c
         = c\<lparr> adaptiveState_of := (adaptiveState_of c)
               \<lparr> phaseTimer_a := phaseTimer_a (adaptiveState_of c) + deltaTime \<rparr> \<rparr>"
  using assms by (simp add: updateAdaptiveMode_def Let_def getHighestPriorityPair_def)

lemma updateAdaptiveLogic_frame:
  "currentPair (adaptiveState_of (updateAdaptiveLogic sd dt c)) = currentPair (adaptiveState_of c)"
  "currentPhase_a (adaptiveState_of (updateAdaptiveLogic sd dt c)) = currentPhase_a (adaptiveState_of c)"
  "phaseTimer_a (adaptiveState_of (updateAdaptiveLogic sd dt c)) = phaseTimer_a (adaptiveState_of c)"
  "lights (updateAdaptiveLogic sd dt c) = lights c"
  by (simp_all add: updateAdaptiveLogic_def Let_def)

lemma updateAdaptiveLogic_tie:
  assumes "calculatePairScore WE sd = calculatePairScore NS sd"
      and "priorityScores (adaptiveState_of c) WE = priorityScores (adaptiveState_of c) NS"
  shows "priorityScores (adaptiveState_of (updateAdaptiveLogic sd dt c)) WE
         = priorityScores (adaptiveState_of (updateAdaptiveLogic sd dt c)) NS"
  using assms by (simp add: updateAdaptiveLogic_def Let_def)

text \<open>
  Claim C10. With an active pair in the red phase, all lights red and equal scores for
  WE and NS, \<open>getHighestPriorityPair\<close> returns \<open>null\<close>, and through any run of frames
  whose sensor data keep the two scores equal, however long, the phase stays red, the
  pair stays, every light stays red, and the phase timer only grows: no transition out of
  red fires, also after the 2000 ms of clearance.
\<close>

theorem adaptive_red_tie_stays_red:
  assumes "currentPair (adaptiveState_of c) = Some p"
      and "currentPhase_a (adaptiveState_of c) = Red"
      and "lights c = (\<lambda>d. Red)"
      and "priorityScores (adaptiveState_of c) WE = priorityScores (adaptiveState_of c) NS"
      and "list_all (\<lambda>(deltaTime, now, sd). calculatePairScore WE sd = calculatePairScore NS sd) frames"
  shows "getHighestPriorityPair c = None
       \<and> currentPhase_a (adaptiveState_of (adaptive_run frames c)) = Red
       \<and> currentPair (adaptiveState_of (adaptive_run frames c)) = Some p
       \<and> lights (adaptive_run frames c) = (\<lambda>d. Red)
       \<and> phaseTimer_a (adaptiveState_of (adaptive_run frames c))
           = phaseTimer_a (adaptiveState_of c) + sum_list (map fst frames)"
  using assms
proof (induction frames arbitrary: c)
  case Nil
  then show ?case by (simp add: tie_no_pair)
next
  case (Cons f frames)
  obtain deltaTime now sd where f: "f = (deltaTime, now, sd)" by (cases f)
  let ?c' = "updateAdaptiveLogic sd deltaTime (updateAdaptiveMode deltaTime now c)"
  have step: "updateAdaptiveMode deltaTime now c
         = c\<lparr> adaptiveState_of := (adaptiveState_of c)
               \<lparr> phaseTimer_a := phaseTimer_a (adaptiveState_of c) + deltaTime \<rparr> \<rparr>"
    using Cons.prems(1,2,4) by (rule red_tie_step)
  have 1: "currentPair (adaptiveState_of ?c') = Some p"
    and 2: "currentPhase_a (adaptiveState_of ?c') = Red"
    and 3: "lights ?c' = (\<lambda>d. Red)"
    and t: "phaseTimer_a (adaptiveState_of ?c') = phaseTimer_a (adaptiveState_of c) + deltaTime"
    using Cons.prems(1,2,3) by (simp_all add: updateAdaptiveLogic_frame step)
  have 4: "priorityScores (adaptiveState_of ?c') WE = priorityScores (adaptiveState_of ?c') NS"
    using Cons.prems(4,5) f by (intro updateAdaptiveLogic_tie) (simp_all add: step)
  have 5: "list_all (\<lambda>(deltaTime, now, sd). calculatePairScore WE sd = calculatePairScore NS sd) frames"
    using Cons.prems(5) by simp
  from Cons.IH [OF 1 2 3 4 5] Cons.prems(4) show ?case
    by (simp add: f t tie_no_pair)
qed

text \<open>
  After north-south green and red with both scores 0, two frames of 1000 ms and 1500 ms
  with no car detected: the timer is at 2500 ms, past the clearance, and the phase is
  still red.
\<close>

theorem adaptive_red_tie_stays_red_witness:
  "currentPair (adaptiveState_of (startAdaptiveRed 0 (green_NS 0 0))) = Some NS
   \<and> currentPhase_a (adaptiveState_of (startAdaptiveRed 0 (green_NS 0 0))) = Red
   \<and> getHighestPriorityPair (startAdaptiveRed 0 (green_NS 0 0)) = None
   \<and> currentPhase_a (adaptiveState_of (adaptive_run
         [(1000, 1000, sensorData (SensorSystem_new \<lparr>centerX = 600, centerY = 600\<rparr>)),
          (1500, 2500, sensorData (SensorSystem_new \<lparr>centerX = 600, centerY = 600\<rparr>))]
         (startAdaptiveRed 0 (green_NS 0 0)))) = Red
   \<and> lights (adaptive_run
         [(1000, 1000, sensorData (SensorSystem_new \<lparr>centerX = 600, centerY = 600\<rparr>)),
          (1500, 2500, sensorData (SensorSystem_new \<lparr>centerX = 600, centerY = 600\<rparr>))]
         (startAdaptiveRed 0 (green_NS 0 0))) = (\<lambda>d. Red)
   \<and> phaseTimer_a (adaptiveState_of (adaptive_run
         [(1000, 1000, sensorData (SensorSystem_new \<lparr>centerX = 600, centerY = 600\<rparr>)),
          (1500, 2500, sensorData (SensorSystem_new \<lparr>centerX = 600, centerY = 600\<rparr>))]
         (startAdaptiveRed 0 (green_NS 0 0)))) = 2500"
proof -
  let ?c = "startAdaptiveRed 0 (green_NS 0 0)"
  let ?sd = "sensorData (SensorSystem_new \<lparr>centerX = 600, centerY = 600\<rparr>)"
  have 1: "currentPair (adaptiveState_of ?c) = Some NS"
    and 2: "currentPhase_a (adaptiveState_of ?c) = Red"
    and 3: "lights ?c = (\<lambda>d. Red)"
    and 4: "priorityScores (adaptiveState_of ?c) WE = priorityScores (adaptiveState_of ?c) NS"
    and t: "phaseTimer_a (adaptiveState_of ?c) = 0"
    by (simp_all add: startAdaptiveRed_def green_NS_def Let_def controller_defs)
  have 5: "list_all (\<lambda>(deltaTime, now, sd). calculatePairScore WE sd = calculatePairScore NS sd)
             [(1000, 1000, ?sd), (1500, 2500, ?sd)]"
    by (simp add: calculatePairScore_def SensorSystem_new_def initializeSensors_def)
  from adaptive_red_tie_stays_red [OF 1 2 3 4 5] 1 2 t show ?thesis by simp
qed


subsection \<open>Detection and signal changes\<close>

lemma update_clear_facts:
  "totalCarsDetected (update_clear s) = totalCarsDetected s"
  "waitingCars (update_clear s) d = None"
  "carsWaiting (sensorData (update_clear s) d) = 0"
  "waitTime (sensorData (update_clear s) d) = 0"
  "sd_totalCarsDetected (sensorData (update_clear s) d) = sd_totalCarsDetected (sensorData s d)"
  "intersection_of (update_clear s) = intersection_of s"
  "detectorDistance (update_clear s) = detectorDistance s"
  by (cases d; simp add: update_clear_def DIRECTIONS_def)+

lemma update_lightChange_facts:
  "totalCarsDetected (update_lightChange (Some ls) (Some pls) s) d
     = (if ls d \<noteq> pls d then 0 else totalCarsDetected s d)"
  "waitingCars (update_lightChange (Some ls) (Some pls) s) = waitingCars s"
  "carsWaiting (sensorData (update_lightChange (Some ls) (Some pls) s) d)
     = (if ls d \<noteq> pls d then 0 else carsWaiting (sensorData s d))"
  "waitTime (sensorData (update_lightChange (Some ls) (Some pls) s) d)
     = (if ls d \<noteq> pls d then 0 else waitTime (sensorData s d))"
  "sd_totalCarsDetected (sensorData (update_lightChange (Some ls) (Some pls) s) d)
     = sd_totalCarsDetected (sensorData s d)"
  "intersection_of (update_lightChange (Some ls) (Some pls) s) = intersection_of s"
  "detectorDistance (update_lightChange (Some ls) (Some pls) s) = detectorDistance s"
  by (cases d; simp add: update_lightChange_def DIRECTIONS_def resetCarCount_def Let_def)+

lemma update_manualReset_facts:
  "totalCarsDetected (update_manualReset s) d
     = (if shouldResetCounts s then 0 else totalCarsDetected s d)"
  "waitingCars (update_manualReset s) = waitingCars s"
  "sensorData (update_manualReset s) = sensorData s"
  "intersection_of (update_manualReset s) = intersection_of s"
  "detectorDistance (update_manualReset s) = detectorDistance s"
  by (cases d; simp add: update_manualReset_def resetAllCarCounts_def DIRECTIONS_def)+

lemma update_waitTimes_facts:
  "totalCarsDetected (update_waitTimes s) = totalCarsDetected s"
  "waitingCars (update_waitTimes s) = waitingCars s"
  "carsWaiting (sensorData (update_waitTimes s) d) = carsWaiting (sensorData s d)"
  "waitTime (sensorData (update_waitTimes s) d)
     = (case waitingCars s d of None \<Rightarrow> waitTime (sensorData s d) | Some w \<Rightarrow> totalWaitTime w)"
  "sd_totalCarsDetected (sensorData (update_waitTimes s) d) = sd_totalCarsDetected (sensorData s d)"
  by (cases d; simp add: update_waitTimes_def DIRECTIONS_def split: option.split)+

lemma getDetectionZone_cong:
  assumes "intersection_of s' = intersection_of s" "detectorDistance s' = detectorDistance s"
  shows "getDetectionZone s' d = getDetectionZone s d"
  unfolding getDetectionZone_def assms ..

lemma inZone_cong:
  assumes "intersection_of s' = intersection_of s" "detectorDistance s' = detectorDistance s"
  shows "inZone s' c = inZone s c"
  unfolding inZone_def getDetectionZone_cong [OF assms] ..

lemma update_car_count_facts:
  "intersection_of (fst (update_car_count e inZ (s, c))) = intersection_of s"
  "detectorDistance (fst (update_car_count e inZ (s, c))) = detectorDistance s"
  "totalCarsDetected (fst (update_car_count e inZ (s, c))) d
     = totalCarsDetected s d + (if e = d \<and> \<not> countedInDetector c \<and> inZ then 1 else 0)"
  "carsWaiting (sensorData (fst (update_car_count e inZ (s, c))) d) = carsWaiting (sensorData s d)"
  "waitTime (sensorData (fst (update_car_count e inZ (s, c))) d) = waitTime (sensorData s d)"
  "sd_totalCarsDetected (sensorData (fst (update_car_count e inZ (s, c))) d)
     = (if e = d \<and> \<not> countedInDetector c \<and> inZ then totalCarsDetected s d + 1
        else sd_totalCarsDetected (sensorData s d))"
  "waitingCars (fst (update_car_count e inZ (s, c))) = waitingCars s"
  "state_car (snd (update_car_count e inZ (s, c))) = state_car c"
  by (simp_all add: update_car_count_def Let_def)

lemma update_car_leave_facts:
  "fst (update_car_leave inZ sc) = fst sc"
  "state_car (snd (update_car_leave inZ sc)) = state_car (snd sc)"
  by (simp_all add: update_car_leave_def Let_def)

lemma update_car_detect_facts:
  "intersection_of (fst (update_car_detect e inZ sc)) = intersection_of (fst sc)"
  "detectorDistance (fst (update_car_detect e inZ sc)) = detectorDistance (fst sc)"
  "totalCarsDetected (fst (update_car_detect e inZ sc)) = totalCarsDetected (fst sc)"
  "carsWaiting (sensorData (fst (update_car_detect e inZ sc)) d) = carsWaiting (sensorData (fst sc) d)"
  "waitTime (sensorData (fst (update_car_detect e inZ sc)) d) = waitTime (sensorData (fst sc) d)"
  "sd_totalCarsDetected (sensorData (fst (update_car_detect e inZ sc)) d)
     = sd_totalCarsDetected (sensorData (fst sc) d)"
  "waitingCars (fst (update_car_detect e inZ sc)) = waitingCars (fst sc)"
  "snd (update_car_detect e inZ sc) = snd sc"
  by (simp_all add: update_car_detect_def Let_def)

lemma update_car_waiting_facts:
  "intersection_of (fst (update_car_waiting e inZ now sc)) = intersection_of (fst sc)"
  "detectorDistance (fst (update_car_waiting e inZ now sc)) = detectorDistance (fst sc)"
  "totalCarsDetected (fst (update_car_waiting e inZ now sc)) = totalCarsDetected (fst sc)"
  "carsWaiting (sensorData (fst (update_car_waiting e inZ now sc)) d)
     = carsWaiting (sensorData (fst sc) d)
       + (if e = d \<and> state_car (snd sc) = Waiting \<and> inZ then 1 else 0)"
  "waitTime (sensorData (fst (update_car_waiting e inZ now sc)) d) = waitTime (sensorData (fst sc) d)"
  "sd_totalCarsDetected (sensorData (fst (update_car_waiting e inZ now sc)) d)
     = sd_totalCarsDetected (sensorData (fst sc) d)"
  "waitingCars (fst (update_car_waiting e inZ now sc)) d = None
     \<longleftrightarrow> waitingCars (fst sc) d = None \<and> \<not> (e = d \<and> state_car (snd sc) = Waiting \<and> inZ)"
  by (simp_all add: update_car_waiting_def Let_def split: option.split)

lemma update_car_red:
  assumes "isRed lightStates (fromDirection c)"
  shows "update_car lightStates now s c
         = update_car_waiting (fromDirection c) (inZone s c) now
             (update_car_detect (fromDirection c) (inZone s c)
               (update_car_leave (inZone s c)
                 (update_car_count (fromDirection c) (inZone s c) (s, c))))"
  using assms by (simp add: update_car_def Let_def inZone_def)

lemma update_car_not_red:
  assumes "\<not> isRed lightStates (fromDirection c)"
  shows "update_car lightStates now s c = (s, c)"
  using assms by (simp add: update_car_def Let_def)

lemma counts_other:
  "fromDirection c \<noteq> d \<Longrightarrow> \<not> counts_new lightStates s d c"
  "fromDirection c \<noteq> d \<Longrightarrow> \<not> counts_waiting lightStates s d c"
  "\<not> isRed lightStates (fromDirection c) \<Longrightarrow> \<not> counts_new lightStates s (fromDirection c) c"
  "\<not> isRed lightStates (fromDirection c) \<Longrightarrow> \<not> counts_waiting lightStates s (fromDirection c) c"
  by (auto simp: counts_new_def counts_waiting_def)

lemma update_car_facts:
  "intersection_of (fst (update_car lightStates now s c)) = intersection_of s"
  "detectorDistance (fst (update_car lightStates now s c)) = detectorDistance s"
  "totalCarsDetected (fst (update_car lightStates now s c)) d
     = totalCarsDetected s d + (if counts_new lightStates s d c then 1 else 0)"
  "carsWaiting (sensorData (fst (update_car lightStates now s c)) d)
     = carsWaiting (sensorData s d) + (if counts_waiting lightStates s d c then 1 else 0)"
  "waitTime (sensorData (fst (update_car lightStates now s c)) d) = waitTime (sensorData s d)"
  "sd_totalCarsDetected (sensorData (fst (update_car lightStates now s c)) d)
     = (if counts_new lightStates s d c then totalCarsDetected s d + 1
        else sd_totalCarsDetected (sensorData s d))"
  "waitingCars (fst (update_car lightStates now s c)) d = None
     \<longleftrightarrow> waitingCars s d = None \<and> \<not> counts_waiting lightStates s d c"
proof -
  have *: "intersection_of (fst (update_car lightStates now s c)) = intersection_of s
    \<and> detectorDistance (fst (update_car lightStates now s c)) = detectorDistance s
    \<and> totalCarsDetected (fst (update_car lightStates now s c)) d
     = totalCarsDetected s d + (if counts_new lightStates s d c then 1 else 0)
    \<and> carsWaiting (sensorData (fst (update_car lightStates now s c)) d)
     = carsWaiting (sensorData s d) + (if counts_waiting lightStates s d c then 1 else 0)
    \<and> waitTime (sensorData (fst (update_car lightStates now s c)) d) = waitTime (sensorData s d)
    \<and> sd_totalCarsDetected (sensorData (fst (update_car lightStates now s c)) d)
     = (if counts_new lightStates s d c then totalCarsDetected s d + 1
        else sd_totalCarsDetected (sensorData s d))
    \<and> (waitingCars (fst (update_car lightStates now s c)) d = None
     \<longleftrightarrow> waitingCars s d = None \<and> \<not> counts_waiting lightStates s d c)"
  proof (cases "isRed lightStates (fromDirection c)")
    case False
    then show ?thesis
      by (cases "fromDirection c = d") (auto simp: update_car_not_red counts_other)
  next
    case True
    show ?thesis
    proof (cases "fromDirection c = d")
      case False
      then show ?thesis
        by (simp add: update_car_red [OF True] counts_other
            update_car_waiting_facts update_car_detect_facts update_car_leave_facts
            update_car_count_facts)
    next
      case eq: True
      with True have r: "isRed lightStates d" by simp
      show ?thesis
        using eq r
        by (simp add: update_car_red [OF True] counts_new_def counts_waiting_def
            update_car_waiting_facts update_car_detect_facts update_car_leave_facts
            update_car_count_facts)
    qed
  qed
  from * show "intersection_of (fst (update_car lightStates now s c)) = intersection_of s" by simp
  from * show "detectorDistance (fst (update_car lightStates now s c)) = detectorDistance s" by simp
  from * show "totalCarsDetected (fst (update_car lightStates now s c)) d
     = totalCarsDetected s d + (if counts_new lightStates s d c then 1 else 0)" by simp
  from * show "carsWaiting (sensorData (fst (update_car lightStates now s c)) d)
     = carsWaiting (sensorData s d) + (if counts_waiting lightStates s d c then 1 else 0)" by simp
  from * show "waitTime (sensorData (fst (update_car lightStates now s c)) d) = waitTime (sensorData s d)"
    by simp
  from * show "sd_totalCarsDetected (sensorData (fst (update_car lightStates now s c)) d)
     = (if counts_new lightStates s d c then totalCarsDetected s d + 1
        else sd_totalCarsDetected (sensorData s d))" by simp
  from * show "waitingCars (fst (update_car lightStates now s c)) d = None
     \<longleftrightarrow> waitingCars s d = None \<and> \<not> counts_waiting lightStates s d c" by simp
qed


lemma counts_cong:
  assumes "intersection_of s' = intersection_of s" "detectorDistance s' = detectorDistance s"
  shows "counts_new lightStates s' d = counts_new lightStates s d"
    and "counts_waiting lightStates s' d = counts_waiting lightStates s d"
  unfolding counts_new_def counts_waiting_def inZone_cong [OF assms] by simp_all

lemma fst_update_cars_Cons:
  "fst (update_cars lightStates clock k s (c # cs))
   = fst (update_cars lightStates clock (Suc k) (fst (update_car lightStates (clock k) s c)) cs)"
  by (simp add: split_def Let_def)

lemma update_cars_facts:
  "intersection_of (fst (update_cars lightStates clock k s cars)) = intersection_of s
   \<and> detectorDistance (fst (update_cars lightStates clock k s cars)) = detectorDistance s
   \<and> totalCarsDetected (fst (update_cars lightStates clock k s cars)) d
       = totalCarsDetected s d + length (filter (counts_new lightStates s d) cars)
   \<and> carsWaiting (sensorData (fst (update_cars lightStates clock k s cars)) d)
       = carsWaiting (sensorData s d) + length (filter (counts_waiting lightStates s d) cars)
   \<and> waitTime (sensorData (fst (update_cars lightStates clock k s cars)) d)
       = waitTime (sensorData s d)
   \<and> sd_totalCarsDetected (sensorData (fst (update_cars lightStates clock k s cars)) d)
       = (if filter (counts_new lightStates s d) cars = []
          then sd_totalCarsDetected (sensorData s d)
          else totalCarsDetected s d + length (filter (counts_new lightStates s d) cars))
   \<and> (waitingCars (fst (update_cars lightStates clock k s cars)) d = None
       \<longleftrightarrow> waitingCars s d = None \<and> filter (counts_waiting lightStates s d) cars = [])"
proof (induction cars arbitrary: s k)
  case Nil
  show ?case by simp
next
  case (Cons c cs)
  let ?s1 = "fst (update_car lightStates (clock k) s c)"
  have i: "intersection_of ?s1 = intersection_of s" and dd: "detectorDistance ?s1 = detectorDistance s"
    by (simp_all add: update_car_facts)
  note cc = counts_cong [OF i dd]
  note IH = Cons.IH [of "Suc k" ?s1, unfolded cc]
  show ?case
    unfolding fst_update_cars_Cons
    using IH by (simp add: update_car_facts)
qed

lemma update_sensors_facts:
  "totalCarsDetected (fst (update_sensors cars (Some ls) (Some pls) clock s)) d
     = (if ls d \<noteq> pls d \<or> shouldResetCounts s then 0 else totalCarsDetected s d)
       + length (filter (counts_new (Some ls) s d) cars)"
  "carsWaiting (sensorData (fst (update_sensors cars (Some ls) (Some pls) clock s)) d)
     = length (filter (counts_waiting (Some ls) s d) cars)"
  "filter (counts_waiting (Some ls) s d) cars = []
     \<Longrightarrow> waitTime (sensorData (fst (update_sensors cars (Some ls) (Some pls) clock s)) d) = 0"
  "sd_totalCarsDetected (sensorData (fst (update_sensors cars (Some ls) (Some pls) clock s)) d)
     = (if filter (counts_new (Some ls) s d) cars = []
        then sd_totalCarsDetected (sensorData s d)
        else (if ls d \<noteq> pls d \<or> shouldResetCounts s then 0 else totalCarsDetected s d)
             + length (filter (counts_new (Some ls) s d) cars))"
proof -
  let ?s3 = "update_manualReset (update_lightChange (Some ls) (Some pls) (update_clear s))"
  have i: "intersection_of ?s3 = intersection_of s" and dd: "detectorDistance ?s3 = detectorDistance s"
    by (simp_all add: update_manualReset_facts update_lightChange_facts update_clear_facts)
  note cc = counts_cong [OF i dd]
  have sr: "shouldResetCounts (update_lightChange (Some ls) (Some pls) (update_clear s))
            = shouldResetCounts s"
    by (simp add: update_lightChange_def update_clear_def DIRECTIONS_def resetCarCount_def Let_def)
  have u: "fst (update_sensors cars (Some ls) (Some pls) clock s)
           = update_waitTimes (fst (update_cars (Some ls) clock 0 ?s3 cars))"
    by (simp add: update_sensors_def Let_def split_def)
  note F = update_cars_facts [of "Some ls" clock 0 ?s3 cars d, unfolded cc]
  show "totalCarsDetected (fst (update_sensors cars (Some ls) (Some pls) clock s)) d
     = (if ls d \<noteq> pls d \<or> shouldResetCounts s then 0 else totalCarsDetected s d)
       + length (filter (counts_new (Some ls) s d) cars)"
    using F by (auto simp: u sr update_waitTimes_facts update_manualReset_facts
        update_lightChange_facts update_clear_facts)
  show "carsWaiting (sensorData (fst (update_sensors cars (Some ls) (Some pls) clock s)) d)
     = length (filter (counts_waiting (Some ls) s d) cars)"
    using F by (simp add: u update_waitTimes_facts update_manualReset_facts
        update_lightChange_facts update_clear_facts)
  show "sd_totalCarsDetected (sensorData (fst (update_sensors cars (Some ls) (Some pls) clock s)) d)
     = (if filter (counts_new (Some ls) s d) cars = []
        then sd_totalCarsDetected (sensorData s d)
        else (if ls d \<noteq> pls d \<or> shouldResetCounts s then 0 else totalCarsDetected s d)
             + length (filter (counts_new (Some ls) s d) cars))"
    using F by (auto simp: u sr update_waitTimes_facts update_manualReset_facts
        update_lightChange_facts update_clear_facts)
  assume "filter (counts_waiting (Some ls) s d) cars = []"
  with F have "waitingCars (fst (update_cars (Some ls) clock 0 ?s3 cars)) d = None"
    by (simp add: update_manualReset_facts update_lightChange_facts update_clear_facts)
  with F show "waitTime (sensorData (fst (update_sensors cars (Some ls) (Some pls) clock s)) d) = 0"
    by (simp add: u update_waitTimes_facts update_manualReset_facts
        update_lightChange_facts update_clear_facts)
qed

lemma not_red_counts:
  "ls d \<noteq> Red \<Longrightarrow> filter (counts_new (Some ls) s d) cars = []"
  "ls d \<noteq> Red \<Longrightarrow> filter (counts_waiting (Some ls) s d) cars = []"
  by (simp_all add: counts_new_def counts_waiting_def isRed_def)

text \<open>
  Claim C7, amended. When the colour of the approach \<open>d\<close> differs from the previous
  tick's, \<open>update\<close> resets not only \<open>carsWaiting\<close> and \<open>waitTime\<close> of \<open>d\<close> but also the
  cumulative counter \<open>totalCarsDetected[d]\<close>, by \<open>resetCarCount\<close>, before it processes
  the cars. After the update the counter is the number of cars of \<open>d\<close> newly counted in
  this tick, whatever it was before; \<open>carsWaiting\<close> is the number of cars of \<open>d\<close> waiting in
  the zone in this tick; \<open>waitTime\<close> is 0 when there is none; and all three are 0 when the
  new colour is not red. The copy \<open>sensorData[d].totalCarsDetected\<close> is not reset: it
  keeps its value until a car is counted and then takes the restarted counter's value.
\<close>

theorem update_sensors_lightChange:
  assumes "ls d \<noteq> pls d"
  shows "totalCarsDetected (fst (update_sensors cars (Some ls) (Some pls) clock s)) d
           = length (filter (counts_new (Some ls) s d) cars)
       \<and> carsWaiting (sensorData (fst (update_sensors cars (Some ls) (Some pls) clock s)) d)
           = length (filter (counts_waiting (Some ls) s d) cars)
       \<and> (filter (counts_waiting (Some ls) s d) cars = [] \<longrightarrow>
            waitTime (sensorData (fst (update_sensors cars (Some ls) (Some pls) clock s)) d) = 0)
       \<and> sd_totalCarsDetected (sensorData (fst (update_sensors cars (Some ls) (Some pls) clock s)) d)
           = (if filter (counts_new (Some ls) s d) cars = []
              then sd_totalCarsDetected (sensorData s d)
              else length (filter (counts_new (Some ls) s d) cars))
       \<and> (ls d \<noteq> Red \<longrightarrow>
            totalCarsDetected (fst (update_sensors cars (Some ls) (Some pls) clock s)) d = 0
            \<and> carsWaiting (sensorData (fst (update_sensors cars (Some ls) (Some pls) clock s)) d) = 0
            \<and> waitTime (sensorData (fst (update_sensors cars (Some ls) (Some pls) clock s)) d) = 0)"
  using assms by (simp add: update_sensors_facts not_red_counts)


lemma update_sensors_geometry:
  "intersection_of (fst (update_sensors cars (Some ls) (Some pls) clock s)) = intersection_of s"
  "detectorDistance (fst (update_sensors cars (Some ls) (Some pls) clock s)) = detectorDistance s"
proof -
  let ?s3 = "update_manualReset (update_lightChange (Some ls) (Some pls) (update_clear s))"
  have w: "intersection_of (update_waitTimes t) = intersection_of t"
          "detectorDistance (update_waitTimes t) = detectorDistance t" for t
    by (simp_all add: update_waitTimes_def DIRECTIONS_def split: option.split)
  have u: "fst (update_sensors cars (Some ls) (Some pls) clock s)
           = update_waitTimes (fst (update_cars (Some ls) clock 0 ?s3 cars))"
    by (simp add: update_sensors_def Let_def split_def)
  note F = update_cars_facts [of "Some ls" clock 0 ?s3 cars North]
  show "intersection_of (fst (update_sensors cars (Some ls) (Some pls) clock s)) = intersection_of s"
    using F by (simp add: u w update_manualReset_facts update_lightChange_facts update_clear_facts)
  show "detectorDistance (fst (update_sensors cars (Some ls) (Some pls) clock s)) = detectorDistance s"
    using F by (simp add: u w update_manualReset_facts update_lightChange_facts update_clear_facts)
qed

lemma example_car_counts:
  assumes "intersection_of s = \<lparr> centerX = 600, centerY = 600 \<rparr>" "detectorDistance s = 500"
  shows "counts_new (Some (\<lambda>d. Red)) s North (example_car\<lparr> id_car := i \<rparr>)"
    and "counts_waiting (Some (\<lambda>d. Red)) s North (example_car\<lparr> id_car := i \<rparr>)"
    and "counts_new (Some (\<lambda>d. Red)) s North example_car"
  using assms
  by (simp_all add: counts_new_def counts_waiting_def isRed_def inZone_def example_car_def
      isCarInDetectionZone_def getDetectionZone_def getStopLinePosition_def ROAD_WIDTH_def)

lemma sensors0:
  "intersection_of (SensorSystem_new i) = i"
  "detectorDistance (SensorSystem_new i) = 500"
  "totalCarsDetected (SensorSystem_new i) d = 0"
  "shouldResetCounts (SensorSystem_new i) = False"
  by (simp_all add: SensorSystem_new_def initializeSensors_def)

lemma detected_once_facts:
  "intersection_of (fst detected_once) = \<lparr> centerX = 600, centerY = 600 \<rparr>"
  "detectorDistance (fst detected_once) = 500"
  "totalCarsDetected (fst detected_once) North = 1"
  "sd_totalCarsDetected (sensorData (fst detected_once) North) = 1"
  unfolding detected_once_def
  by (simp_all add: update_sensors_geometry update_sensors_facts sensors0
      example_car_counts [OF sensors0(1) sensors0(2)])

text \<open>
  The claim as stated fails: after one car has been counted on the north approach under
  red, the counter of north is 1; in the next update north and south have turned green,
  and the counter of north is 0.
\<close>

theorem totalCarsDetected_reset_counterexample:
  "totalCarsDetected (fst detected_once) North = 1
   \<and> totalCarsDetected (fst (update_sensors (snd detected_once)
         (Some ((\<lambda>d. Red)(North := Green, South := Green))) (Some (\<lambda>d. Red)) (\<lambda>k. 0)
         (fst detected_once))) North = 0"
  by (simp add: detected_once_facts update_sensors_facts not_red_counts)

text \<open>
  After one car has been counted on the north approach: when north turns green, the
  counter, \<open>carsWaiting\<close> and \<open>waitTime\<close> of north are 0 and the copy in \<open>sensorData\<close>
  is still 1; when north turns from yellow to red with a new waiting car in the zone, the
  counter is 1 (not 2) and \<open>carsWaiting\<close> is 1.
\<close>

theorem update_sensors_lightChange_witness:
  "((\<lambda>d. Red)(North := Green, South := Green)) North \<noteq> (\<lambda>d. Red) North
   \<and> totalCarsDetected (fst (update_sensors (snd detected_once)
         (Some ((\<lambda>d. Red)(North := Green, South := Green))) (Some (\<lambda>d. Red)) (\<lambda>k. 0)
         (fst detected_once))) North = 0
   \<and> carsWaiting (sensorData (fst (update_sensors (snd detected_once)
         (Some ((\<lambda>d. Red)(North := Green, South := Green))) (Some (\<lambda>d. Red)) (\<lambda>k. 0)
         (fst detected_once))) North) = 0
   \<and> waitTime (sensorData (fst (update_sensors (snd detected_once)
         (Some ((\<lambda>d. Red)(North := Green, South := Green))) (Some (\<lambda>d. Red)) (\<lambda>k. 0)
         (fst detected_once))) North) = 0
   \<and> sd_totalCarsDetected (sensorData (fst (update_sensors (snd detected_once)
         (Some ((\<lambda>d. Red)(North := Green, South := Green))) (Some (\<lambda>d. Red)) (\<lambda>k. 0)
         (fst detected_once))) North) = 1
   \<and> totalCarsDetected (fst (update_sensors [example_car\<lparr> id_car := 2 \<rparr>]
         (Some (\<lambda>d. Red)) (Some ((\<lambda>d. Red)(North := Yellow, South := Yellow))) (\<lambda>k. 0)
         (fst detected_once))) North = 1
   \<and> carsWaiting (sensorData (fst (update_sensors [example_car\<lparr> id_car := 2 \<rparr>]
         (Some (\<lambda>d. Red)) (Some ((\<lambda>d. Red)(North := Yellow, South := Yellow))) (\<lambda>k. 0)
         (fst detected_once))) North) = 1"
proof -
  let ?g = "(\<lambda>d. Red)(North := Green, South := Green)"
  let ?y = "(\<lambda>d. Red)(North := Yellow, South := Yellow)"
  let ?r = "\<lambda>d::direction. Red"
  have h1: "?g North \<noteq> ?r North" by simp
  have h2: "?r North \<noteq> ?y North" by simp
  have nr: "?g North \<noteq> Red" by simp
  have e1: "filter (counts_new (Some ?g) (fst detected_once) North) (snd detected_once) = []"
    and e2: "filter (counts_waiting (Some ?g) (fst detected_once) North) (snd detected_once) = []"
    using nr by (simp_all add: counts_new_def counts_waiting_def isRed_def)
  have n: "filter (counts_new (Some ?r) (fst detected_once) North) [example_car\<lparr> id_car := 2 \<rparr>]
           = [example_car\<lparr> id_car := 2 \<rparr>]"
    and w: "filter (counts_waiting (Some ?r) (fst detected_once) North) [example_car\<lparr> id_car := 2 \<rparr>]
           = [example_car\<lparr> id_car := 2 \<rparr>]"
    by (simp_all add: example_car_counts [OF detected_once_facts(1) detected_once_facts(2)])
  from update_sensors_lightChange [where ls = ?g and pls = ?r and d = North
           and cars = "snd detected_once" and clock = "\<lambda>k. 0" and s = "fst detected_once", OF h1]
       update_sensors_lightChange [where ls = ?r and pls = ?y and d = North
           and cars = "[example_car\<lparr> id_car := 2 \<rparr>]" and clock = "\<lambda>k. 0"
           and s = "fst detected_once", OF h2]
  show ?thesis
    unfolding e1 e2 n w using nr by (simp add: detected_once_facts)
qed


subsection \<open>Transfers between roads\<close>

lemma roadID_nth:
  assumes "map roadID nw' = map roadID nw" "r < length nw"
  shows "roadID (nw' ! r) = roadID (nw ! r)"
proof -
  from assms(1) have l: "length nw' = length nw" by (rule map_eq_imp_length_eq)
  have "roadID (nw' ! r) = map roadID nw' ! r" using assms(2) l by simp
  also have "\<dots> = map roadID nw ! r" by (simp only: assms(1))
  also have "\<dots> = roadID (nw ! r)" using assms(2) by simp
  finally show ?thesis .
qed

lemma shouldUseConnection_cong:
  assumes "map roadID nw' = map roadID nw" "k < length nw" "targetRoad c < length nw"
  shows "shouldUseConnection nw' k v c = shouldUseConnection nw k v c"
  unfolding shouldUseConnection_def
    roadID_nth [OF assms(1) assms(2)] roadID_nth [OF assms(1) assms(3)] ..

lemma transferred_cong:
  assumes "map roadID nw' = map roadID nw" "targetRoad c < length nw"
  shows "transferred nw' c v = transferred nw c v"
  unfolding transferred_def roadID_nth [OF assms] ..

lemma transferred_id: "id_veh (transferred nw c v) = id_veh v"
  by (simp add: transferred_def)

lemma map_update_same: "(map f xs)[i := f (xs ! i)] = map f xs"
  by (metis list_update_id map_update)

lemma transferVehicle_frame:
  assumes "k < length nw" "targetRoad c < length nw"
  shows "map roadID (transferVehicle nw k v c i) = map roadID nw"
    and "length (transferVehicle nw k v c i) = length nw"
  using assms
  by (simp_all add: transferVehicle_def Let_def map_update map_update_same nth_list_update)

lemma transferVehicle_other:
  assumes "k < length nw" "targetRoad c < length nw" "r \<noteq> k" "r \<noteq> targetRoad c"
  shows "veh (transferVehicle nw k v c i ! r) = veh (nw ! r)"
  using assms by (simp add: transferVehicle_def Let_def)

lemma transferVehicle_away:
  assumes "k < length nw" "targetRoad c < length nw" "targetRoad c \<noteq> k"
  shows "veh (transferVehicle nw k v c i ! k) = take i (veh (nw ! k)) @ drop (Suc i) (veh (nw ! k))"
    and "veh (transferVehicle nw k v c i ! targetRoad c)
         = veh (nw ! targetRoad c) @ [transferred nw c v]"
  using assms
  by (simp_all add: transferVehicle_def Let_def transferred_def nth_list_update)

lemma transferVehicle_self:
  assumes "k < length nw" "targetRoad c = k"
  shows "veh (transferVehicle nw k v c i ! k)
         = take i (veh (nw ! k)) @ drop (Suc i) (veh (nw ! k)) @ [transferred nw c v]"
  using assms
  by (simp add: transferVehicle_def Let_def transferred_def nth_list_update)


lemma uses_cong:
  assumes "map roadID nw' = map roadID nw" "k < length nw" "targetRoad c < length nw"
  shows "uses nw' k c = uses nw k c"
  unfolding uses_def shouldUseConnection_cong [OF assms] ..

lemma processConnection_loop_char:
  assumes "k < length nw" "targetRoad c < length nw" "i \<le> length (veh (nw ! k))"
  shows "\<exists>nw'. processConnection_loop k c i nw = Some nw'
           \<and> map roadID nw' = map roadID nw
           \<and> (\<forall>r < length nw. r \<noteq> k \<longrightarrow> r \<noteq> targetRoad c \<longrightarrow> veh (nw' ! r) = veh (nw ! r))
           \<and> (targetRoad c \<noteq> k \<longrightarrow>
                veh (nw' ! k) = filter (\<lambda>v. \<not> uses nw k c v) (take i (veh (nw ! k)))
                                 @ drop i (veh (nw ! k))
                \<and> veh (nw' ! targetRoad c)
                    = veh (nw ! targetRoad c)
                      @ map (transferred nw c) (rev (filter (uses nw k c) (take i (veh (nw ! k))))))
           \<and> (targetRoad c = k \<longrightarrow>
                veh (nw' ! k) = filter (\<lambda>v. \<not> uses nw k c v) (take i (veh (nw ! k)))
                                 @ drop i (veh (nw ! k))
                                 @ map (transferred nw c) (rev (filter (uses nw k c) (take i (veh (nw ! k))))))"
  using assms
proof (induction i arbitrary: nw)
  case 0
  then show ?case by simp
next
  case (Suc i)
  let ?vs = "veh (nw ! k)"
  let ?v = "?vs ! i"
  from Suc.prems(3) have i: "i < length ?vs" by simp
  have tk: "take (Suc i) ?vs = take i ?vs @ [?v]" using i by (simp add: take_Suc_conv_app_nth)
  have dr: "drop i ?vs = ?v # drop (Suc i) ?vs" using i by (simp add: Cons_nth_drop_Suc)
  show ?case
  proof (cases "uses nw k c ?v")
    case False
    then have step: "processConnection_loop k c (Suc i) nw = processConnection_loop k c i nw"
      using i by (auto simp: uses_def Let_def)
    from Suc.IH [OF Suc.prems(1) Suc.prems(2)] i
    obtain nw' where IH: "processConnection_loop k c i nw = Some nw'"
      "map roadID nw' = map roadID nw"
      "\<forall>r < length nw. r \<noteq> k \<longrightarrow> r \<noteq> targetRoad c \<longrightarrow> veh (nw' ! r) = veh (nw ! r)"
      "targetRoad c \<noteq> k \<longrightarrow>
                veh (nw' ! k) = filter (\<lambda>v. \<not> uses nw k c v) (take i ?vs) @ drop i ?vs
                \<and> veh (nw' ! targetRoad c)
                    = veh (nw ! targetRoad c)
                      @ map (transferred nw c) (rev (filter (uses nw k c) (take i ?vs)))"
      "targetRoad c = k \<longrightarrow>
                veh (nw' ! k) = filter (\<lambda>v. \<not> uses nw k c v) (take i ?vs) @ drop i ?vs
                                 @ map (transferred nw c) (rev (filter (uses nw k c) (take i ?vs)))"
      by (meson less_imp_le)
    show ?thesis
      unfolding step using IH False by (simp add: tk dr del: processConnection_loop.simps)
  next
    case True
    let ?nw1 = "transferVehicle nw k ?v c i"
    have step: "processConnection_loop k c (Suc i) nw = processConnection_loop k c i ?nw1"
      using i True by (simp add: uses_def Let_def)
    have fr: "map roadID ?nw1 = map roadID nw" and len: "length ?nw1 = length nw"
      using Suc.prems(1,2) by (simp_all add: transferVehicle_frame)
    have k1: "k < length ?nw1" and t1: "targetRoad c < length ?nw1"
      using Suc.prems(1,2) len by simp_all
    note uc = uses_cong [OF fr Suc.prems(1) Suc.prems(2)]
    note trc = transferred_cong [OF fr Suc.prems(2)]
    show ?thesis
    proof (cases "targetRoad c = k")
      case self: True
      have vs1: "veh (?nw1 ! k) = take i ?vs @ drop (Suc i) ?vs @ [transferred nw c ?v]"
        using Suc.prems(1) self by (simp add: transferVehicle_self)
      have i1: "i \<le> length (veh (?nw1 ! k))" using i by (simp add: vs1)
      have tk1: "take i (veh (?nw1 ! k)) = take i ?vs" using i by (simp add: vs1)
      have dr1: "drop i (veh (?nw1 ! k)) = drop (Suc i) ?vs @ [transferred nw c ?v]"
        using i by (simp add: vs1)
      from Suc.IH [OF k1 t1 i1]
      obtain nw' where IH: "processConnection_loop k c i ?nw1 = Some nw'"
        "map roadID nw' = map roadID ?nw1"
        "\<forall>r < length ?nw1. r \<noteq> k \<longrightarrow> r \<noteq> targetRoad c \<longrightarrow> veh (nw' ! r) = veh (?nw1 ! r)"
        "veh (nw' ! k) = filter (\<lambda>v. \<not> uses ?nw1 k c v) (take i (veh (?nw1 ! k)))
                           @ drop i (veh (?nw1 ! k))
                           @ map (transferred ?nw1 c) (rev (filter (uses ?nw1 k c) (take i (veh (?nw1 ! k)))))"
        using self by blast
      have oth: "\<forall>r < length nw. r \<noteq> k \<longrightarrow> r \<noteq> targetRoad c \<longrightarrow> veh (nw' ! r) = veh (nw ! r)"
        using IH(3) len Suc.prems(1,2) by (simp add: transferVehicle_other)
      show ?thesis
        using IH(1,2,4) oth True self unfolding step uc trc tk1 dr1
        by (simp add: fr tk del: processConnection_loop.simps)
    next
      case away: False
      have vs1: "veh (?nw1 ! k) = take i ?vs @ drop (Suc i) ?vs"
        and vt1: "veh (?nw1 ! targetRoad c) = veh (nw ! targetRoad c) @ [transferred nw c ?v]"
        using Suc.prems(1,2) away by (simp_all add: transferVehicle_away)
      have i1: "i \<le> length (veh (?nw1 ! k))" using i by (simp add: vs1)
      have tk1: "take i (veh (?nw1 ! k)) = take i ?vs" using i by (simp add: vs1)
      have dr1: "drop i (veh (?nw1 ! k)) = drop (Suc i) ?vs"
        using i by (simp add: vs1)
      from Suc.IH [OF k1 t1 i1]
      obtain nw' where IH: "processConnection_loop k c i ?nw1 = Some nw'"
        "map roadID nw' = map roadID ?nw1"
        "\<forall>r < length ?nw1. r \<noteq> k \<longrightarrow> r \<noteq> targetRoad c \<longrightarrow> veh (nw' ! r) = veh (?nw1 ! r)"
        "veh (nw' ! k) = filter (\<lambda>v. \<not> uses ?nw1 k c v) (take i (veh (?nw1 ! k)))
                           @ drop i (veh (?nw1 ! k))"
        "veh (nw' ! targetRoad c)
                    = veh (?nw1 ! targetRoad c)
                      @ map (transferred ?nw1 c) (rev (filter (uses ?nw1 k c) (take i (veh (?nw1 ! k)))))"
        using away by blast
      have oth: "\<forall>r < length nw. r \<noteq> k \<longrightarrow> r \<noteq> targetRoad c \<longrightarrow> veh (nw' ! r) = veh (nw ! r)"
        using IH(3) len Suc.prems(1,2) by (simp add: transferVehicle_other)
      show ?thesis
        using IH(1,2,4,5) oth True away unfolding step uc trc tk1 dr1 vt1
        by (simp add: fr tk del: processConnection_loop.simps)
    qed
  qed
qed


lemma processConnection_pass:
  assumes "k < length nw" "targetRoad c < length nw"
  shows "\<exists>nw'. processConnection_loop k c (length (veh (nw ! k))) nw = Some nw'
           \<and> map roadID nw' = map roadID nw
           \<and> (\<forall>r < length nw. r \<noteq> k \<longrightarrow> r \<noteq> targetRoad c \<longrightarrow> veh (nw' ! r) = veh (nw ! r))
           \<and> (targetRoad c \<noteq> k \<longrightarrow>
                veh (nw' ! k) = filter (\<lambda>v. \<not> uses nw k c v) (veh (nw ! k))
                \<and> veh (nw' ! targetRoad c)
                    = veh (nw ! targetRoad c)
                      @ map (transferred nw c) (rev (filter (uses nw k c) (veh (nw ! k)))))
           \<and> (targetRoad c = k \<longrightarrow>
                veh (nw' ! k) = filter (\<lambda>v. \<not> uses nw k c v) (veh (nw ! k))
                                 @ map (transferred nw c) (rev (filter (uses nw k c) (veh (nw ! k)))))"
  using processConnection_loop_char [OF assms, of "length (veh (nw ! k))"] by simp

lemma distinct_ids_split:
  assumes "distinct (map id_veh vs)"
  shows "distinct (map id_veh (filter (\<lambda>v. \<not> P v) vs @ map (transferred nw c) (rev (filter P vs))))"
proof -
  have inj: "inj_on id_veh (set vs)" using assms by (simp add: distinct_map)
  have a: "distinct (map id_veh (filter (\<lambda>v. \<not> P v) vs))"
    using assms by (rule distinct_map_filter)
  have b: "distinct (map id_veh (filter P vs))"
    using assms by (rule distinct_map_filter)
  have m: "map id_veh (filter (\<lambda>v. \<not> P v) vs @ map (transferred nw c) (rev (filter P vs)))
           = map id_veh (filter (\<lambda>v. \<not> P v) vs) @ rev (map id_veh (filter P vs))"
    by (simp add: rev_map transferred_id comp_def)
  have disj: "id_veh ` {x \<in> set vs. \<not> P x} \<inter> id_veh ` {x \<in> set vs. P x} = {}"
    using inj by (auto dest: inj_onD)
  show ?thesis
    unfolding m using a b disj by simp
qed

lemma processConnection_pass_facts:
  assumes "k < length nw" "targetRoad c < length nw"
  shows "\<exists>nw'. processConnection_loop k c (length (veh (nw ! k))) nw = Some nw'
           \<and> map roadID nw' = map roadID nw
           \<and> id_veh ` set (veh (nw' ! k)) \<subseteq> id_veh ` set (veh (nw ! k))
           \<and> (\<forall>r < length nw. r \<noteq> k \<longrightarrow> set (veh (nw ! r)) \<subseteq> set (veh (nw' ! r)))
           \<and> (distinct (map id_veh (veh (nw ! k))) \<longrightarrow> distinct (map id_veh (veh (nw' ! k))))
           \<and> (\<forall>v \<in> set (veh (nw ! k)). \<not> uses nw k c v \<longrightarrow> v \<in> set (veh (nw' ! k)))
           \<and> (\<forall>v \<in> set (veh (nw ! k)). uses nw k c v \<longrightarrow> targetRoad c \<noteq> k \<longrightarrow>
                 transferred nw c v \<in> set (veh (nw' ! targetRoad c))
                 \<and> (distinct (map id_veh (veh (nw ! k)))
                      \<longrightarrow> id_veh v \<notin> id_veh ` set (veh (nw' ! k))))"
proof -
  let ?vs = "veh (nw ! k)"
  from processConnection_pass [OF assms]
  obtain nw' where P: "processConnection_loop k c (length ?vs) nw = Some nw'"
      "map roadID nw' = map roadID nw"
      "\<forall>r < length nw. r \<noteq> k \<longrightarrow> r \<noteq> targetRoad c \<longrightarrow> veh (nw' ! r) = veh (nw ! r)"
      "targetRoad c \<noteq> k \<longrightarrow>
                veh (nw' ! k) = filter (\<lambda>v. \<not> uses nw k c v) ?vs
                \<and> veh (nw' ! targetRoad c)
                    = veh (nw ! targetRoad c)
                      @ map (transferred nw c) (rev (filter (uses nw k c) ?vs))"
      "targetRoad c = k \<longrightarrow>
                veh (nw' ! k) = filter (\<lambda>v. \<not> uses nw k c v) ?vs
                                 @ map (transferred nw c) (rev (filter (uses nw k c) ?vs))"
    by blast
  have ids: "id_veh ` set (veh (nw' ! k)) \<subseteq> id_veh ` set ?vs"
  proof (cases "targetRoad c = k")
    case True
    with P(5) show ?thesis by (auto simp: transferred_id image_iff)
  next
    case False
    with P(4) show ?thesis by auto
  qed
  have grow: "\<forall>r < length nw. r \<noteq> k \<longrightarrow> set (veh (nw ! r)) \<subseteq> set (veh (nw' ! r))"
  proof (intro allI impI)
    fix r assume r: "r < length nw" "r \<noteq> k"
    show "set (veh (nw ! r)) \<subseteq> set (veh (nw' ! r))"
    proof (cases "r = targetRoad c")
      case True
      with r P(4) show ?thesis by auto
    next
      case False
      with r P(3) show ?thesis by simp
    qed
  qed
  have dist: "distinct (map id_veh ?vs) \<longrightarrow> distinct (map id_veh (veh (nw' ! k)))"
  proof
    assume d: "distinct (map id_veh ?vs)"
    show "distinct (map id_veh (veh (nw' ! k)))"
    proof (cases "targetRoad c = k")
      case True
      with P(5) distinct_ids_split [OF d, of "uses nw k c" nw c] show ?thesis by simp
    next
      case False
      with P(4) d show ?thesis by (simp add: distinct_map_filter)
    qed
  qed
  have stay: "\<forall>v \<in> set ?vs. \<not> uses nw k c v \<longrightarrow> v \<in> set (veh (nw' ! k))"
    using P(4,5) by (cases "targetRoad c = k") auto
  have go: "\<forall>v \<in> set ?vs. uses nw k c v \<longrightarrow> targetRoad c \<noteq> k \<longrightarrow>
                 transferred nw c v \<in> set (veh (nw' ! targetRoad c))
                 \<and> (distinct (map id_veh ?vs) \<longrightarrow> id_veh v \<notin> id_veh ` set (veh (nw' ! k)))"
  proof (intro ballI impI conjI)
    fix v assume v: "v \<in> set ?vs" "uses nw k c v" and away: "targetRoad c \<noteq> k"
    from away P(4) v show "transferred nw c v \<in> set (veh (nw' ! targetRoad c))" by simp
    assume d: "distinct (map id_veh ?vs)"
    then have inj: "inj_on id_veh (set ?vs)" by (simp add: distinct_map)
    show "id_veh v \<notin> id_veh ` set (veh (nw' ! k))"
    proof
      assume "id_veh v \<in> id_veh ` set (veh (nw' ! k))"
      then obtain w where w: "w \<in> set ?vs" "\<not> uses nw k c w" "id_veh w = id_veh v"
        using away P(4) by auto
      with inj v(1) have "w = v" by (auto dest: inj_onD)
      with w(2) v(2) show False by simp
    qed
  qed
  from P(1,2) ids grow dist stay go show ?thesis by blast
qed


lemma processConnections_loop_mono:
  assumes "k < length nw" "list_all (\<lambda>c. targetRoad c < length nw) cs"
  shows "\<exists>nw'. processConnections_loop k cs nw = Some nw'
           \<and> map roadID nw' = map roadID nw
           \<and> id_veh ` set (veh (nw' ! k)) \<subseteq> id_veh ` set (veh (nw ! k))
           \<and> (\<forall>r < length nw. r \<noteq> k \<longrightarrow> set (veh (nw ! r)) \<subseteq> set (veh (nw' ! r)))"
  using assms
proof (induction cs arbitrary: nw)
  case Nil
  then show ?case by simp
next
  case (Cons c cs)
  from Cons.prems have t: "targetRoad c < length nw"
    and ts: "list_all (\<lambda>c. targetRoad c < length nw) cs" by simp_all
  from processConnection_pass_facts [OF Cons.prems(1) t]
  obtain nw1 where 1: "processConnection_loop k c (length (veh (nw ! k))) nw = Some nw1"
      "map roadID nw1 = map roadID nw"
      "id_veh ` set (veh (nw1 ! k)) \<subseteq> id_veh ` set (veh (nw ! k))"
      "\<forall>r < length nw. r \<noteq> k \<longrightarrow> set (veh (nw ! r)) \<subseteq> set (veh (nw1 ! r))"
    by blast
  from 1(2) have len: "length nw1 = length nw" by (rule map_eq_imp_length_eq)
  from Cons.IH [of nw1] Cons.prems(1) ts len
  obtain nw' where 2: "processConnections_loop k cs nw1 = Some nw'"
      "map roadID nw' = map roadID nw1"
      "id_veh ` set (veh (nw' ! k)) \<subseteq> id_veh ` set (veh (nw1 ! k))"
      "\<forall>r < length nw1. r \<noteq> k \<longrightarrow> set (veh (nw1 ! r)) \<subseteq> set (veh (nw' ! r))"
    by auto
  have "processConnections_loop k (c # cs) nw = Some nw'" by (simp add: 1(1) 2(1))
  moreover have "map roadID nw' = map roadID nw" using 1(2) 2(2) by simp
  moreover have "id_veh ` set (veh (nw' ! k)) \<subseteq> id_veh ` set (veh (nw ! k))"
    using 1(3) 2(3) by blast
  moreover have "\<forall>r < length nw. r \<noteq> k \<longrightarrow> set (veh (nw ! r)) \<subseteq> set (veh (nw' ! r))"
    using 1(4) 2(4) len by (metis subset_trans)
  ultimately show ?case by blast
qed

lemma uses_route2:
  assumes "route v = Some [a, b]"
  shows "uses nw k c v \<longleftrightarrow> uSource c \<le> u_veh v \<and> roadID (nw ! targetRoad c) = b"
  using assms by (simp add: uses_def shouldUseConnection_def)

lemma transferred_route2:
  assumes "route v = Some [a, b]" "roadID (nw ! targetRoad c) = b"
  shows "transferred nw c v = v\<lparr> u_veh := uTarget c, roadID_veh := Some b, route := Some [b] \<rparr>"
  using assms by (simp add: transferred_def)

lemma processConnections_loop_track:
  assumes "k < length nw"
      and "list_all (\<lambda>c. targetRoad c < length nw) cs"
      and "v \<in> set (veh (nw ! k))"
      and "route v = Some [a, b]"
      and "b \<noteq> roadID (nw ! k)"
      and "list_ex (\<lambda>c. roadID (nw ! targetRoad c) = b \<and> uSource c \<le> u_veh v) cs"
      and "distinct (map id_veh (veh (nw ! k)))"
  shows "\<exists>nw' c. processConnections_loop k cs nw = Some nw'
           \<and> c \<in> set cs \<and> roadID (nw ! targetRoad c) = b \<and> uSource c \<le> u_veh v
           \<and> v\<lparr> u_veh := uTarget c, roadID_veh := Some b, route := Some [b] \<rparr>
               \<in> set (veh (nw' ! targetRoad c))
           \<and> id_veh v \<notin> id_veh ` set (veh (nw' ! k))"
  using assms
proof (induction cs arbitrary: nw)
  case Nil
  then show ?case by simp
next
  case (Cons c cs)
  from Cons.prems(2) have t: "targetRoad c < length nw"
    and ts: "list_all (\<lambda>c. targetRoad c < length nw) cs" by simp_all
  from processConnection_pass_facts [OF Cons.prems(1) t]
  obtain nw1 where 1: "processConnection_loop k c (length (veh (nw ! k))) nw = Some nw1"
      "map roadID nw1 = map roadID nw"
      "distinct (map id_veh (veh (nw ! k))) \<longrightarrow> distinct (map id_veh (veh (nw1 ! k)))"
      "\<forall>v \<in> set (veh (nw ! k)). \<not> uses nw k c v \<longrightarrow> v \<in> set (veh (nw1 ! k))"
      "\<forall>v \<in> set (veh (nw ! k)). uses nw k c v \<longrightarrow> targetRoad c \<noteq> k \<longrightarrow>
                 transferred nw c v \<in> set (veh (nw1 ! targetRoad c))
                 \<and> (distinct (map id_veh (veh (nw ! k)))
                      \<longrightarrow> id_veh v \<notin> id_veh ` set (veh (nw1 ! k)))"
    by blast
  from 1(2) have len: "length nw1 = length nw" by (rule map_eq_imp_length_eq)
  have k1: "k < length nw1" using Cons.prems(1) len by simp
  have ts1: "list_all (\<lambda>c. targetRoad c < length nw1) cs" using ts len by simp
  have step: "processConnections_loop k (c # cs) nw = processConnections_loop k cs nw1"
    by (simp add: 1(1))
  show ?case
  proof (cases "uses nw k c v")
    case True
    then have cb: "roadID (nw ! targetRoad c) = b" and cu: "uSource c \<le> u_veh v"
      using Cons.prems(4) by (simp_all add: uses_route2)
    with Cons.prems(5) have away: "targetRoad c \<noteq> k" by auto
    from 1(5) Cons.prems(3,7) True away
    have in1: "transferred nw c v \<in> set (veh (nw1 ! targetRoad c))"
      and out1: "id_veh v \<notin> id_veh ` set (veh (nw1 ! k))" by blast+
    from processConnections_loop_mono [OF k1 ts1]
    obtain nw' where 2: "processConnections_loop k cs nw1 = Some nw'"
      "id_veh ` set (veh (nw' ! k)) \<subseteq> id_veh ` set (veh (nw1 ! k))"
      "\<forall>r < length nw1. r \<noteq> k \<longrightarrow> set (veh (nw1 ! r)) \<subseteq> set (veh (nw' ! r))"
      by blast
    from 2(3) t len away in1 have "transferred nw c v \<in> set (veh (nw' ! targetRoad c))"
      by auto
    then have "v\<lparr> u_veh := uTarget c, roadID_veh := Some b, route := Some [b] \<rparr>
               \<in> set (veh (nw' ! targetRoad c))"
      by (simp add: transferred_route2 [OF Cons.prems(4) cb])
    moreover from 2(2) out1 have "id_veh v \<notin> id_veh ` set (veh (nw' ! k))" by blast
    ultimately show ?thesis
      unfolding step using 2(1) cb cu by auto
  next
    case False
    with 1(4) Cons.prems(3) have v1: "v \<in> set (veh (nw1 ! k))" by blast
    have b1: "b \<noteq> roadID (nw1 ! k)"
      using Cons.prems(5) roadID_nth [OF 1(2) Cons.prems(1)] by simp
    have rid: "roadID (nw1 ! targetRoad c') = roadID (nw ! targetRoad c')"
      if "c' \<in> set cs" for c'
      using that ts roadID_nth [OF 1(2)] by (simp add: list_all_iff)
    from False Cons.prems(4,6)
    have "list_ex (\<lambda>c. roadID (nw ! targetRoad c) = b \<and> uSource c \<le> u_veh v) cs"
      by (auto simp: uses_route2)
    then have ex1: "list_ex (\<lambda>c. roadID (nw1 ! targetRoad c) = b \<and> uSource c \<le> u_veh v) cs"
      using rid by (auto simp: list_ex_iff)
    have d1: "distinct (map id_veh (veh (nw1 ! k)))" using 1(3) Cons.prems(7) by simp
    from Cons.IH [OF k1 ts1 v1 Cons.prems(4) b1 ex1 d1]
    obtain nw' c' where 2: "processConnections_loop k cs nw1 = Some nw'"
      "c' \<in> set cs" "roadID (nw1 ! targetRoad c') = b" "uSource c' \<le> u_veh v"
      "v\<lparr> u_veh := uTarget c', roadID_veh := Some b, route := Some [b] \<rparr>
               \<in> set (veh (nw' ! targetRoad c'))"
      "id_veh v \<notin> id_veh ` set (veh (nw' ! k))"
      by blast
    from 2(2,3) rid have "roadID (nw ! targetRoad c') = b" by simp
    with 2 show ?thesis unfolding step by auto
  qed
qed

text \<open>
  Claim C6, amended. On any network, let a vehicle of the road at position \<open>k\<close> carry a
  route of two roads \<open>[a, b]\<close> with \<open>b\<close> another road than this one (\<open>[0, 5]\<close> on road 0),
  and let the road have a connection to the road \<open>b\<close> whose source offset the vehicle has
  reached. Then \<open>processConnections\<close> returns, and the vehicle has crossed such a
  connection: with \<open>u\<close> set to the connection's target offset, \<open>roadID\<close> set to \<open>b\<close> and
  the route reduced to \<open>[b]\<close>, it is in the vehicle array of the connection's target road,
  and (the vehicles of the road having distinct ids) no vehicle with its id is left on
  the road it came from. The network that \<open>setupConnections\<close> builds has no connection
  from road 0 to road 5, so the hypothesis fails there; see the counterexample.
\<close>

theorem processConnections_transfer:
  assumes "k < length nw"
      and "list_all (\<lambda>c. targetRoad c < length nw) (connects (nw ! k))"
      and "v \<in> set (veh (nw ! k))"
      and "route v = Some [a, b]"
      and "b \<noteq> roadID (nw ! k)"
      and "list_ex (\<lambda>c. roadID (nw ! targetRoad c) = b \<and> uSource c \<le> u_veh v) (connects (nw ! k))"
      and "distinct (map id_veh (veh (nw ! k)))"
  shows "\<exists>nw' c. processConnections k nw = Some nw'
           \<and> c \<in> set (connects (nw ! k))
           \<and> roadID (nw ! targetRoad c) = b \<and> uSource c \<le> u_veh v
           \<and> v\<lparr> u_veh := uTarget c, roadID_veh := Some b, route := Some [b] \<rparr>
               \<in> set (veh (nw' ! targetRoad c))
           \<and> id_veh v \<notin> id_veh ` set (veh (nw' ! k))"
  unfolding processConnections_def
  using assms by (rule processConnections_loop_track)


lemma nw_base:
  "initializeRoads =
     [(createRoad 0)\<lparr> connects := [\<lparr> targetRoad = 0, uSource = 190, uTarget = 10, offsetLane = 0 \<rparr>] \<rparr>,
      (createRoad 1)\<lparr> connects := [\<lparr> targetRoad = 1, uSource = 190, uTarget = 10, offsetLane = 0 \<rparr>] \<rparr>,
      (createRoad 2)\<lparr> connects := [\<lparr> targetRoad = 3, uSource = 190, uTarget = 10, offsetLane = 0 \<rparr>] \<rparr>,
      createRoad 3,
      (createRoad 4)\<lparr> connects := [\<lparr> targetRoad = 5, uSource = 190, uTarget = 10, offsetLane = 0 \<rparr>] \<rparr>,
      createRoad 5]"
  by (simp add: initializeRoads_def setupConnections_def connect_def createRoad_def Road_new_def
      eval_nat_numeral)

text \<open>
  The claim as stated fails on the network of the source: road 0 has the one connection
  \<open>0 \<rightarrow> 0\<close> at 190 m. A car of route \<open>[0, 5]\<close> at 195 m has reached that offset, but
  \<open>shouldUseConnection\<close> compares the target's id 0 with the route's next road 5, and
  \<open>processConnections\<close> leaves the network as it is: the car stays on road 0 with its
  route, and road 5 stays empty.
\<close>

theorem no_turn_connection_counterexample:
  "connects (put_vehicles 0 [car_05] initializeRoads ! 0)
     = [\<lparr> targetRoad = 0, uSource = 190, uTarget = 10, offsetLane = 0 \<rparr>]
   \<and> route car_05 = Some [0, 5] \<and> u_veh car_05 = 195
   \<and> processConnections 0 (put_vehicles 0 [car_05] initializeRoads)
     = Some (put_vehicles 0 [car_05] initializeRoads)
   \<and> veh (put_vehicles 0 [car_05] initializeRoads ! 0) = [car_05]
   \<and> veh (put_vehicles 0 [car_05] initializeRoads ! 5) = []"
  by (simp add: nw_base put_vehicles_def processConnections_def shouldUseConnection_def
      car_05_def car_at_def createVehicle_def createRoad_def Road_new_def Let_def)


lemma nw_turn:
  "put_vehicles 0 [car_05] (connect 0 5 190 10 initializeRoads) =
     [(createRoad 0)\<lparr> veh := [car_05],
         connects := [\<lparr> targetRoad = 0, uSource = 190, uTarget = 10, offsetLane = 0 \<rparr>,
                      \<lparr> targetRoad = 5, uSource = 190, uTarget = 10, offsetLane = 0 \<rparr>] \<rparr>,
      (createRoad 1)\<lparr> connects := [\<lparr> targetRoad = 1, uSource = 190, uTarget = 10, offsetLane = 0 \<rparr>] \<rparr>,
      (createRoad 2)\<lparr> connects := [\<lparr> targetRoad = 3, uSource = 190, uTarget = 10, offsetLane = 0 \<rparr>] \<rparr>,
      createRoad 3,
      (createRoad 4)\<lparr> connects := [\<lparr> targetRoad = 5, uSource = 190, uTarget = 10, offsetLane = 0 \<rparr>] \<rparr>,
      createRoad 5]"
  by (simp add: nw_base put_vehicles_def connect_def createRoad_def Road_new_def)

text \<open>
  The network of the source with a connection from road 0 to road 5 added (190 m to
  10 m): the car of route \<open>[0, 5]\<close> at 195 m moves to road 5, at \<open>u = 10\<close> with route
  \<open>[5]\<close>, and road 0 is empty.
\<close>

theorem processConnections_transfer_witness:
  "car_05 \<in> set (veh (put_vehicles 0 [car_05] (connect 0 5 190 10 initializeRoads) ! 0))
   \<and> route car_05 = Some [0, 5]
   \<and> (\<exists>nw' c. processConnections 0 (put_vehicles 0 [car_05] (connect 0 5 190 10 initializeRoads))
                 = Some nw'
          \<and> c \<in> set (connects (put_vehicles 0 [car_05] (connect 0 5 190 10 initializeRoads) ! 0))
          \<and> roadID (put_vehicles 0 [car_05] (connect 0 5 190 10 initializeRoads) ! targetRoad c) = 5
          \<and> uSource c \<le> u_veh car_05
          \<and> car_05\<lparr> u_veh := uTarget c, roadID_veh := Some 5, route := Some [5] \<rparr>
               \<in> set (veh (nw' ! targetRoad c))
          \<and> id_veh car_05 \<notin> id_veh ` set (veh (nw' ! 0)))
   \<and> processConnections 0 (put_vehicles 0 [car_05] (connect 0 5 190 10 initializeRoads))
      = Some (put_vehicles 5 [car_05\<lparr> u_veh := 10, roadID_veh := Some 5, route := Some [5] \<rparr>]
               (connect 0 5 190 10 initializeRoads))"
proof -
  let ?nw = "put_vehicles 0 [car_05] (connect 0 5 190 10 initializeRoads)"
  have 1: "0 < length ?nw" by (simp add: nw_turn)
  have 2: "list_all (\<lambda>c. targetRoad c < length ?nw) (connects (?nw ! 0))" by (simp add: nw_turn)
  have 3: "car_05 \<in> set (veh (?nw ! 0))" by (simp add: nw_turn)
  have 4: "route car_05 = Some [0, 5]" by (simp add: car_05_def)
  have 5: "5 \<noteq> roadID (?nw ! 0)" by (simp add: nw_turn createRoad_def Road_new_def)
  have u: "u_veh car_05 = 195" by (simp add: car_05_def car_at_def)
  have 6: "list_ex (\<lambda>c. roadID (?nw ! targetRoad c) = 5 \<and> uSource c \<le> u_veh car_05)
             (connects (?nw ! 0))"
    unfolding nw_turn by (simp add: u createRoad_def Road_new_def)
  have 7: "distinct (map id_veh (veh (?nw ! 0)))" by (simp add: nw_turn)
  have ev: "processConnections 0 ?nw
      = Some (put_vehicles 5 [car_05\<lparr> u_veh := 10, roadID_veh := Some 5, route := Some [5] \<rparr>]
               (connect 0 5 190 10 initializeRoads))"
    unfolding nw_turn
    by (simp add: nw_base put_vehicles_def connect_def processConnections_def
        shouldUseConnection_def transferVehicle_def transferred_def
        car_05_def car_at_def createVehicle_def createRoad_def Road_new_def Let_def)
  from processConnections_transfer [OF 1 2 3 4 5 6 7] 3 4 ev show ?thesis by blast
qed


end
